theory Spec2Isabelle
  imports Main "HOL-Library.Word"
begin

section \<open>Data model\<close>

text \<open>
  A \<^verbatim>\<open>Uint8Array\<close> is a list of bytes. Numbers that the code uses as lengths, sizes,
  indices and timestamps are natural numbers.
\<close>

type_synonym bytes = "8 word list"

text \<open>Swarm reference of an uploaded chunk: its position in the immutable chunk store.\<close>

type_synonym reference = nat

text \<open>
  A wallet is kept symbolic: the account's root wallet, or the wallet that
  \<^verbatim>\<open>getWalletByIndex\<close> derives from a wallet and a pod index. The same value stands for
  \<^verbatim>\<open>wallet.privateKey\<close> (which signs the single-owner chunks) and for \<^verbatim>\<open>wallet.address\<close>
  (under which they are looked up).
\<close>

datatype wallet = Account nat | Derived wallet nat

type_synonym address = wallet

text \<open>
  \<^verbatim>\<open>PodPasswordBytes\<close>, the symmetric key of \<^verbatim>\<open>encryptBytes\<close>: the password stored with a pod, or
  the bytes of a wallet's private key (the wallet being symbolic, so is its key).
\<close>

datatype pod_password = PodPasswordBytes bytes | PrivateKeyBytes wallet

text \<open>
  A JavaScript number as far as a block size needs it: an integer, \<^verbatim>\<open>NaN\<close> or an infinity.
  Numbers with a fraction, whose products are rounded, are not represented.
\<close>

datatype js_number = Finite int | NaN | Infinity | NegInfinity

definition getWalletByIndex :: "wallet \<Rightarrow> nat \<Rightarrow> wallet" where
  "getWalletByIndex w index = Derived w index"

text \<open>\<^verbatim>\<open>Epoch\<close> of feed/lookup/epoch: a level and a time.\<close>

record epoch =
  level :: nat
  time :: nat

text \<open>One entry of the blocks manifest (\<^verbatim>\<open>Blocks.blocks[i]\<close>).\<close>

record block =
  block_name :: "string option"
  block_size :: nat
  block_compressedSize :: nat
  block_reference :: reference

text \<open>
  \<^verbatim>\<open>FileMetadata\<close> of pod/types.ts, with the pod address and pod name that file/file.ts
  adds. The fields \<^verbatim>\<open>mode\<close> and \<^verbatim>\<open>sharedPassword\<close>, which only some sources have and no
  function below reads, are left out.
\<close>

record file_metadata =
  version :: nat
  podAddress :: "address option"
  podName :: "string option"
  filePath :: string
  fileName :: string
  fileSize :: nat
  blockSize :: js_number
  contentType :: string
  compression :: string
  creationTime :: nat
  accessTime :: nat
  modificationTime :: nat
  blocksReference :: reference

text \<open>\<^verbatim>\<open>RawDirectoryMetadata\<close> of pod/types.ts; \<^verbatim>\<open>fileOrDirNames\<close> may be null.\<close>

record directory_meta =
  dm_version :: nat
  dm_path :: string
  dm_name :: string
  dm_creationTime :: nat
  dm_modificationTime :: nat
  dm_accessTime :: nat

record raw_directory_metadata =
  meta :: directory_meta
  fileOrDirNames :: "string list option"

text \<open>\<^verbatim>\<open>Pod\<close> as PersonalStorage builds it: \<^verbatim>\<open>{ name, index }\<close>.\<close>

record pod =
  pod_name :: string
  pod_index :: nat

text \<open>
  Modelled from the spec: \<^verbatim>\<open>encryptBytes\<close>/\<^verbatim>\<open>decryptBytes\<close> (utils/encryption),
  \<^verbatim>\<open>stringToBytes\<close> and the JSON adapters (\<^verbatim>\<open>blocksToManifest\<close>,
  \<^verbatim>\<open>getFileMetadataRawBytes\<close>, \<^verbatim>\<open>podListToBytes\<close>) are not part of the sources at hand.
  What leaves the process is therefore kept symbolic: raw bytes, the serialisation of one
  of the metadata objects, or the encryption of such a payload under a pod password.
\<close>

datatype payload =
    Raw bytes
  | ManifestJson "block list"
  | FileJson file_metadata
  | DirJson raw_directory_metadata
  | PodsJson "pod list"
  | Encrypted pod_password payload

definition encryptBytes :: "pod_password \<Rightarrow> payload \<Rightarrow> payload" where
  "encryptBytes podPassword data = Encrypted podPassword data"

text \<open>
  What the code throws. Each constructor stands for one \<^verbatim>\<open>new Error(message)\<close> of the
  sources: \<open>AlreadyUploaded\<close> for \<^verbatim>\<open>... already uploaded to the network\<close>,
  \<open>AlreadyListed\<close> for \<^verbatim>\<open>... already listed in the parent directory list\<close>,
  \<open>ParentNotFound\<close> for \<^verbatim>\<open>Parent directory does not exist\<close>, \<open>PodNotFound\<close> for
  \<^verbatim>\<open>Pod ... does not exist\<close>, \<open>Unsupported\<close> for \<^verbatim>\<open>Compressed data is not supported yet\<close>.
  \<open>StoreError\<close> is whatever the chunk store or the transport throws, with its message
  when it has one.
\<close>

datatype error =
    IncorrectParentPath
  | IncorrectEntryPath
  | AlreadyUploaded string string
  | ParentNotFound
  | AlreadyListed string
  | PodNotFound string
  | PodAlreadyExists string
  | PodNameTooShort
  | PodNameTooLong
  | PodNameHasComma
  | TooManyPods
  | Unsupported
  | DataNotFound
  | InvalidMetadata
  | DecryptionError
  | RangeError
  | IncorrectPath
  | InvalidDirectoryName
  | TypeError
  | StoreError "string option"

text \<open>
  The network as the client sees it: the immutable chunk store, the single-owner chunks
  of every feed (owner address and topic, newest version first), the clock read by
  \<^verbatim>\<open>getUnixTimestamp\<close>, and \<open>soc_fault\<close>: when it is set, the store refuses every
  single-owner-chunk upload with that error (a transport or node failure).
\<close>

record network =
  chunks :: "payload list"
  feeds :: "address \<times> string \<Rightarrow> (epoch \<times> payload) list"
  clock :: nat
  soc_fault :: "string option option"

text \<open>
  Constants that the sources import from modules that are not at hand (pod/utils,
  feed/lookup/epoch, utils/error); every function that needs one takes this record.
\<close>

record constants =
  META_VERSION :: nat
  MAX_POD_NAME_LENGTH :: nat
  MAX_PODS_COUNT :: nat
  HIGHEST_LEVEL :: nat
  CHUNK_ALREADY_EXISTS_ERROR :: string

section \<open>Chunk store\<close>

text \<open>
  Modelled from the spec: \<^verbatim>\<open>uploadBytes\<close> (file/utils) is not part of the sources at hand.
  The store is immutable: an upload adds the chunk and returns a reference that no
  earlier chunk has.
\<close>

definition uploadBytes :: "network \<Rightarrow> payload \<Rightarrow> reference \<times> network" where
  "uploadBytes net data = (length (chunks net), net\<lparr>chunks := chunks net @ [data]\<rparr>)"

text \<open>\<^verbatim>\<open>bee.downloadData(reference)\<close>: the chunk, or the store's not-found error.\<close>

definition bee_downloadData :: "network \<Rightarrow> reference \<Rightarrow> error + payload" where
  "bee_downloadData net r =
     (if r < length (chunks net) then Inr (chunks net ! r) else Inl DataNotFound)"

section \<open>Splitting a file into blocks\<close>

text \<open>The bytes of a payload from position \<open>from\<close> up to, not including, position \<open>to\<close>.\<close>

definition slice_bytes :: "bytes \<Rightarrow> nat \<Rightarrow> nat \<Rightarrow> bytes" where
  "slice_bytes data from to = take (to - from) (drop from data)"

text \<open>
  \<^verbatim>\<open>data.slice(start, end)\<close> on a \<^verbatim>\<open>Uint8Array\<close>: each argument is made an index of the
  array (\<^verbatim>\<open>NaN\<close> is 0, a negative number counts from the end, everything is clamped to the
  length), and the bytes between the two indices are copied.
\<close>

definition to_index :: "nat \<Rightarrow> js_number \<Rightarrow> nat" where
  "to_index len x =
     (case x of
        Finite k \<Rightarrow> if k < 0 then nat (max (int len + k) 0) else min (nat k) len
      | NaN \<Rightarrow> 0
      | Infinity \<Rightarrow> len
      | NegInfinity \<Rightarrow> 0)"

definition typed_array_slice :: "bytes \<Rightarrow> js_number \<Rightarrow> js_number \<Rightarrow> bytes" where
  "typed_array_slice data start end =
     (let k = to_index (length data) start;
          final = to_index (length data) end
      in take (final - k) (drop k data))"

text \<open>\<^verbatim>\<open>i * blockSize\<close> for a loop counter \<open>i\<close>.\<close>

definition js_times :: "nat \<Rightarrow> js_number \<Rightarrow> js_number" where
  "js_times i x =
     (case x of
        Finite b \<Rightarrow> Finite (int i * b)
      | NaN \<Rightarrow> NaN
      | Infinity \<Rightarrow> if i = 0 then NaN else Infinity
      | NegInfinity \<Rightarrow> if i = 0 then NaN else NegInfinity)"

text \<open>
  The current block in the block loop of an upload:
  \<^verbatim>\<open>data.slice(i * blockSize, (i + 1) * blockSize)\<close>.
\<close>

definition block_bytes :: "bytes \<Rightarrow> js_number \<Rightarrow> nat \<Rightarrow> bytes" where
  "block_bytes data bs i = typed_array_slice data (js_times i bs) (js_times (i + 1) bs)"

text \<open>
  \<^verbatim>\<open>Math.ceil(data.length / blockSize)\<close>. The block size is whatever number the caller
  passed: nothing checks it. Division by zero gives \<^verbatim>\<open>NaN\<close> for empty data and
  \<^verbatim>\<open>Infinity\<close> otherwise, a negative block size gives a count that is not positive, and an
  infinite one gives zero.
\<close>

definition totalBlocks :: "nat \<Rightarrow> js_number \<Rightarrow> js_number" where
  "totalBlocks len bs =
     (case bs of
        Finite b \<Rightarrow>
          if b = 0 then (if len = 0 then NaN else Infinity)
          else if 0 < b then Finite ((int len + b - 1) div b)
          else Finite (- (int len div (- b)))
      | NaN \<Rightarrow> NaN
      | Infinity \<Rightarrow> Finite 0
      | NegInfinity \<Rightarrow> Finite 0)"

text \<open>
  The values that \<open>i\<close> takes in \<^verbatim>\<open>for (let i = 0; i < totalBlocks; i++)\<close>: none when the
  count is \<^verbatim>\<open>NaN\<close> or not positive; with the count \<^verbatim>\<open>Infinity\<close> the loop does not end,
  which is \<open>None\<close>.
\<close>

definition loop_indices :: "js_number \<Rightarrow> nat list option" where
  "loop_indices n =
     (case n of
        Finite k \<Rightarrow> Some [0..<nat k]
      | NaN \<Rightarrow> Some []
      | Infinity \<Rightarrow> None
      | NegInfinity \<Rightarrow> Some [])"

text \<open>
  The block loop of \<^verbatim>\<open>uploadData\<close> (file/handler): for each index the slice is handed to
  \<^verbatim>\<open>uploadBytes\<close> as it is and its size and reference are pushed on the manifest.
\<close>

fun uploadBlocks ::
  "bytes \<Rightarrow> js_number \<Rightarrow> nat list \<Rightarrow> network \<times> block list \<Rightarrow> network \<times> block list" where
  "uploadBlocks data bs [] (net, blocks) = (net, blocks)"
| "uploadBlocks data bs (i # is) (net, blocks) =
     (let currentBlock = block_bytes data bs i;
          (ref, net') = uploadBytes net (Raw currentBlock)
      in uploadBlocks data bs is
           (net', blocks @ [\<lparr>block_name = None, block_size = length currentBlock,
                             block_compressedSize = length currentBlock,
                             block_reference = ref\<rparr>]))"

section \<open>Feeds\<close>

text \<open>
  Modelled from the spec: the \<^verbatim>\<open>Epoch\<close> class (feed/lookup/epoch) is not part of the sources
  at hand. While the current time is inside the window of the epoch the next epoch is one
  level finer in the same window; at level 0, or outside the window, it is the highest
  level at the current time.
\<close>

definition getFirstEpoch :: "constants \<Rightarrow> nat \<Rightarrow> epoch" where
  "getFirstEpoch c currentTime = \<lparr>level = HIGHEST_LEVEL c, time = currentTime\<rparr>"

definition getNextEpoch :: "constants \<Rightarrow> epoch \<Rightarrow> nat \<Rightarrow> epoch" where
  "getNextEpoch c e currentTime =
     (if 0 < level e \<and> time e \<le> currentTime \<and> currentTime < time e + 2 ^ level e
      then \<lparr>level = level e - 1, time = time e\<rparr>
      else getFirstEpoch c currentTime)"

text \<open>\<^verbatim>\<open>LookupAnswer\<close>: the payload found and the epoch it was stored under.\<close>

record lookup_answer =
  la_data :: payload
  la_epoch :: epoch

text \<open>
  \<^verbatim>\<open>getNextEpoch(epoch?)\<close> of feed/lookup/utils, as \<^verbatim>\<open>uploadData\<close> calls it with the epoch
  of the path's lookup answer, if there is one.
\<close>

definition getNextEpoch_opt :: "constants \<Rightarrow> nat \<Rightarrow> epoch option \<Rightarrow> epoch" where
  "getNextEpoch_opt c currentTime e =
     (case e of None \<Rightarrow> getFirstEpoch c currentTime | Some e' \<Rightarrow> getNextEpoch c e' currentTime)"

text \<open>
  Modelled from the spec: \<^verbatim>\<open>lookup\<close> (feed/lookup/linear) is not part of the sources at
  hand. \<^verbatim>\<open>getFeedData\<close> returns the most recent version written to the topic under the
  owner's address and fails when there is none.
\<close>

definition getFeedData :: "network \<Rightarrow> string \<Rightarrow> address \<Rightarrow> error + lookup_answer" where
  "getFeedData net topic addr =
     (case feeds net (addr, topic) of
        [] \<Rightarrow> Inl DataNotFound
      | (e, d) # _ \<Rightarrow> Inr \<lparr>la_data = d, la_epoch = e\<rparr>)"

text \<open>What a feed write returns: the address of the single-owner chunk, or (from the
  catch branch of \<^verbatim>\<open>writeFeedDataRaw\<close>) the BMT address of the data.\<close>

datatype soc_reference = SocAddress address string epoch | BmtDataAddress payload

definition getBmtDataAddress :: "payload \<Rightarrow> soc_reference" where
  "getBmtDataAddress data = BmtDataAddress data"

text \<open>
  \<^verbatim>\<open>connection.bee.makeSOCWriter(privateKey).upload(batchId, id, data)\<close>, where \<^verbatim>\<open>id\<close> is
  made of the topic and the epoch. A single-owner chunk is immutable: the store refuses a
  second upload to the same owner, topic and epoch with the chunk-exists message.
\<close>

definition socWriter_upload ::
  "constants \<Rightarrow> network \<Rightarrow> wallet \<Rightarrow> string \<Rightarrow> epoch \<Rightarrow> payload \<Rightarrow> (error + soc_reference) \<times> network" where
  "socWriter_upload c net privateKey topic e data =
     (case soc_fault net of
        Some m \<Rightarrow> (Inl (StoreError m), net)
      | None \<Rightarrow>
          if e \<in> set (map fst (feeds net (privateKey, topic)))
          then (Inl (StoreError (Some (CHUNK_ALREADY_EXISTS_ERROR c))), net)
          else (Inr (SocAddress privateKey topic e),
                net\<lparr>feeds := (feeds net)((privateKey, topic) := (e, data) # feeds net (privateKey, topic))\<rparr>))"

text \<open>\<^verbatim>\<open>errorStartWith(e, text)\<close> and \<^verbatim>\<open>getError(e)?.message\<close> of utils/error.\<close>

definition errorStartWith :: "error \<Rightarrow> string \<Rightarrow> bool" where
  "errorStartWith e txt =
     (case e of StoreError (Some m) \<Rightarrow> take (length txt) m = txt | _ \<Rightarrow> False)"

definition getError_message :: "error \<Rightarrow> string option" where
  "getError_message e = (case e of StoreError m \<Rightarrow> m | _ \<Rightarrow> None)"

text \<open>
  \<^verbatim>\<open>writeFeedDataRaw\<close> (the feed/api source that has it): without an epoch the highest
  level at the current time is used; a chunk-exists error of the store is answered with
  the BMT address of the data, any other error is thrown again as a new \<^verbatim>\<open>Error\<close> with the
  message \<^verbatim>\<open>getError(e)?.message || 'Unknown error'\<close>.
\<close>

definition writeFeedDataRaw ::
  "constants \<Rightarrow> network \<Rightarrow> string \<Rightarrow> payload \<Rightarrow> wallet \<Rightarrow> epoch option \<Rightarrow> (error + soc_reference) \<times> network" where
  "writeFeedDataRaw c net topic data privateKey epoch_opt =
     (let e = (case epoch_opt of None \<Rightarrow> \<lparr>level = HIGHEST_LEVEL c, time = clock net\<rparr> | Some e' \<Rightarrow> e')
      in case socWriter_upload c net privateKey topic e data of
           (Inr r, net') \<Rightarrow> (Inr r, net')
         | (Inl err, net') \<Rightarrow>
             if errorStartWith err (CHUNK_ALREADY_EXISTS_ERROR c)
             then (Inr (getBmtDataAddress data), net')
             else (Inl (StoreError (Some (case getError_message err of
                                             None \<Rightarrow> ''Unknown error''
                                           | Some m \<Rightarrow> if m = [] then ''Unknown error'' else m))), net'))"

text \<open>\<^verbatim>\<open>writeFeedData\<close> of the same source: encrypt, then \<^verbatim>\<open>writeFeedDataRaw\<close>.\<close>

definition writeFeedData ::
  "constants \<Rightarrow> network \<Rightarrow> string \<Rightarrow> payload \<Rightarrow> wallet \<Rightarrow> pod_password \<Rightarrow> epoch option \<Rightarrow> (error + soc_reference) \<times> network" where
  "writeFeedData c net topic data privateKey podPassword epoch_opt =
     writeFeedDataRaw c net topic (encryptBytes podPassword data) privateKey epoch_opt"

text \<open>
  \<^verbatim>\<open>writeFeedData\<close> of src/feed/api.ts, which takes the owner's wallet: default epoch,
  encrypt, upload; what the store throws is not caught.
\<close>

definition writeFeedData_wallet ::
  "constants \<Rightarrow> network \<Rightarrow> string \<Rightarrow> payload \<Rightarrow> wallet \<Rightarrow> pod_password \<Rightarrow> epoch option \<Rightarrow> (error + soc_reference) \<times> network" where
  "writeFeedData_wallet c net topic data w podPassword epoch_opt =
     (let e = (case epoch_opt of None \<Rightarrow> \<lparr>level = HIGHEST_LEVEL c, time = clock net\<rparr> | Some e' \<Rightarrow> e');
          data' = encryptBytes podPassword data
      in socWriter_upload c net w topic e data')"

text \<open>
  Modelled from the spec: the five-argument \<^verbatim>\<open>writeFeedData\<close> that \<^verbatim>\<open>PersonalStorage\<close> calls
  (topic, data, private key, epoch; no pod password) is not part of the sources at hand.
  The pod list and what announces a pod are encrypted under the owner's key material:
  the data is encrypted with the bytes of the private key that also signs the chunk.
\<close>

definition writeFeedData_privateKey ::
  "constants \<Rightarrow> network \<Rightarrow> string \<Rightarrow> payload \<Rightarrow> wallet \<Rightarrow> epoch option \<Rightarrow> (error + soc_reference) \<times> network" where
  "writeFeedData_privateKey c net topic data privateKey epoch_opt =
     (let e = (case epoch_opt of None \<Rightarrow> \<lparr>level = HIGHEST_LEVEL c, time = clock net\<rparr> | Some e' \<Rightarrow> e');
          data' = encryptBytes (PrivateKeyBytes privateKey) data
      in socWriter_upload c net privateKey topic e data')"

section \<open>Metadata of a path\<close>

datatype raw_metadata = RawFile file_metadata | RawDirectory raw_directory_metadata

record raw_metadata_with_epoch =
  rm_epoch :: epoch
  rm_metadata :: raw_metadata

text \<open>
  Modelled from the spec: \<^verbatim>\<open>decryptBytes\<close> (utils/encryption) and \<^verbatim>\<open>getRawMetadata\<close>,
  \<^verbatim>\<open>assertItemIsNotExists\<close> (content-items/utils) are not part of the sources at hand.
  \<^verbatim>\<open>getRawMetadata\<close> fetches the latest version of the path's feed, decrypts it with the pod
  password and parses it; \<^verbatim>\<open>assertItemIsNotExists\<close> fails, with the
  \<^verbatim>\<open>already uploaded to the network\<close> message, when the path's feed has data.
\<close>

definition decryptBytes :: "pod_password \<Rightarrow> payload \<Rightarrow> error + payload" where
  "decryptBytes podPassword data =
     (case data of
        Encrypted k d \<Rightarrow> if k = podPassword then Inr d else Inl DecryptionError
      | _ \<Rightarrow> Inl DecryptionError)"

definition getRawMetadata ::
  "network \<Rightarrow> string \<Rightarrow> address \<Rightarrow> pod_password \<Rightarrow> error + raw_metadata_with_epoch" where
  "getRawMetadata net path addr podPassword =
     (case getFeedData net path addr of
        Inl e \<Rightarrow> Inl e
      | Inr la \<Rightarrow>
          (case decryptBytes podPassword (la_data la) of
             Inl e \<Rightarrow> Inl e
           | Inr (FileJson f) \<Rightarrow> Inr \<lparr>rm_epoch = la_epoch la, rm_metadata = RawFile f\<rparr>
           | Inr (DirJson d) \<Rightarrow> Inr \<lparr>rm_epoch = la_epoch la, rm_metadata = RawDirectory d\<rparr>
           | Inr _ \<Rightarrow> Inl InvalidMetadata))"

definition assertItemIsNotExists :: "string \<Rightarrow> network \<Rightarrow> string \<Rightarrow> address \<Rightarrow> error + unit" where
  "assertItemIsNotExists itemText net fullPath addr =
     (case getFeedData net fullPath addr of
        Inr _ \<Rightarrow> Inl (AlreadyUploaded itemText fullPath)
      | Inl _ \<Rightarrow> Inr ())"

text \<open>
  Modelled from the spec: \<^verbatim>\<open>combine\<close> (directory/utils) and \<^verbatim>\<open>extractPathInfo\<close> (file/utils)
  are not part of the sources at hand. Paths are slash-separated and the root is \<^verbatim>\<open>/\<close>:
  \<^verbatim>\<open>combine\<close> joins a parent path and a name, \<^verbatim>\<open>extractPathInfo\<close> splits a full path at its
  last slash.
\<close>

definition combine :: "string \<Rightarrow> string \<Rightarrow> string" where
  "combine parentPath entryPath =
     (if parentPath = [] then (if take 1 entryPath = ''/'' then entryPath else ''/'' @ entryPath)
      else if parentPath = ''/'' then ''/'' @ entryPath
      else parentPath @ ''/'' @ entryPath)"

definition extractPathInfo :: "string \<Rightarrow> error + string \<times> string" where
  "extractPathInfo fullPath =
     (let filename = rev (takeWhile (\<lambda>ch. ch \<noteq> CHR ''/'') (rev fullPath));
          dir = take (length fullPath - length filename - 1) fullPath
      in if take 1 fullPath \<noteq> ''/'' \<or> filename = [] then Inl IncorrectPath
         else Inr (if dir = [] then ''/'' else dir, filename))"

section \<open>Content items: adding and removing an entry of a directory\<close>

definition FILE_TOKEN :: string where
  "FILE_TOKEN = ''_F_''"

definition DIRECTORY_TOKEN :: string where
  "DIRECTORY_TOKEN = ''_D_''"

text \<open>
  \<^verbatim>\<open>addEntryToDirectory\<close> (content-items/handler.ts). The two argument checks come first,
  then the existence probe of the full path, then the parent's metadata: whatever goes
  wrong while fetching or checking it is replaced by \<open>ParentNotFound\<close>. The entry is
  pushed on the parent's list only if it is not there yet, and the parent is written at
  the epoch after the one it was read at.
\<close>

definition addEntryToDirectory ::
  "constants \<Rightarrow> network \<Rightarrow> wallet \<Rightarrow> pod_password \<Rightarrow> string \<Rightarrow> string \<Rightarrow> bool
     \<Rightarrow> (error + soc_reference) \<times> network" where
  "addEntryToDirectory c net w podPassword parentPath entryPath isFile =
     (if parentPath = [] then (Inl IncorrectParentPath, net)
      else if entryPath = [] then (Inl IncorrectEntryPath, net)
      else
        let itemText = (if isFile then ''File'' else ''Directory'');
            fullPath = combine parentPath entryPath
        in case assertItemIsNotExists itemText net fullPath w of
             Inl e \<Rightarrow> (Inl e, net)
           | Inr _ \<Rightarrow>
               (case getRawMetadata net parentPath w podPassword of
                  Inl e \<Rightarrow> (Inl ParentNotFound, net)
                | Inr metadataWithEpoch \<Rightarrow>
                    (case rm_metadata metadataWithEpoch of
                       RawFile f \<Rightarrow> (Inl ParentNotFound, net)
                     | RawDirectory parentData \<Rightarrow>
                         let itemToAdd = (if isFile then FILE_TOKEN else DIRECTORY_TOKEN) @ entryPath;
                             names = (case fileOrDirNames parentData of None \<Rightarrow> [] | Some ns \<Rightarrow> ns)
                         in if itemToAdd \<in> set names then (Inl (AlreadyListed itemText), net)
                            else writeFeedData c net parentPath
                                   (DirJson (parentData\<lparr>fileOrDirNames := Some (names @ [itemToAdd]),
                                                        meta := (meta parentData)\<lparr>dm_modificationTime := clock net\<rparr>\<rparr>))
                                   w podPassword
                                   (Some (getNextEpoch c (rm_epoch metadataWithEpoch) (clock net))))))"

text \<open>
  \<^verbatim>\<open>removeEntryFromDirectory\<close> (content-items/handler.ts): the parent's list, when it is not
  null, is filtered, and the parent is written at the next epoch whether or not the
  filter removed anything.
\<close>

definition removeEntryFromDirectory ::
  "constants \<Rightarrow> network \<Rightarrow> wallet \<Rightarrow> pod_password \<Rightarrow> string \<Rightarrow> string \<Rightarrow> bool
     \<Rightarrow> (error + soc_reference) \<times> network" where
  "removeEntryFromDirectory c net w podPassword parentPath entryPath isFile =
     (case getRawMetadata net parentPath w podPassword of
        Inl e \<Rightarrow> (Inl e, net)
      | Inr metadataWithEpoch \<Rightarrow>
          (case rm_metadata metadataWithEpoch of
             RawFile f \<Rightarrow> (Inl InvalidMetadata, net)
           | RawDirectory parentData \<Rightarrow>
               let itemToRemove = (if isFile then FILE_TOKEN else DIRECTORY_TOKEN) @ entryPath;
                   parentData' = (case fileOrDirNames parentData of
                                    None \<Rightarrow> parentData
                                  | Some ns \<Rightarrow>
                                      parentData\<lparr>fileOrDirNames := Some (filter (\<lambda>name. name \<noteq> itemToRemove) ns)\<rparr>)
               in writeFeedData c net parentPath (DirJson parentData') w podPassword
                    (Some (getNextEpoch c (rm_epoch metadataWithEpoch) (clock net)))))"

section \<open>Directories\<close>

definition MAX_DIRECTORY_NAME_LENGTH :: nat where
  "MAX_DIRECTORY_NAME_LENGTH = 100"

text \<open>
  Modelled from the spec: \<^verbatim>\<open>createRawDirectoryMetadata\<close> (pod/utils) and
  \<^verbatim>\<open>assertDirectoryName\<close> (directory/utils) are not part of the sources at hand. A new
  directory has no list of names yet; a directory name is not empty and not longer than
  \<^verbatim>\<open>MAX_DIRECTORY_NAME_LENGTH\<close>.
\<close>

definition createRawDirectoryMetadata ::
  "nat \<Rightarrow> string \<Rightarrow> string \<Rightarrow> nat \<Rightarrow> nat \<Rightarrow> nat \<Rightarrow> payload" where
  "createRawDirectoryMetadata v path name creation modification access =
     DirJson \<lparr>meta = \<lparr>dm_version = v, dm_path = path, dm_name = name, dm_creationTime = creation,
                       dm_modificationTime = modification, dm_accessTime = access\<rparr>,
              fileOrDirNames = None\<rparr>"

definition assertDirectoryName :: "string \<Rightarrow> error + unit" where
  "assertDirectoryName name =
     (if name = [] \<or> MAX_DIRECTORY_NAME_LENGTH < length name then Inl InvalidDirectoryName
      else Inr ())"

text \<open>\<^verbatim>\<open>createDirectoryInfo\<close>, \<^verbatim>\<open>createRootDirectory\<close> and \<^verbatim>\<open>createDirectory\<close>
  (directory/handler.ts): the entry is added to the parent first, the directory's own
  metadata is written after it.\<close>

definition createDirectoryInfo ::
  "constants \<Rightarrow> network \<Rightarrow> string \<Rightarrow> string \<Rightarrow> pod_password \<Rightarrow> wallet
     \<Rightarrow> (error + soc_reference) \<times> network" where
  "createDirectoryInfo c net path name podPassword privateKey =
     (let now = clock net;
          metadata = createRawDirectoryMetadata (META_VERSION c) path name now now now
      in writeFeedData c net (combine path name) metadata privateKey podPassword None)"

definition createRootDirectory ::
  "constants \<Rightarrow> network \<Rightarrow> pod_password \<Rightarrow> wallet \<Rightarrow> (error + soc_reference) \<times> network" where
  "createRootDirectory c net podPassword privateKey =
     createDirectoryInfo c net [] ''/'' podPassword privateKey"

definition createDirectory ::
  "constants \<Rightarrow> network \<Rightarrow> string \<Rightarrow> wallet \<Rightarrow> pod_password \<Rightarrow> (error + unit) \<times> network" where
  "createDirectory c net fullPath podWallet podPassword =
     (case extractPathInfo fullPath of
        Inl e \<Rightarrow> (Inl e, net)
      | Inr (parentPath, name) \<Rightarrow>
          (case assertDirectoryName name of
             Inl e \<Rightarrow> (Inl e, net)
           | Inr _ \<Rightarrow>
               (case addEntryToDirectory c net podWallet podPassword parentPath name False of
                  (Inl e, net1) \<Rightarrow> (Inl e, net1)
                | (Inr _, net1) \<Rightarrow>
                    (case createDirectoryInfo c net1 parentPath name podPassword podWallet of
                       (Inl e, net2) \<Rightarrow> (Inl e, net2)
                     | (Inr _, net2) \<Rightarrow> (Inr (), net2)))))"

section \<open>Files: download\<close>

text \<open>\<^verbatim>\<open>getFileMetadata\<close> (file/handler.ts): the path's metadata, which has to be a file's.\<close>

definition getFileMetadata ::
  "network \<Rightarrow> string \<Rightarrow> address \<Rightarrow> pod_password \<Rightarrow> error + file_metadata" where
  "getFileMetadata net path addr podPassword =
     (case getRawMetadata net path addr podPassword of
        Inl e \<Rightarrow> Inl e
      | Inr m \<Rightarrow> (case rm_metadata m of RawFile f \<Rightarrow> Inr f | RawDirectory d \<Rightarrow> Inl InvalidMetadata))"

text \<open>
  Modelled from the spec: \<^verbatim>\<open>downloadBlocksManifest\<close> (file/utils) is not part of the sources
  at hand. It downloads the chunk of the reference and parses it as a blocks manifest.
\<close>

definition downloadBlocksManifest :: "network \<Rightarrow> reference \<Rightarrow> error + block list" where
  "downloadBlocksManifest net r =
     (case bee_downloadData net r of
        Inl e \<Rightarrow> Inl e
      | Inr (ManifestJson blocks) \<Rightarrow> Inr blocks
      | Inr _ \<Rightarrow> Inl InvalidMetadata)"

text \<open>
  \<^verbatim>\<open>result.set(data, offset)\<close> on a \<^verbatim>\<open>Uint8Array\<close>: a \<^verbatim>\<open>RangeError\<close> when the data does not
  fit behind the offset, else the bytes from the offset on are overwritten.
\<close>

definition typed_array_set :: "bytes \<Rightarrow> bytes \<Rightarrow> nat \<Rightarrow> error + bytes" where
  "typed_array_set result data offset =
     (if length result < offset + length data then Inl RangeError
      else Inr (take offset result @ data @ drop (offset + length data) result))"

text \<open>
  The second loop of \<^verbatim>\<open>downloadData\<close>: every block of the manifest, in its order, is
  downloaded and copied behind the bytes of the blocks before it. The list that is
  threaded through records the references requested from the chunk store. The bytes of
  a chunk that holds a serialised or encrypted payload are outside this model; such a
  chunk is answered with \<open>InvalidMetadata\<close>.
\<close>

fun downloadBlocks ::
  "network \<Rightarrow> block list \<Rightarrow> bytes \<Rightarrow> nat \<Rightarrow> reference list \<Rightarrow> (error + bytes) \<times> reference list" where
  "downloadBlocks net [] result offset requested = (Inr result, requested)"
| "downloadBlocks net (b # bs) result offset requested =
     (case bee_downloadData net (block_reference b) of
        Inl e \<Rightarrow> (Inl e, requested @ [block_reference b])
      | Inr (Raw data) \<Rightarrow>
          (case typed_array_set result data offset of
             Inl e \<Rightarrow> (Inl e, requested @ [block_reference b])
           | Inr result' \<Rightarrow>
               downloadBlocks net bs result' (offset + length data) (requested @ [block_reference b]))
      | Inr _ \<Rightarrow> (Inl InvalidMetadata, requested @ [block_reference b]))"

text \<open>
  \<^verbatim>\<open>downloadData\<close> (file/handler.ts). A non-empty \<^verbatim>\<open>compression\<close> is refused before the
  manifest is asked for. The result buffer has the length of the sum of the sizes that
  the manifest records and starts out as zeros.
\<close>

definition downloadData ::
  "network \<Rightarrow> string \<Rightarrow> address \<Rightarrow> pod_password \<Rightarrow> (error + bytes) \<times> reference list" where
  "downloadData net fullPath addr podPassword =
     (case getFileMetadata net fullPath addr podPassword of
        Inl e \<Rightarrow> (Inl e, [])
      | Inr fileMetadata \<Rightarrow>
          if compression fileMetadata \<noteq> [] then (Inl Unsupported, [])
          else
            (case downloadBlocksManifest net (blocksReference fileMetadata) of
               Inl e \<Rightarrow> (Inl e, [blocksReference fileMetadata])
             | Inr blocks \<Rightarrow>
                 let totalLength = sum_list (map block_size blocks);
                     result = replicate totalLength 0
                 in downloadBlocks net blocks result 0 [blocksReference fileMetadata]))"

section \<open>Files: upload\<close>

text \<open>\<^verbatim>\<open>DataUploadOptions\<close>; the defaults are those of \<^verbatim>\<open>File.defaultUploadOptions\<close>.\<close>

record upload_options =
  opt_blockSize :: "js_number option"
  opt_contentType :: "string option"

definition default_blockSize :: js_number where
  "default_blockSize = Finite 1000000"

definition default_contentType :: string where
  "default_contentType = []"

text \<open>
  \<^verbatim>\<open>uploadData\<close> of file/handler (the source that has it). The pod's wallet and password
  are what \<^verbatim>\<open>getExtendedPodsListByAccountData\<close> returns for the pod name; that function and
  the assertions on the arguments are not part of the sources at hand. The result is
  \<open>None\<close> when the block loop does not end. The blocks and the manifest are uploaded
  before the entry is added to the parent directory, and the file's metadata is written
  last, at the epoch after the one found for the path.
\<close>

definition uploadData ::
  "constants \<Rightarrow> network \<Rightarrow> wallet \<Rightarrow> pod_password \<Rightarrow> string \<Rightarrow> bytes \<Rightarrow> upload_options
     \<Rightarrow> ((error + file_metadata) \<times> network) option" where
  "uploadData c net podWallet podPassword fullPath data options =
     (let blockSize = (case opt_blockSize options of None \<Rightarrow> default_blockSize | Some b \<Rightarrow> b);
          contentType = (case opt_contentType options of None \<Rightarrow> default_contentType | Some t \<Rightarrow> t);
          fullPathInfo = (case getFeedData net fullPath podWallet of Inl _ \<Rightarrow> None | Inr la \<Rightarrow> Some la)
      in case extractPathInfo fullPath of
           Inl e \<Rightarrow> Some (Inl e, net)
         | Inr (path, filename) \<Rightarrow>
             (case loop_indices (totalBlocks (length data) blockSize) of
                None \<Rightarrow> None
              | Some indices \<Rightarrow>
                  let now = clock net;
                      (net1, blocks) = uploadBlocks data blockSize indices (net, []);
                      (blocksRef, net2) = uploadBytes net1 (ManifestJson blocks);
                      fm = \<lparr>version = META_VERSION c, podAddress = None, podName = None,
                            filePath = path, fileName = filename, fileSize = length data,
                            blockSize = blockSize, contentType = contentType, compression = [],
                            creationTime = now, accessTime = now, modificationTime = now,
                            blocksReference = blocksRef\<rparr>
                  in case addEntryToDirectory c net2 podWallet podPassword path filename True of
                       (Inl e, net3) \<Rightarrow> Some (Inl e, net3)
                     | (Inr _, net3) \<Rightarrow>
                         (case writeFeedData_wallet c net3 fullPath (FileJson fm) podWallet podPassword
                                 (Some (getNextEpoch_opt c (clock net3) (map_option la_epoch fullPathInfo))) of
                            (Inl e, net4) \<Rightarrow> Some (Inl e, net4)
                          | (Inr _, net4) \<Rightarrow> Some (Inr fm, net4))))"

text \<open>\<^verbatim>\<open>generateBlockName\<close>: \<^verbatim>\<open>'block-' + blockNumber.toString().padStart(5, '0')\<close>.\<close>

fun toString :: "nat \<Rightarrow> string" where
  "toString n =
     (if n < 10 then [char_of (48 + n)] else toString (n div 10) @ [char_of (48 + n mod 10)])"

declare toString.simps [simp del]

definition padStart :: "nat \<Rightarrow> char \<Rightarrow> string \<Rightarrow> string" where
  "padStart n ch str = replicate (n - length str) ch @ str"

definition generateBlockName :: "nat \<Rightarrow> string" where
  "generateBlockName blockNumber = ''block-'' @ padStart 5 (CHR ''0'') (toString blockNumber)"

text \<open>
  The block loop of \<^verbatim>\<open>File.uploadData\<close> (file/file.ts): here every slice is encrypted with
  the pod password before it is handed to \<^verbatim>\<open>uploadBytes\<close>, and the block gets a name.
\<close>

fun File_uploadBlocks ::
  "pod_password \<Rightarrow> bytes \<Rightarrow> js_number \<Rightarrow> nat list \<Rightarrow> network \<times> block list
     \<Rightarrow> network \<times> block list" where
  "File_uploadBlocks podPassword data bs [] (net, blocks) = (net, blocks)"
| "File_uploadBlocks podPassword data bs (i # is) (net, blocks) =
     (let currentBlock = block_bytes data bs i;
          (ref, net') = uploadBytes net (encryptBytes podPassword (Raw currentBlock))
      in File_uploadBlocks podPassword data bs is
           (net', blocks @ [\<lparr>block_name = Some (generateBlockName i),
                             block_size = length currentBlock,
                             block_compressedSize = length currentBlock,
                             block_reference = ref\<rparr>]))"

text \<open>
  \<^verbatim>\<open>File.uploadData\<close> (file/file.ts): the options are merged over the defaults, the
  manifest is encrypted as well, and the metadata is written without an epoch.
\<close>

definition File_uploadData ::
  "constants \<Rightarrow> network \<Rightarrow> string \<Rightarrow> wallet \<Rightarrow> pod_password \<Rightarrow> string \<Rightarrow> bytes \<Rightarrow> upload_options
     \<Rightarrow> ((error + file_metadata) \<times> network) option" where
  "File_uploadData c net pname podWallet podPassword fullPath data options =
     (let blockSize = (case opt_blockSize options of None \<Rightarrow> default_blockSize | Some b \<Rightarrow> b);
          contentType = (case opt_contentType options of None \<Rightarrow> default_contentType | Some t \<Rightarrow> t)
      in case extractPathInfo fullPath of
           Inl e \<Rightarrow> Some (Inl e, net)
         | Inr (path, filename) \<Rightarrow>
             (case loop_indices (totalBlocks (length data) blockSize) of
                None \<Rightarrow> None
              | Some indices \<Rightarrow>
                  let now = clock net;
                      (net1, blocks) = File_uploadBlocks podPassword data blockSize indices (net, []);
                      manifestBytes = encryptBytes podPassword (ManifestJson blocks);
                      (blocksRef, net2) = uploadBytes net1 manifestBytes;
                      fm = \<lparr>version = META_VERSION c, podAddress = Some podWallet, podName = Some pname,
                            filePath = path, fileName = filename, fileSize = length data,
                            blockSize = blockSize, contentType = contentType, compression = [],
                            creationTime = now, accessTime = now, modificationTime = now,
                            blocksReference = blocksRef\<rparr>
                  in case addEntryToDirectory c net2 podWallet podPassword path filename True of
                       (Inl e, net3) \<Rightarrow> Some (Inl e, net3)
                     | (Inr _, net3) \<Rightarrow>
                         (case writeFeedData c net3 fullPath (FileJson fm) podWallet podPassword None of
                            (Inl e, net4) \<Rightarrow> Some (Inl e, net4)
                          | (Inr _, net4) \<Rightarrow> Some (Inr fm, net4))))"

section \<open>Pods\<close>

definition POD_TOPIC :: string where
  "POD_TOPIC = ''Pods''"

text \<open>
  \<^verbatim>\<open>String.prototype.trim\<close>: white space and line terminators are removed from both
  ends. A character of the model is a code unit below 256, so the white space is tab,
  line feed, vertical tab, form feed, carriage return, space and no-break space.
\<close>

definition is_white_space :: "char \<Rightarrow> bool" where
  "is_white_space ch = (of_char ch \<in> {9, 10, 11, 12, 13, 32, 160 :: nat})"

definition trim :: "string \<Rightarrow> string" where
  "trim str = rev (dropWhile is_white_space (rev (dropWhile is_white_space str)))"

text \<open>
  Modelled from the spec: \<^verbatim>\<open>assertPodName\<close>, \<^verbatim>\<open>assertPodsLength\<close>, \<^verbatim>\<open>assertPodNameAvailable\<close>
  (pod/utils) and \<^verbatim>\<open>getPodsList\<close> (pod/api) are not part of the sources at hand. A pod
  name is not empty, not longer than the maximum and has no comma; the number of pods
  is capped; a name is available when no pod of the list has it. The pod list is read
  from the account's pod feed and decrypted with the owner's key material; an account
  whose pod feed has no data has the empty list and no lookup answer.
\<close>

definition assertPodName :: "constants \<Rightarrow> string \<Rightarrow> error + unit" where
  "assertPodName c name =
     (if length name < 1 then Inl PodNameTooShort
      else if MAX_POD_NAME_LENGTH c < length name then Inl PodNameTooLong
      else if CHR '','' \<in> set name then Inl PodNameHasComma
      else Inr ())"

definition assertPodsLength :: "constants \<Rightarrow> nat \<Rightarrow> error + unit" where
  "assertPodsLength c n = (if MAX_PODS_COUNT c < n then Inl TooManyPods else Inr ())"

definition assertPodNameAvailable :: "pod list \<Rightarrow> string \<Rightarrow> error + unit" where
  "assertPodNameAvailable pods name =
     (if name \<in> set (map pod_name pods) then Inl (PodAlreadyExists name) else Inr ())"

record pods_info =
  pi_pods :: "pod list"
  pi_lookupAnswer :: "lookup_answer option"

definition getPodsList :: "network \<Rightarrow> address \<Rightarrow> error + pods_info" where
  "getPodsList net addr =
     (case getFeedData net POD_TOPIC addr of
        Inl _ \<Rightarrow> Inr \<lparr>pi_pods = [], pi_lookupAnswer = None\<rparr>
      | Inr la \<Rightarrow>
          (case decryptBytes (PrivateKeyBytes addr) (la_data la) of
             Inl e \<Rightarrow> Inl e
           | Inr (PodsJson ps) \<Rightarrow> Inr \<lparr>pi_pods = ps, pi_lookupAnswer = Some la\<rparr>
           | Inr _ \<Rightarrow> Inl InvalidMetadata))"

text \<open>
  Modelled from the spec: the two-argument \<^verbatim>\<open>createRootDirectory\<close> that
  \<^verbatim>\<open>PersonalStorage.create\<close> calls (connection and private key; no pod password) is not part
  of the sources at hand. It writes the root directory's metadata (path empty, name
  \<^verbatim>\<open>/\<close>) under the pod's wallet, encrypted like every metadata payload, with the one key
  it is given.
\<close>

definition createRootDirectory_privateKey ::
  "constants \<Rightarrow> network \<Rightarrow> wallet \<Rightarrow> (error + soc_reference) \<times> network" where
  "createRootDirectory_privateKey c net privateKey =
     (let now = clock net
      in writeFeedData_privateKey c net (combine [] ''/'')
           (createRawDirectoryMetadata (META_VERSION c) [] ''/'' now now now) privateKey None)"

text \<open>\<^verbatim>\<open>PersonalStorage.list\<close>, \<^verbatim>\<open>create\<close> and \<^verbatim>\<open>delete\<close>, for an active account with the
  given wallet.\<close>

definition PersonalStorage_list :: "network \<Rightarrow> wallet \<Rightarrow> error + pod list" where
  "PersonalStorage_list net w =
     (case getPodsList net w of Inl e \<Rightarrow> Inl e | Inr podsInfo \<Rightarrow> Inr (pi_pods podsInfo))"

definition PersonalStorage_create ::
  "constants \<Rightarrow> network \<Rightarrow> wallet \<Rightarrow> string \<Rightarrow> (error + pod) \<times> network" where
  "PersonalStorage_create c net w name0 =
     (let name = trim name0
      in case assertPodName c name of
           Inl e \<Rightarrow> (Inl e, net)
         | Inr _ \<Rightarrow>
             (case getPodsList net w of
                Inl e \<Rightarrow> (Inl e, net)
              | Inr podsInfo \<Rightarrow>
                  let nextIndex = length (pi_pods podsInfo) + 1
                  in case assertPodsLength c nextIndex of
                       Inl e \<Rightarrow> (Inl e, net)
                     | Inr _ \<Rightarrow>
                         (case assertPodNameAvailable (pi_pods podsInfo) name of
                            Inl e \<Rightarrow> (Inl e, net)
                          | Inr _ \<Rightarrow>
                              let currentTime = clock net;
                                  e = (case pi_lookupAnswer podsInfo of
                                         Some la \<Rightarrow> getNextEpoch c (la_epoch la) currentTime
                                       | None \<Rightarrow> getFirstEpoch c currentTime);
                                  newPod = \<lparr>pod_name = name, pod_index = nextIndex\<rparr>;
                                  allPodsData = PodsJson (pi_pods podsInfo @ [newPod])
                              in case writeFeedData_privateKey c net POD_TOPIC allPodsData w (Some e) of
                                   (Inl err, net1) \<Rightarrow> (Inl err, net1)
                                 | (Inr _, net1) \<Rightarrow>
                                     (case createRootDirectory_privateKey c net1 (getWalletByIndex w nextIndex) of
                                        (Inl err, net2) \<Rightarrow> (Inl err, net2)
                                      | (Inr _, net2) \<Rightarrow> (Inr newPod, net2)))))"

definition PersonalStorage_delete ::
  "constants \<Rightarrow> network \<Rightarrow> wallet \<Rightarrow> string \<Rightarrow> (error + unit) \<times> network" where
  "PersonalStorage_delete c net w name0 =
     (let name = trim name0
      in case getPodsList net w of
           Inl e \<Rightarrow> (Inl e, net)
         | Inr podsInfo \<Rightarrow>
             (case assertPodsLength c (length (pi_pods podsInfo)) of
                Inl e \<Rightarrow> (Inl e, net)
              | Inr _ \<Rightarrow>
                  (case find (\<lambda>item. pod_name item = name) (pi_pods podsInfo) of
                     None \<Rightarrow> (Inl (PodNotFound name), net)
                   | Some p \<Rightarrow>
                       let podsFiltered = filter (\<lambda>item. pod_name item \<noteq> name) (pi_pods podsInfo);
                           allPodsData = PodsJson podsFiltered
                       in case pi_lookupAnswer podsInfo of
                            None \<Rightarrow> (Inl TypeError, net)
                          | Some la \<Rightarrow>
                              (case writeFeedData_privateKey c net POD_TOPIC allPodsData w
                                      (Some (getNextEpoch c (la_epoch la) (clock net))) of
                                 (Inl err, net1) \<Rightarrow> (Inl err, net1)
                               | (Inr _, net1) \<Rightarrow> (Inr (), net1)))))"

section \<open>A small account used in the examples\<close>

definition example_constants :: constants where
  "example_constants =
     \<lparr>META_VERSION = 1, MAX_POD_NAME_LENGTH = 64, MAX_PODS_COUNT = 65536, HIGHEST_LEVEL = 31,
      CHUNK_ALREADY_EXISTS_ERROR = ''Conflict: chunk already exists''\<rparr>"

definition empty_network :: network where
  "empty_network = \<lparr>chunks = [], feeds = (\<lambda>_. []), clock = 1000, soc_fault = None\<rparr>"

definition example_password :: pod_password where
  "example_password = PodPasswordBytes (replicate 32 7)"

definition example_pod_wallet :: wallet where
  "example_pod_wallet = Derived (Account 0) 1"

text \<open>The network after the root directory of the example pod has been created.\<close>

definition pod_network :: network where
  "pod_network =
     snd (createRootDirectory example_constants empty_network example_password example_pod_wallet)"

text \<open>A network that holds one file of three bytes in two blocks; the parameter is the
  \<^verbatim>\<open>compression\<close> field of its metadata.\<close>

definition example_blocks :: "block list" where
  "example_blocks =
     [\<lparr>block_name = None, block_size = 2, block_compressedSize = 2, block_reference = 0\<rparr>,
      \<lparr>block_name = None, block_size = 1, block_compressedSize = 1, block_reference = 1\<rparr>]"

definition example_file_metadata :: "string \<Rightarrow> file_metadata" where
  "example_file_metadata compr =
     \<lparr>version = 1, podAddress = None, podName = None, filePath = ''/'', fileName = ''a.bin'',
      fileSize = 3, blockSize = Finite 2, contentType = [], compression = compr,
      creationTime = 1000, accessTime = 1000, modificationTime = 1000, blocksReference = 2\<rparr>"

definition stored_file_network :: "string \<Rightarrow> network" where
  "stored_file_network compr =
     \<lparr>chunks = [Raw [1, 2], Raw [3], ManifestJson example_blocks],
      feeds = (\<lambda>_. [])((example_pod_wallet, ''/a.bin'') :=
                 [(\<lparr>level = 31, time = 1000\<rparr>,
                   Encrypted example_password (FileJson (example_file_metadata compr)))]),
      clock = 1000, soc_fault = None\<rparr>"

text \<open>The example pod with a directory \<^verbatim>\<open>/a\<close>; a network in which \<^verbatim>\<open>/a/b\<close> has metadata
  although \<^verbatim>\<open>/a\<close> has none; and one whose root lists a file that has no metadata.\<close>

definition dir_network :: network where
  "dir_network =
     snd (createDirectory example_constants pod_network ''/a'' example_pod_wallet example_password)"

definition orphan_network :: network where
  "orphan_network =
     pod_network\<lparr>feeds := (feeds pod_network)((example_pod_wallet, ''/a/b'') :=
        [(\<lparr>level = 31, time = 1000\<rparr>,
          Encrypted example_password (createRawDirectoryMetadata 1 ''/a'' ''b'' 1000 1000 1000))])\<rparr>"

definition listed_network :: network where
  "listed_network =
     pod_network\<lparr>feeds := (feeds pod_network)((example_pod_wallet, ''/'') :=
        [(\<lparr>level = 31, time = 1000\<rparr>,
          Encrypted example_password
            (DirJson \<lparr>meta = \<lparr>dm_version = 1, dm_path = [], dm_name = ''/'', dm_creationTime = 1000,
                              dm_modificationTime = 1000, dm_accessTime = 1000\<rparr>,
                      fileOrDirNames = Some [''_F_x.txt'']\<rparr>))])\<rparr>"

text \<open>An account that owns the one pod \<^verbatim>\<open>photos\<close>.\<close>

definition one_pod_network :: network where
  "one_pod_network =
     empty_network\<lparr>feeds := (feeds empty_network)((Account 0, POD_TOPIC) :=
        [(\<lparr>level = 31, time = 1000\<rparr>,
          Encrypted (PrivateKeyBytes (Account 0)) (PodsJson [\<lparr>pod_name = ''photos'', pod_index = 1\<rparr>]))])\<rparr>"

section \<open>Facts about the block loop and the feed writes\<close>

lemma concat_slices:
  "concat (map (\<lambda>i. slice_bytes data (i * bs) ((i + 1) * bs)) [0..<n]) = take (n * bs) data"
proof (induction n)
  case 0
  then show ?case by simp
next
  case (Suc n)
  have "take (n * bs) data @ take bs (drop (n * bs) data) = take (n * bs + bs) data"
    by (simp add: take_add)
  then show ?case using Suc by (simp add: slice_bytes_def add.commute)
qed

lemma clamped_slice:
  assumes "s \<le> e"
  shows "take (min e (length xs) - min s (length xs)) (drop (min s (length xs)) xs) = take (e - s) (drop s xs)"
proof (cases "s \<le> length xs")
  case True
  show ?thesis
  proof (cases "e \<le> length xs")
    case True
    with \<open>s \<le> length xs\<close> show ?thesis by (simp add: min_def)
  next
    case False
    then have "length (drop s xs) \<le> e - s" by simp
    with False True show ?thesis by (simp add: min_def)
  qed
next
  case False
  with assms show ?thesis by (simp add: min_def)
qed

lemma block_bytes_nat:
  assumes "0 \<le> b"
  shows "block_bytes data (Finite b) i = slice_bytes data (i * nat b) ((i + 1) * nat b)"
proof -
  have idx: "to_index (length data) (js_times j (Finite b)) = min (j * nat b) (length data)" for j
  proof -
    have "0 \<le> int j * b" using assms by simp
    then have "\<not> int j * b < 0" by simp
    moreover have "nat (int j * b) = j * nat b" by (simp add: nat_mult_distrib)
    ultimately show ?thesis by (simp only: js_times_def to_index_def js_number.case if_False)
  qed
  have "block_bytes data (Finite b) i =
          take (min ((i + 1) * nat b) (length data) - min (i * nat b) (length data))
               (drop (min (i * nat b) (length data)) data)"
    by (simp only: block_bytes_def typed_array_slice_def Let_def idx)
  also have "\<dots> = take ((i + 1) * nat b - i * nat b) (drop (i * nat b) data)"
    by (rule clamped_slice) simp
  finally show ?thesis by (simp only: slice_bytes_def)
qed

lemma loop_indices_cover:
  assumes "loop_indices (totalBlocks len (Finite b)) = Some indices" and "0 \<le> b"
  shows "\<exists>n. indices = [0..<n] \<and> len \<le> n * nat b"
proof (cases "b = 0")
  case True
  with assms(1) have "len = 0 \<and> indices = []"
    by (auto simp: totalBlocks_def loop_indices_def split: if_splits)
  then show ?thesis by (intro exI [of _ 0]) simp
next
  case False
  with assms(2) have pos: "0 < b" by simp
  define m where "m = int len + b - 1"
  from assms(1) pos have ix: "indices = [0..<nat (m div b)]"
    by (simp add: totalBlocks_def loop_indices_def m_def)
  have "m = (m div b) * b + m mod b" by simp
  moreover have "m mod b < b" using pos by simp
  ultimately have "m < (m div b) * b + b" by linarith
  then have "int len \<le> (m div b) * b" by (simp add: m_def)
  moreover have "0 \<le> m div b" using pos by (simp add: m_def pos_imp_zdiv_nonneg_iff)
  ultimately have "len \<le> nat (m div b) * nat b"
    using pos by (metis nat_int nat_mono nat_mult_distrib)
  with ix show ?thesis by blast
qed

lemma sum_sizes_slices:
  "sum_list (map (\<lambda>i. length (slice_bytes data (i * bs) ((i + 1) * bs))) [0..<n]) = min (n * bs) (length data)"
proof -
  have "sum_list (map (\<lambda>i. length (slice_bytes data (i * bs) ((i + 1) * bs))) [0..<n])
        = length (concat (map (\<lambda>i. slice_bytes data (i * bs) ((i + 1) * bs)) [0..<n]))"
    by (simp only: length_concat map_map comp_def)
  also have "\<dots> = length (take (n * bs) data)" by (simp only: concat_slices)
  finally show ?thesis by simp
qed

lemma uploadBlocks_chunks:
  "chunks (fst (uploadBlocks data bs is (net, blocks))) =
     chunks net @ map (\<lambda>i. Raw (block_bytes data bs i)) is"
  by (induction "is" arbitrary: net blocks) (simp_all add: uploadBytes_def Let_def)

lemma uploadBlocks_rest:
  "feeds (fst (uploadBlocks data bs is (net, blocks))) = feeds net
   \<and> clock (fst (uploadBlocks data bs is (net, blocks))) = clock net
   \<and> soc_fault (fst (uploadBlocks data bs is (net, blocks))) = soc_fault net"
  by (induction "is" arbitrary: net blocks) (simp_all add: uploadBytes_def Let_def)

lemma uploadBlocks_blocks:
  "snd (uploadBlocks data bs is (net, blocks)) =
     blocks @ map (\<lambda>k. \<lparr>block_name = None,
                         block_size = length (block_bytes data bs (is ! k)),
                         block_compressedSize = length (block_bytes data bs (is ! k)),
                         block_reference = length (chunks net) + k\<rparr>) [0..<length is]"
proof (induction "is" arbitrary: net blocks)
  case Nil
  then show ?case by simp
next
  case (Cons i "is")
  have "[0..<length (i # is)] = 0 # map Suc [0..<length is]"
    by (simp add: upt_conv_Cons map_Suc_upt del: upt_Suc)
  then show ?case
    by (simp add: Cons.IH uploadBytes_def Let_def comp_def del: upt_Suc)
qed

lemma socWriter_upload_chunks:
  "chunks (snd (socWriter_upload c net k topic e d)) = chunks net"
  by (simp add: socWriter_upload_def split: option.splits)

lemma writeFeedDataRaw_chunks:
  "chunks (snd (writeFeedDataRaw c net topic d k eo)) = chunks net"
proof -
  obtain r n where h: "socWriter_upload c net k topic
      (case eo of None \<Rightarrow> \<lparr>level = HIGHEST_LEVEL c, time = clock net\<rparr> | Some e' \<Rightarrow> e') d = (r, n)"
    by (cases "socWriter_upload c net k topic
      (case eo of None \<Rightarrow> \<lparr>level = HIGHEST_LEVEL c, time = clock net\<rparr> | Some e' \<Rightarrow> e') d")
  have "chunks n = chunks net" using socWriter_upload_chunks [of c net k topic _ d] h
    by (metis snd_conv)
  then show ?thesis using h by (simp add: writeFeedDataRaw_def Let_def split: sum.splits)
qed

lemma writeFeedData_chunks:
  "chunks (snd (writeFeedData c net topic d k pw eo)) = chunks net"
  by (simp add: writeFeedData_def writeFeedDataRaw_chunks)

lemma writeFeedData_wallet_chunks:
  "chunks (snd (writeFeedData_wallet c net topic d k pw eo)) = chunks net"
  by (simp add: writeFeedData_wallet_def Let_def socWriter_upload_chunks)

lemma addEntryToDirectory_chunks:
  "chunks (snd (addEntryToDirectory c net w pw parentPath entryPath isFile)) = chunks net"
  by (simp add: addEntryToDirectory_def Let_def writeFeedData_chunks
           split: sum.splits raw_metadata.splits)

lemma socWriter_upload_Inr:
  assumes "socWriter_upload c net k topic e d = (Inr r, net')"
  shows "net' = net\<lparr>feeds := (feeds net)((k, topic) := (e, d) # feeds net (k, topic))\<rparr>"
  using assms by (simp add: socWriter_upload_def split: option.splits if_splits)


lemma uploadData_success:
  assumes "uploadData c net w pw fullPath data opts = Some (Inr fm, net')"
  defines "bs \<equiv> (case opt_blockSize opts of None \<Rightarrow> default_blockSize | Some b \<Rightarrow> b)"
  shows "\<exists>indices. loop_indices (totalBlocks (length data) bs) = Some indices
           \<and> chunks net' = chunks net @ map (\<lambda>i. Raw (block_bytes data bs i)) indices
                              @ [ManifestJson (snd (uploadBlocks data bs indices (net, [])))]
           \<and> blocksReference fm = length (chunks net) + length indices
           \<and> fileSize fm = length data \<and> blockSize fm = bs \<and> compression fm = []
           \<and> (\<exists>e rest. feeds net' (w, fullPath) = (e, Encrypted pw (FileJson fm)) # rest)"
proof -
  from assms(1) obtain path filename where pi: "extractPathInfo fullPath = Inr (path, filename)"
    by (cases "extractPathInfo fullPath") (auto simp: uploadData_def Let_def)
  from assms(1) pi obtain indices where n: "loop_indices (totalBlocks (length data) bs) = Some indices"
    by (cases "loop_indices (totalBlocks (length data) bs)") (auto simp: uploadData_def Let_def bs_def)
  define ub where "ub = uploadBlocks data bs indices (net, [])"
  define net2 where "net2 = (fst ub)\<lparr>chunks := chunks (fst ub) @ [ManifestJson (snd ub)]\<rparr>"
  define fm0 where "fm0 = \<lparr>version = META_VERSION c, podAddress = None, podName = None,
                            filePath = path, fileName = filename, fileSize = length data,
                            blockSize = bs,
                            contentType = (case opt_contentType opts of None \<Rightarrow> default_contentType | Some t \<Rightarrow> t),
                            compression = [],
                            creationTime = clock net, accessTime = clock net, modificationTime = clock net,
                            blocksReference = length (chunks (fst ub))\<rparr>"
  obtain r3 net3 where a: "addEntryToDirectory c net2 w pw path filename True = (r3, net3)"
    by (cases "addEntryToDirectory c net2 w pw path filename True")
  obtain r4 net4 where wr: "writeFeedData_wallet c net3 fullPath (FileJson fm0) w pw
        (Some (getNextEpoch_opt c (clock net3)
           (map_option la_epoch (case getFeedData net fullPath w of Inl _ \<Rightarrow> None | Inr la \<Rightarrow> Some la)))) = (r4, net4)"
    by (cases "writeFeedData_wallet c net3 fullPath (FileJson fm0) w pw
        (Some (getNextEpoch_opt c (clock net3)
           (map_option la_epoch (case getFeedData net fullPath w of Inl _ \<Rightarrow> None | Inr la \<Rightarrow> Some la))))")
  have unf: "uploadData c net w pw fullPath data opts =
      (case r3 of Inl e \<Rightarrow> Some (Inl e, net3)
       | Inr _ \<Rightarrow> (case r4 of Inl e \<Rightarrow> Some (Inl e, net4) | Inr _ \<Rightarrow> Some (Inr fm0, net4)))"
    using pi n a wr
    by (simp add: uploadData_def Let_def bs_def [symmetric] ub_def [symmetric] uploadBytes_def
          split_beta net2_def [symmetric] fm0_def [symmetric] split: sum.splits)
  with assms(1) have r: "fm = fm0" "net' = net4" and ok3: "\<exists>x. r3 = Inr x" and ok4: "\<exists>x. r4 = Inr x"
    by (auto split: sum.splits)
  have c3: "chunks net3 = chunks net2"
    using addEntryToDirectory_chunks [of c net2 w pw path filename True] a by simp
  have c4: "chunks net4 = chunks net3"
    using writeFeedData_wallet_chunks [of c net3 fullPath "FileJson fm0" w pw] wr
    by (metis snd_conv)
  have cub: "chunks (fst ub) = chunks net @ map (\<lambda>i. Raw (block_bytes data bs i)) indices"
    by (simp only: ub_def uploadBlocks_chunks)
  from ok4 wr obtain x e where "socWriter_upload c net3 w fullPath e (Encrypted pw (FileJson fm0)) = (Inr x, net4)"
    by (auto simp: writeFeedData_wallet_def Let_def encryptBytes_def)
  then have "net4 = net3\<lparr>feeds := (feeds net3)((w, fullPath) := (e, Encrypted pw (FileJson fm0)) # feeds net3 (w, fullPath))\<rparr>"
    by (rule socWriter_upload_Inr)
  then have f4: "feeds net4 (w, fullPath) = (e, Encrypted pw (FileJson fm0)) # feeds net3 (w, fullPath)"
    by simp
  show ?thesis
    using r n c3 c4 cub f4
    by (simp add: net2_def fm0_def ub_def)
qed

lemma uploadData_chunks:
  assumes "uploadData c net w pw fullPath data opts = Some (r, net')"
  defines "bs \<equiv> (case opt_blockSize opts of None \<Rightarrow> default_blockSize | Some b \<Rightarrow> b)"
  shows "chunks net' = chunks net
           \<or> (\<exists>indices. loop_indices (totalBlocks (length data) bs) = Some indices
                \<and> chunks net' = chunks net @ map (\<lambda>i. Raw (block_bytes data bs i)) indices
                              @ [ManifestJson (snd (uploadBlocks data bs indices (net, [])))])"
proof (cases "extractPathInfo fullPath")
  case (Inl e)
  with assms(1) show ?thesis by (simp add: uploadData_def Let_def)
next
  case (Inr pf)
  obtain path filename where pf: "pf = (path, filename)" by (cases pf)
  from assms(1) Inr pf obtain indices where n: "loop_indices (totalBlocks (length data) bs) = Some indices"
    by (cases "loop_indices (totalBlocks (length data) bs)") (auto simp: uploadData_def Let_def bs_def)
  define ub where "ub = uploadBlocks data bs indices (net, [])"
  define net2 where "net2 = (fst ub)\<lparr>chunks := chunks (fst ub) @ [ManifestJson (snd ub)]\<rparr>"
  define fm0 where "fm0 = \<lparr>version = META_VERSION c, podAddress = None, podName = None,
                            filePath = path, fileName = filename, fileSize = length data,
                            blockSize = bs,
                            contentType = (case opt_contentType opts of None \<Rightarrow> default_contentType | Some t \<Rightarrow> t),
                            compression = [],
                            creationTime = clock net, accessTime = clock net, modificationTime = clock net,
                            blocksReference = length (chunks (fst ub))\<rparr>"
  obtain r3 net3 where a: "addEntryToDirectory c net2 w pw path filename True = (r3, net3)"
    by (cases "addEntryToDirectory c net2 w pw path filename True")
  obtain r4 net4 where wr: "writeFeedData_wallet c net3 fullPath (FileJson fm0) w pw
        (Some (getNextEpoch_opt c (clock net3)
           (map_option la_epoch (case getFeedData net fullPath w of Inl _ \<Rightarrow> None | Inr la \<Rightarrow> Some la)))) = (r4, net4)"
    by (cases "writeFeedData_wallet c net3 fullPath (FileJson fm0) w pw
        (Some (getNextEpoch_opt c (clock net3)
           (map_option la_epoch (case getFeedData net fullPath w of Inl _ \<Rightarrow> None | Inr la \<Rightarrow> Some la))))")
  have unf: "uploadData c net w pw fullPath data opts =
      (case r3 of Inl e \<Rightarrow> Some (Inl e, net3)
       | Inr _ \<Rightarrow> (case r4 of Inl e \<Rightarrow> Some (Inl e, net4) | Inr _ \<Rightarrow> Some (Inr fm0, net4)))"
    using Inr pf n a wr
    by (simp add: uploadData_def Let_def bs_def [symmetric] ub_def [symmetric] uploadBytes_def
          split_beta net2_def [symmetric] fm0_def [symmetric] split: sum.splits)
  with assms(1) have r: "net' = net3 \<or> net' = net4"
    by (auto split: sum.splits)
  have c3: "chunks net3 = chunks net2"
    using addEntryToDirectory_chunks [of c net2 w pw path filename True] a by simp
  have c4: "chunks net4 = chunks net3"
    using writeFeedData_wallet_chunks [of c net3 fullPath "FileJson fm0" w pw] wr
    by (metis snd_conv)
  have cub: "chunks (fst ub) = chunks net @ map (\<lambda>i. Raw (block_bytes data bs i)) indices"
    by (simp only: ub_def uploadBlocks_chunks)
  have "chunks net' = chunks net @ map (\<lambda>i. Raw (block_bytes data bs i)) indices
                              @ [ManifestJson (snd (uploadBlocks data bs indices (net, [])))]"
    using r c3 c4 cub by (auto simp: net2_def ub_def)
  with n show ?thesis by blast
qed

lemma typed_array_set_Inr:
  assumes "typed_array_set result data offset = Inr result'"
  shows "offset + length data \<le> length result"
    and "length result' = length result"
    and "take (offset + length data) result' = take offset result @ data"
    and "drop (offset + length data + m) result' = drop (offset + length data + m) result"
  using assms by (auto simp: typed_array_set_def ac_simps split: if_splits)

lemma downloadBlocks_Inr:
  "downloadBlocks net bl result offset req = (Inr res, requested) \<Longrightarrow> offset \<le> length result \<Longrightarrow>
     requested = req @ map block_reference bl \<and> length res = length result \<and>
     (\<exists>ds. map (\<lambda>b. bee_downloadData net (block_reference b)) bl = map (\<lambda>d. Inr (Raw d)) ds
          \<and> offset + length (concat ds) \<le> length result
          \<and> res = take offset result @ concat ds @ drop (offset + length (concat ds)) result)"
proof (induction bl arbitrary: result offset req)
  case Nil
  then show ?case by simp
next
  case (Cons b bl)
  from Cons.prems obtain data where d: "bee_downloadData net (block_reference b) = Inr (Raw data)"
    by (auto split: sum.splits payload.splits)
  from Cons.prems d obtain result' where s: "typed_array_set result data offset = Inr result'"
    by (auto split: sum.splits)
  from Cons.prems d s have rec: "downloadBlocks net bl result' (offset + length data) (req @ [block_reference b]) = (Inr res, requested)"
    by simp
  note ts = typed_array_set_Inr [OF s]
  have "offset + length data \<le> length result'" using ts(1) ts(2) by simp
  from Cons.IH [OF rec this] obtain ds where
    rq: "requested = (req @ [block_reference b]) @ map block_reference bl"
    and len: "length res = length result'"
    and ds: "map (\<lambda>b. bee_downloadData net (block_reference b)) bl = map (\<lambda>d. Inr (Raw d)) ds"
    and fit: "offset + length data + length (concat ds) \<le> length result'"
    and res: "res = take (offset + length data) result' @ concat ds
                @ drop (offset + length data + length (concat ds)) result'"
    by auto
  have "map (\<lambda>b. bee_downloadData net (block_reference b)) (b # bl) = map (\<lambda>d. Inr (Raw d)) (data # ds)"
    using d ds by simp
  moreover have "offset + length (concat (data # ds)) \<le> length result"
    using fit ts(2) by simp
  moreover have "res = take offset result @ concat (data # ds)
                   @ drop (offset + length (concat (data # ds))) result"
    using res ts(3) ts(4) [of "length (concat ds)"] by (simp add: add.assoc)
  ultimately show ?case using rq len ts(2) by (intro conjI exI [of _ "data # ds"]) simp_all
qed

lemma downloadBlocks_ok:
  "length ds = length bl \<Longrightarrow>
   (\<forall>k < length bl. bee_downloadData net (block_reference (bl ! k)) = Inr (Raw (ds ! k))) \<Longrightarrow>
   offset + length (concat ds) \<le> length result \<Longrightarrow>
   downloadBlocks net bl result offset req =
     (Inr (take offset result @ concat ds @ drop (offset + length (concat ds)) result),
      req @ map block_reference bl)"
proof (induction bl arbitrary: ds result offset req)
  case Nil
  then show ?case by simp
next
  case (Cons b bl)
  then obtain d ds' where ds: "ds = d # ds'" by (cases ds) auto
  from Cons.prems(2) ds have d: "bee_downloadData net (block_reference b) = Inr (Raw d)"
    by (auto dest: spec [of _ 0])
  from Cons.prems(2) ds have rest: "\<forall>k < length bl. bee_downloadData net (block_reference (bl ! k)) = Inr (Raw (ds' ! k))"
    by (auto dest: spec [of _ "Suc _"])
  define result' where "result' = take offset result @ d @ drop (offset + length d) result"
  have s: "typed_array_set result d offset = Inr result'"
    using Cons.prems(3) ds by (simp add: typed_array_set_def result'_def)
  note ts = typed_array_set_Inr [OF s]
  have "downloadBlocks net bl result' (offset + length d) (req @ [block_reference b]) =
     (Inr (take (offset + length d) result' @ concat ds' @ drop (offset + length d + length (concat ds')) result'),
      (req @ [block_reference b]) @ map block_reference bl)"
    using Cons.prems ds ts(2) by (intro Cons.IH rest) simp_all
  then show ?case
    using d s ds ts(3) ts(4) [of "length (concat ds')"] by (simp add: add.assoc)
qed

lemma uploaded_blocks:
  assumes "0 \<le> b"
  shows "snd (uploadBlocks data (Finite b) [0..<n] (net, [])) =
     map (\<lambda>k. \<lparr>block_name = None,
                 block_size = length (slice_bytes data (k * nat b) ((k + 1) * nat b)),
                 block_compressedSize = length (slice_bytes data (k * nat b) ((k + 1) * nat b)),
                 block_reference = length (chunks net) + k\<rparr>) [0..<n]"
  by (simp only: uploadBlocks_blocks append_Nil length_upt diff_zero block_bytes_nat [OF assms])
     (rule map_cong, simp_all)

lemma uploadData_manifest:
  assumes "uploadData c net w pw fullPath data opts = Some (Inr fm, net')"
    and "blockSize fm = Finite b" and "0 \<le> b"
  shows "\<exists>n. length data \<le> n * nat b
      \<and> getFileMetadata net' fullPath w pw = Inr fm
      \<and> compression fm = [] \<and> fileSize fm = length data
      \<and> downloadBlocksManifest net' (blocksReference fm) =
           Inr (map (\<lambda>k. \<lparr>block_name = None,
                 block_size = length (slice_bytes data (k * nat b) ((k + 1) * nat b)),
                 block_compressedSize = length (slice_bytes data (k * nat b) ((k + 1) * nat b)),
                 block_reference = length (chunks net) + k\<rparr>) [0..<n])
      \<and> (\<forall>k<n. bee_downloadData net' (length (chunks net) + k) =
                   Inr (Raw (slice_bytes data (k * nat b) ((k + 1) * nat b))))"
proof -
  define bs where "bs = (case opt_blockSize opts of None \<Rightarrow> default_blockSize | Some b \<Rightarrow> b)"
  from uploadData_success [OF assms(1)] obtain indices e rest where
    ix: "loop_indices (totalBlocks (length data) bs) = Some indices"
    and ch: "chunks net' = chunks net @ map (\<lambda>i. Raw (block_bytes data bs i)) indices
                              @ [ManifestJson (snd (uploadBlocks data bs indices (net, [])))]"
    and br: "blocksReference fm = length (chunks net) + length indices"
    and fs: "fileSize fm = length data" and b: "blockSize fm = bs" and co: "compression fm = []"
    and fd: "feeds net' (w, fullPath) = (e, Encrypted pw (FileJson fm)) # rest"
    unfolding bs_def by blast
  have bs: "bs = Finite b" using b assms(2) by simp
  from loop_indices_cover [OF ix [unfolded bs] assms(3)] obtain n where
    n: "indices = [0..<n]" and cover: "length data \<le> n * nat b" by blast
  have meta: "getFileMetadata net' fullPath w pw = Inr fm"
    using fd by (simp add: getFileMetadata_def getRawMetadata_def getFeedData_def decryptBytes_def)
  have man: "downloadBlocksManifest net' (blocksReference fm) =
               Inr (snd (uploadBlocks data (Finite b) [0..<n] (net, [])))"
    using ch br unfolding bs n by (simp add: downloadBlocksManifest_def bee_downloadData_def nth_append)
  have blk: "\<forall>k<n. bee_downloadData net' (length (chunks net) + k) =
                   Inr (Raw (slice_bytes data (k * nat b) ((k + 1) * nat b)))"
    using ch unfolding bs n block_bytes_nat [OF assms(3)]
    by (simp add: bee_downloadData_def nth_append)
  show ?thesis
    using cover meta co fs man blk unfolding uploaded_blocks [OF assms(3)] by blast
qed

lemma pod_network_feeds:
  "feeds pod_network = (\<lambda>_. [])((example_pod_wallet, ''/'') :=
      [(\<lparr>level = 31, time = 1000\<rparr>,
        Encrypted example_password (DirJson \<lparr>meta = \<lparr>dm_version = 1, dm_path = [], dm_name = ''/'',
           dm_creationTime = 1000, dm_modificationTime = 1000, dm_accessTime = 1000\<rparr>, fileOrDirNames = None\<rparr>))])"
  by (simp add: pod_network_def createRootDirectory_def createDirectoryInfo_def createRawDirectoryMetadata_def
        writeFeedData_def writeFeedDataRaw_def socWriter_upload_def encryptBytes_def combine_def
        example_constants_def empty_network_def Let_def)

lemma pod_network_rest:
  "chunks pod_network = [] \<and> clock pod_network = 1000 \<and> soc_fault pod_network = None"
  by (simp add: pod_network_def createRootDirectory_def createDirectoryInfo_def createRawDirectoryMetadata_def
        writeFeedData_def writeFeedDataRaw_def socWriter_upload_def encryptBytes_def combine_def
        example_constants_def empty_network_def Let_def)

lemma upt_3: "[0..<3 :: nat] = [0, 1, 2]"
  by code_simp

lemma upload_example:
  "\<exists>fm net'. uploadData example_constants pod_network example_pod_wallet example_password ''/f.txt''
      [1, 2, 3, 4, 5] \<lparr>opt_blockSize = Some (Finite 2), opt_contentType = None\<rparr> = Some (Inr fm, net')"
  by (simp add: uploadData_def Let_def pod_network_feeds pod_network_rest
        example_constants_def example_password_def example_pod_wallet_def
        writeFeedData_def writeFeedDataRaw_def writeFeedData_wallet_def socWriter_upload_def
        encryptBytes_def combine_def extractPathInfo_def getFeedData_def getRawMetadata_def decryptBytes_def
        assertItemIsNotExists_def addEntryToDirectory_def FILE_TOKEN_def DIRECTORY_TOKEN_def
        getNextEpoch_def getNextEpoch_opt_def getFirstEpoch_def uploadBytes_def totalBlocks_def loop_indices_def block_bytes_def typed_array_slice_def js_times_def to_index_def
        default_contentType_def upt_3)


lemma File_uploadBlocks_chunks:
  "chunks (fst (File_uploadBlocks pw data bs is (net, blocks))) =
     chunks net @ map (\<lambda>i. Encrypted pw (Raw (block_bytes data bs i))) is"
  by (induction "is" arbitrary: net blocks) (simp_all add: uploadBytes_def encryptBytes_def Let_def)

lemma File_uploadBlocks_blocks:
  "snd (File_uploadBlocks pw data bs is (net, blocks)) =
     blocks @ map (\<lambda>k. \<lparr>block_name = Some (generateBlockName (is ! k)),
                         block_size = length (block_bytes data bs (is ! k)),
                         block_compressedSize = length (block_bytes data bs (is ! k)),
                         block_reference = length (chunks net) + k\<rparr>) [0..<length is]"
proof (induction "is" arbitrary: net blocks)
  case Nil
  then show ?case by simp
next
  case (Cons i "is")
  have "[0..<length (i # is)] = 0 # map Suc [0..<length is]"
    by (simp add: upt_conv_Cons map_Suc_upt del: upt_Suc)
  then show ?case
    by (simp add: Cons.IH uploadBytes_def Let_def comp_def del: upt_Suc)
qed

lemma File_uploaded_blocks:
  assumes "0 \<le> b"
  shows "snd (File_uploadBlocks pw data (Finite b) [0..<n] (net, [])) =
     map (\<lambda>k. \<lparr>block_name = Some (generateBlockName k),
                 block_size = length (slice_bytes data (k * nat b) ((k + 1) * nat b)),
                 block_compressedSize = length (slice_bytes data (k * nat b) ((k + 1) * nat b)),
                 block_reference = length (chunks net) + k\<rparr>) [0..<n]"
  by (simp only: File_uploadBlocks_blocks append_Nil length_upt diff_zero block_bytes_nat [OF assms])
     (rule map_cong, simp_all)

lemma File_uploadData_chunks:
  assumes "File_uploadData c net pname w pw fullPath data opts = Some (r, net')"
  defines "bs \<equiv> (case opt_blockSize opts of None \<Rightarrow> default_blockSize | Some b \<Rightarrow> b)"
  shows "chunks net' = chunks net
           \<or> (\<exists>indices. loop_indices (totalBlocks (length data) bs) = Some indices
                \<and> chunks net' = chunks net
                     @ map (\<lambda>i. Encrypted pw (Raw (block_bytes data bs i))) indices
                     @ [Encrypted pw (ManifestJson (snd (File_uploadBlocks pw data bs indices (net, []))))]
                \<and> (\<forall>fm. r = Inr fm \<longrightarrow> blocksReference fm = length (chunks net) + length indices
                       \<and> fileSize fm = length data \<and> blockSize fm = bs \<and> compression fm = []))"
proof (cases "extractPathInfo fullPath")
  case (Inl e)
  with assms(1) show ?thesis by (simp add: File_uploadData_def Let_def)
next
  case (Inr pf)
  obtain path filename where pf: "pf = (path, filename)" by (cases pf)
  from assms(1) Inr pf obtain indices where n: "loop_indices (totalBlocks (length data) bs) = Some indices"
    by (cases "loop_indices (totalBlocks (length data) bs)") (auto simp: File_uploadData_def Let_def bs_def)
  define ub where "ub = File_uploadBlocks pw data bs indices (net, [])"
  define net2 where "net2 = (fst ub)\<lparr>chunks := chunks (fst ub) @ [Encrypted pw (ManifestJson (snd ub))]\<rparr>"
  define fm0 where "fm0 = \<lparr>version = META_VERSION c, podAddress = Some w, podName = Some pname,
                            filePath = path, fileName = filename, fileSize = length data,
                            blockSize = bs,
                            contentType = (case opt_contentType opts of None \<Rightarrow> default_contentType | Some t \<Rightarrow> t),
                            compression = [],
                            creationTime = clock net, accessTime = clock net, modificationTime = clock net,
                            blocksReference = length (chunks (fst ub))\<rparr>"
  obtain r3 net3 where a: "addEntryToDirectory c net2 w pw path filename True = (r3, net3)"
    by (cases "addEntryToDirectory c net2 w pw path filename True")
  obtain r4 net4 where wr: "writeFeedData c net3 fullPath (FileJson fm0) w pw None = (r4, net4)"
    by (cases "writeFeedData c net3 fullPath (FileJson fm0) w pw None")
  have unf: "File_uploadData c net pname w pw fullPath data opts =
      (case r3 of Inl e \<Rightarrow> Some (Inl e, net3)
       | Inr _ \<Rightarrow> (case r4 of Inl e \<Rightarrow> Some (Inl e, net4) | Inr _ \<Rightarrow> Some (Inr fm0, net4)))"
    using Inr pf n a wr
    by (simp add: File_uploadData_def Let_def bs_def [symmetric] ub_def [symmetric] uploadBytes_def
          encryptBytes_def split_beta net2_def [symmetric] fm0_def [symmetric] split: sum.splits)
  with assms(1) have r: "net' = net3 \<or> net' = net4" and rf: "\<forall>fm. r = Inr fm \<longrightarrow> fm = fm0"
    by (auto split: sum.splits)
  have c3: "chunks net3 = chunks net2"
    using addEntryToDirectory_chunks [of c net2 w pw path filename True] a by simp
  have c4: "chunks net4 = chunks net3"
    using writeFeedData_chunks [of c net3 fullPath "FileJson fm0" w pw None] wr by simp
  have cub: "chunks (fst ub) = chunks net
       @ map (\<lambda>i. Encrypted pw (Raw (block_bytes data bs i))) indices"
    by (simp only: ub_def File_uploadBlocks_chunks)
  have ch: "chunks net' = chunks net
                     @ map (\<lambda>i. Encrypted pw (Raw (block_bytes data bs i))) indices
                     @ [Encrypted pw (ManifestJson (snd (File_uploadBlocks pw data bs indices (net, []))))]"
    using r c3 c4 cub by (auto simp: net2_def ub_def)
  have "\<forall>fm. r = Inr fm \<longrightarrow> blocksReference fm = length (chunks net) + length indices
                       \<and> fileSize fm = length data \<and> blockSize fm = bs \<and> compression fm = []"
    using rf cub by (auto simp: fm0_def)
  with n ch show ?thesis by blast
qed

lemma File_uploadData_success:
  assumes "File_uploadData c net pname w pw fullPath data opts = Some (Inr fm, net')"
  defines "bs \<equiv> (case opt_blockSize opts of None \<Rightarrow> default_blockSize | Some b \<Rightarrow> b)"
  shows "\<exists>indices. loop_indices (totalBlocks (length data) bs) = Some indices
           \<and> chunks net' = chunks net
                 @ map (\<lambda>i. Encrypted pw (Raw (block_bytes data bs i))) indices
                 @ [Encrypted pw (ManifestJson (snd (File_uploadBlocks pw data bs indices (net, []))))]
           \<and> blocksReference fm = length (chunks net) + length indices
           \<and> fileSize fm = length data \<and> blockSize fm = bs \<and> compression fm = []"
proof -
  from assms(1) obtain path filename where pi: "extractPathInfo fullPath = Inr (path, filename)"
    by (cases "extractPathInfo fullPath") (auto simp: File_uploadData_def Let_def)
  from assms(1) pi obtain indices where n: "loop_indices (totalBlocks (length data) bs) = Some indices"
    by (cases "loop_indices (totalBlocks (length data) bs)") (auto simp: File_uploadData_def Let_def bs_def)
  define ub where "ub = File_uploadBlocks pw data bs indices (net, [])"
  define net2 where "net2 = (fst ub)\<lparr>chunks := chunks (fst ub) @ [Encrypted pw (ManifestJson (snd ub))]\<rparr>"
  define fm0 where "fm0 = \<lparr>version = META_VERSION c, podAddress = Some w, podName = Some pname,
                            filePath = path, fileName = filename, fileSize = length data,
                            blockSize = bs,
                            contentType = (case opt_contentType opts of None \<Rightarrow> default_contentType | Some t \<Rightarrow> t),
                            compression = [],
                            creationTime = clock net, accessTime = clock net, modificationTime = clock net,
                            blocksReference = length (chunks (fst ub))\<rparr>"
  obtain r3 net3 where a: "addEntryToDirectory c net2 w pw path filename True = (r3, net3)"
    by (cases "addEntryToDirectory c net2 w pw path filename True")
  obtain r4 net4 where wr: "writeFeedData c net3 fullPath (FileJson fm0) w pw None = (r4, net4)"
    by (cases "writeFeedData c net3 fullPath (FileJson fm0) w pw None")
  have unf: "File_uploadData c net pname w pw fullPath data opts =
      (case r3 of Inl e \<Rightarrow> Some (Inl e, net3)
       | Inr _ \<Rightarrow> (case r4 of Inl e \<Rightarrow> Some (Inl e, net4) | Inr _ \<Rightarrow> Some (Inr fm0, net4)))"
    using pi n a wr
    by (simp add: File_uploadData_def Let_def bs_def [symmetric] ub_def [symmetric] uploadBytes_def
          encryptBytes_def split_beta net2_def [symmetric] fm0_def [symmetric] split: sum.splits)
  with assms(1) have r: "fm = fm0" "net' = net4"
    by (auto split: sum.splits)
  have c3: "chunks net3 = chunks net2"
    using addEntryToDirectory_chunks [of c net2 w pw path filename True] a by simp
  have c4: "chunks net4 = chunks net3"
    using writeFeedData_chunks [of c net3 fullPath "FileJson fm0" w pw None] wr by simp
  have cub: "chunks (fst ub) = chunks net
       @ map (\<lambda>i. Encrypted pw (Raw (block_bytes data bs i))) indices"
    by (simp only: ub_def File_uploadBlocks_chunks)
  show ?thesis
    using r n c3 c4 cub by (simp add: net2_def fm0_def ub_def)
qed

lemma File_upload_example:
  "\<exists>fm net'. File_uploadData example_constants pod_network ''pod'' example_pod_wallet example_password
      ''/f.txt'' [1, 2, 3, 4, 5] \<lparr>opt_blockSize = Some (Finite 2), opt_contentType = None\<rparr> = Some (Inr fm, net')"
  by (simp add: File_uploadData_def Let_def pod_network_feeds pod_network_rest
        example_constants_def example_password_def example_pod_wallet_def
        writeFeedData_def writeFeedDataRaw_def socWriter_upload_def
        encryptBytes_def combine_def extractPathInfo_def getFeedData_def getRawMetadata_def decryptBytes_def
        assertItemIsNotExists_def addEntryToDirectory_def FILE_TOKEN_def DIRECTORY_TOKEN_def
        getNextEpoch_def getFirstEpoch_def uploadBytes_def totalBlocks_def loop_indices_def
        block_bytes_def typed_array_slice_def js_times_def to_index_def
        default_contentType_def upt_3)

lemma socWriter_upload_feeds:
  "feeds (snd (socWriter_upload c net k topic e d)) key = feeds net key
   \<or> feeds (snd (socWriter_upload c net k topic e d)) key = (e, d) # feeds net key"
  by (simp add: socWriter_upload_def split: option.splits)

lemma writeFeedDataRaw_feeds:
  "feeds (snd (writeFeedDataRaw c net topic d k eo)) key = feeds net key
   \<or> (\<exists>e. feeds (snd (writeFeedDataRaw c net topic d k eo)) key = (e, d) # feeds net key)"
proof -
  define e where "e = (case eo of None \<Rightarrow> \<lparr>level = HIGHEST_LEVEL c, time = clock net\<rparr> | Some e' \<Rightarrow> e')"
  have "snd (writeFeedDataRaw c net topic d k eo) = snd (socWriter_upload c net k topic e d)"
    by (cases "socWriter_upload c net k topic e d")
       (simp add: writeFeedDataRaw_def Let_def e_def [symmetric] split: sum.splits)
  then show ?thesis using socWriter_upload_feeds [of c net k topic e d key] by auto
qed

lemma pod_network_root_epoch:
  "\<lparr>level = 31, time = 1000\<rparr> \<in> set (map fst (feeds pod_network (example_pod_wallet, ''/'')))"
  by (simp add: pod_network_feeds)


section \<open>Upload followed by download\<close>

text \<open>
  Claim C1. For every payload and every positive block size the upload returns, and
  whenever \<^verbatim>\<open>uploadData\<close> has stored a file with such a block size, \<^verbatim>\<open>downloadData\<close> of the
  same path with the same pod wallet and password returns exactly the bytes that were
  uploaded, whatever their length is. (With the block size zero the upload returns for
  the empty payload only, and the bytes come back as well.)
\<close>

theorem upload_download_roundtrip:
  "(\<forall>b. (case opt_blockSize opts of None \<Rightarrow> default_blockSize | Some x \<Rightarrow> x) = Finite b \<and> 0 < b
      \<longrightarrow> uploadData c net w pw fullPath data opts \<noteq> None)
   \<and> (\<forall>b fm net'. (case opt_blockSize opts of None \<Rightarrow> default_blockSize | Some x \<Rightarrow> x) = Finite b
            \<and> 0 \<le> b \<and> uploadData c net w pw fullPath data opts = Some (Inr fm, net')
         \<longrightarrow> fst (downloadData net' fullPath w pw) = Inr data)"
proof -
  have returns: "\<forall>b. (case opt_blockSize opts of None \<Rightarrow> default_blockSize | Some x \<Rightarrow> x) = Finite b \<and> 0 < b
      \<longrightarrow> uploadData c net w pw fullPath data opts \<noteq> None"
    by (simp add: uploadData_def Let_def totalBlocks_def loop_indices_def split_beta
             split: sum.splits option.splits prod.splits)
  have same: "fst (downloadData net' fullPath w pw) = Inr data"
    if bsb: "(case opt_blockSize opts of None \<Rightarrow> default_blockSize | Some x \<Rightarrow> x) = Finite b"
      and b0: "0 \<le> b"
      and up: "uploadData c net w pw fullPath data opts = Some (Inr fm, net')" for b fm net'
  proof -
    define bs where "bs = nat b"
    define ds where "ds = map (\<lambda>k. slice_bytes data (k * bs) ((k + 1) * bs))"
    have fb: "blockSize fm = Finite b"
      using uploadData_success [OF up] bsb by auto
    from uploadData_manifest [OF up fb b0] obtain n where
      cover: "length data \<le> n * bs"
      and meta: "getFileMetadata net' fullPath w pw = Inr fm"
      and co: "compression fm = []"
      and man: "downloadBlocksManifest net' (blocksReference fm) =
             Inr (map (\<lambda>k. \<lparr>block_name = None,
                   block_size = length (slice_bytes data (k * bs) ((k + 1) * bs)),
                   block_compressedSize = length (slice_bytes data (k * bs) ((k + 1) * bs)),
                   block_reference = length (chunks net) + k\<rparr>) [0..<n])"
      and blk: "\<forall>k<n. bee_downloadData net' (length (chunks net) + k) =
                     Inr (Raw (slice_bytes data (k * bs) ((k + 1) * bs)))"
      unfolding bs_def by blast
    define bl where "bl = map (\<lambda>k. \<lparr>block_name = None,
                   block_size = length (slice_bytes data (k * bs) ((k + 1) * bs)),
                   block_compressedSize = length (slice_bytes data (k * bs) ((k + 1) * bs)),
                   block_reference = length (chunks net) + k\<rparr>) [0..<n]"
    have cc: "concat (ds [0..<n]) = data"
      unfolding ds_def concat_slices using cover by simp
    have "sum_list (map block_size bl) = sum_list (map (\<lambda>i. length (slice_bytes data (i * bs) ((i + 1) * bs))) [0..<n])"
      unfolding bl_def map_map comp_def by simp
    then have total: "sum_list (map block_size bl) = length data"
      unfolding sum_sizes_slices using cover by simp
    have "downloadBlocks net' bl (replicate (length data) 0) 0 [blocksReference fm] =
       (Inr (take 0 (replicate (length data) 0) @ concat (ds [0..<n])
               @ drop (0 + length (concat (ds [0..<n]))) (replicate (length data) 0)),
        [blocksReference fm] @ map block_reference bl)"
    proof (rule downloadBlocks_ok)
      show "length (ds [0..<n]) = length bl" by (simp add: ds_def bl_def)
      show "\<forall>k<length bl. bee_downloadData net' (block_reference (bl ! k)) = Inr (Raw (ds [0..<n] ! k))"
        using blk by (simp add: bl_def ds_def)
      show "0 + length (concat (ds [0..<n])) \<le> length (replicate (length data) (0 :: 8 word))"
        unfolding cc by simp
    qed
    then have "downloadBlocks net' bl (replicate (length data) 0) 0 [blocksReference fm] =
       (Inr data, blocksReference fm # map block_reference bl)"
      by (simp add: cc)
    moreover have "downloadBlocksManifest net' (blocksReference fm) = Inr bl"
      using man unfolding bl_def .
    ultimately show "fst (downloadData net' fullPath w pw) = Inr data"
      using meta co total by (simp add: downloadData_def Let_def)
  qed
  from returns same show ?thesis by blast
qed

theorem upload_download_roundtrip_witness:
  "(0 :: int) < 2 \<and>
   uploadData example_constants pod_network example_pod_wallet example_password ''/f.txt''
      [1, 2, 3, 4, 5] \<lparr>opt_blockSize = Some (Finite 2), opt_contentType = None\<rparr> \<noteq> None \<and>
   (\<exists>fm net'. uploadData example_constants pod_network example_pod_wallet example_password ''/f.txt''
      [1, 2, 3, 4, 5] \<lparr>opt_blockSize = Some (Finite 2), opt_contentType = None\<rparr> = Some (Inr fm, net')
      \<and> fst (downloadData net' ''/f.txt'' example_pod_wallet example_password) = Inr [1, 2, 3, 4, 5])"
proof -
  obtain fm net' where
    up: "uploadData example_constants pod_network example_pod_wallet example_password ''/f.txt''
      [1, 2, 3, 4, 5] \<lparr>opt_blockSize = Some (Finite 2), opt_contentType = None\<rparr> = Some (Inr fm, net')"
    using upload_example by blast
  from upload_download_roundtrip [of "\<lparr>opt_blockSize = Some (Finite 2), opt_contentType = None\<rparr>"
      example_constants pod_network example_pod_wallet example_password "''/f.txt''" "[1, 2, 3, 4, 5]"] up
  show ?thesis by simp
qed

section \<open>The blocks manifest\<close>

lemma negative_block_size_example:
  "\<exists>fm net'. uploadData example_constants pod_network example_pod_wallet example_password ''/f.txt''
      [1, 2, 3, 4, 5] \<lparr>opt_blockSize = Some (Finite (- 1)), opt_contentType = None\<rparr> = Some (Inr fm, net')"
  by (simp add: uploadData_def Let_def pod_network_feeds pod_network_rest
        example_constants_def example_password_def example_pod_wallet_def
        writeFeedData_def writeFeedDataRaw_def writeFeedData_wallet_def socWriter_upload_def
        encryptBytes_def combine_def extractPathInfo_def getFeedData_def getRawMetadata_def decryptBytes_def
        assertItemIsNotExists_def addEntryToDirectory_def FILE_TOKEN_def DIRECTORY_TOKEN_def
        getNextEpoch_def getNextEpoch_opt_def getFirstEpoch_def uploadBytes_def totalBlocks_def loop_indices_def
        default_contentType_def)

text \<open>
  Claim C8, as the code has it. The block size of an upload is the number the caller
  passed. When it is an integer that is not negative, the manifest that the upload
  stores lists the blocks in byte order: block \<open>i\<close> is the slice of the payload from
  \<open>i * blockSize\<close> to \<open>(i + 1) * blockSize\<close>, its recorded size is the length of that slice,
  the sizes add up to the \<^verbatim>\<open>fileSize\<close> of the file's metadata, and the slices concatenated
  in the order of the list are the payload. This holds for \<^verbatim>\<open>uploadData\<close> of file/handler
  and for \<^verbatim>\<open>File.uploadData\<close>, which stores the blocks and the manifest encrypted.
\<close>

theorem manifest_sizes_and_order:
  "(\<forall>b fm net'. uploadData c net w pw fullPath data opts = Some (Inr fm, net')
        \<and> blockSize fm = Finite b \<and> 0 \<le> b \<longrightarrow>
      (\<exists>blocks. downloadBlocksManifest net' (blocksReference fm) = Inr blocks
         \<and> sum_list (map block_size blocks) = fileSize fm
         \<and> (\<forall>i<length blocks.
               bee_downloadData net' (block_reference (blocks ! i)) =
                 Inr (Raw (slice_bytes data (i * nat b) ((i + 1) * nat b)))
               \<and> block_size (blocks ! i) =
                   length (slice_bytes data (i * nat b) ((i + 1) * nat b)))
         \<and> concat (map (\<lambda>i. slice_bytes data (i * nat b) ((i + 1) * nat b))
                      [0..<length blocks]) = data))
   \<and> (\<forall>b fm net'. File_uploadData c net pname w pw fullPath data opts = Some (Inr fm, net')
        \<and> blockSize fm = Finite b \<and> 0 \<le> b \<longrightarrow>
      (\<exists>blocks. bee_downloadData net' (blocksReference fm) = Inr (encryptBytes pw (ManifestJson blocks))
         \<and> sum_list (map block_size blocks) = fileSize fm
         \<and> (\<forall>i<length blocks.
               bee_downloadData net' (block_reference (blocks ! i)) =
                 Inr (encryptBytes pw (Raw (slice_bytes data (i * nat b) ((i + 1) * nat b))))
               \<and> block_size (blocks ! i) =
                   length (slice_bytes data (i * nat b) ((i + 1) * nat b)))
         \<and> concat (map (\<lambda>i. slice_bytes data (i * nat b) ((i + 1) * nat b))
                      [0..<length blocks]) = data))"
proof -
  have handler: "\<exists>blocks. downloadBlocksManifest net' (blocksReference fm) = Inr blocks
         \<and> sum_list (map block_size blocks) = fileSize fm
         \<and> (\<forall>i<length blocks.
               bee_downloadData net' (block_reference (blocks ! i)) =
                 Inr (Raw (slice_bytes data (i * nat b) ((i + 1) * nat b)))
               \<and> block_size (blocks ! i) =
                   length (slice_bytes data (i * nat b) ((i + 1) * nat b)))
         \<and> concat (map (\<lambda>i. slice_bytes data (i * nat b) ((i + 1) * nat b))
                      [0..<length blocks]) = data"
    if up: "uploadData c net w pw fullPath data opts = Some (Inr fm, net')"
      and fb: "blockSize fm = Finite b" and b0: "0 \<le> b" for b fm net'
  proof -
    define bs where "bs = nat b"
    define bl where "bl = (\<lambda>n. map (\<lambda>k. \<lparr>block_name = None,
                   block_size = length (slice_bytes data (k * bs) ((k + 1) * bs)),
                   block_compressedSize = length (slice_bytes data (k * bs) ((k + 1) * bs)),
                   block_reference = length (chunks net) + k\<rparr>) [0..<n])"
    from uploadData_manifest [OF up fb b0] obtain n where
      cover: "length data \<le> n * bs"
      and fs: "fileSize fm = length data"
      and man: "downloadBlocksManifest net' (blocksReference fm) = Inr (bl n)"
      and blk: "\<forall>k<n. bee_downloadData net' (length (chunks net) + k) =
                     Inr (Raw (slice_bytes data (k * bs) ((k + 1) * bs)))"
      unfolding bs_def bl_def by blast
    have "sum_list (map block_size (bl n)) =
            sum_list (map (\<lambda>i. length (slice_bytes data (i * bs) ((i + 1) * bs))) [0..<n])"
      unfolding bl_def map_map comp_def by simp
    then have total: "sum_list (map block_size (bl n)) = fileSize fm"
      unfolding sum_sizes_slices fs using cover by simp
    have len: "length (bl n) = n" by (simp add: bl_def)
    have each: "\<forall>i<length (bl n).
                 bee_downloadData net' (block_reference (bl n ! i)) =
                   Inr (Raw (slice_bytes data (i * bs) ((i + 1) * bs)))
                 \<and> block_size (bl n ! i) = length (slice_bytes data (i * bs) ((i + 1) * bs))"
      using blk by (simp add: bl_def)
    have cc: "concat (map (\<lambda>i. slice_bytes data (i * bs) ((i + 1) * bs)) [0..<length (bl n)]) = data"
      unfolding len concat_slices using cover by simp
    show ?thesis
      unfolding bs_def [symmetric] using man total each cc by blast
  qed
  have encrypted: "\<exists>blocks. bee_downloadData net' (blocksReference fm) = Inr (encryptBytes pw (ManifestJson blocks))
         \<and> sum_list (map block_size blocks) = fileSize fm
         \<and> (\<forall>i<length blocks.
               bee_downloadData net' (block_reference (blocks ! i)) =
                 Inr (encryptBytes pw (Raw (slice_bytes data (i * nat b) ((i + 1) * nat b))))
               \<and> block_size (blocks ! i) =
                   length (slice_bytes data (i * nat b) ((i + 1) * nat b)))
         \<and> concat (map (\<lambda>i. slice_bytes data (i * nat b) ((i + 1) * nat b))
                      [0..<length blocks]) = data"
    if up: "File_uploadData c net pname w pw fullPath data opts = Some (Inr fm, net')"
      and fb: "blockSize fm = Finite b" and b0: "0 \<le> b" for b fm net'
  proof -
    define bs where "bs = nat b"
    define bl where "bl = (\<lambda>n. map (\<lambda>k. \<lparr>block_name = Some (generateBlockName k),
                   block_size = length (slice_bytes data (k * bs) ((k + 1) * bs)),
                   block_compressedSize = length (slice_bytes data (k * bs) ((k + 1) * bs)),
                   block_reference = length (chunks net) + k\<rparr>) [0..<n])"
    from File_uploadData_success [OF up] fb obtain indices where
      ix: "loop_indices (totalBlocks (length data) (Finite b)) = Some indices"
      and ch0: "chunks net' = chunks net
                   @ map (\<lambda>i. Encrypted pw (Raw (block_bytes data (Finite b) i))) indices
                   @ [Encrypted pw (ManifestJson (snd (File_uploadBlocks pw data (Finite b) indices (net, []))))]"
      and br0: "blocksReference fm = length (chunks net) + length indices"
      and fs: "fileSize fm = length data"
      by auto
    from loop_indices_cover [OF ix b0] obtain n where
      n: "indices = [0..<n]" and cover: "length data \<le> n * bs" unfolding bs_def by blast
    have ch: "chunks net' = chunks net
                   @ map (\<lambda>i. Encrypted pw (Raw (slice_bytes data (i * bs) ((i + 1) * bs)))) [0..<n]
                   @ [Encrypted pw (ManifestJson (bl n))]"
      using ch0 unfolding n block_bytes_nat [OF b0] File_uploaded_blocks [OF b0] bs_def bl_def .
    have br: "blocksReference fm = length (chunks net) + n" using br0 n by simp
    have man: "bee_downloadData net' (blocksReference fm) = Inr (encryptBytes pw (ManifestJson (bl n)))"
      using ch br by (simp add: bee_downloadData_def encryptBytes_def nth_append)
    have "sum_list (map block_size (bl n)) =
            sum_list (map (\<lambda>i. length (slice_bytes data (i * bs) ((i + 1) * bs))) [0..<n])"
      unfolding bl_def map_map comp_def by simp
    then have total: "sum_list (map block_size (bl n)) = fileSize fm"
      unfolding sum_sizes_slices fs using cover by simp
    have len: "length (bl n) = n" by (simp add: bl_def)
    have each: "\<forall>i<length (bl n).
                 bee_downloadData net' (block_reference (bl n ! i)) =
                   Inr (encryptBytes pw (Raw (slice_bytes data (i * bs) ((i + 1) * bs))))
                 \<and> block_size (bl n ! i) = length (slice_bytes data (i * bs) ((i + 1) * bs))"
      using ch by (simp add: bl_def bee_downloadData_def encryptBytes_def nth_append)
    have cc: "concat (map (\<lambda>i. slice_bytes data (i * bs) ((i + 1) * bs)) [0..<length (bl n)]) = data"
      unfolding len concat_slices using cover by simp
    show ?thesis
      unfolding bs_def [symmetric] using man total each cc by blast
  qed
  from handler encrypted show ?thesis by blast
qed

theorem manifest_sizes_and_order_witness:
  "(\<exists>fm net' blocks.
      uploadData example_constants pod_network example_pod_wallet example_password ''/f.txt''
        [1, 2, 3, 4, 5] \<lparr>opt_blockSize = Some (Finite 2), opt_contentType = None\<rparr> = Some (Inr fm, net')
      \<and> blockSize fm = Finite 2 \<and> (0 :: int) \<le> 2
      \<and> downloadBlocksManifest net' (blocksReference fm) = Inr blocks
      \<and> sum_list (map block_size blocks) = fileSize fm)
   \<and> (\<exists>fm net' blocks.
      File_uploadData example_constants pod_network ''pod'' example_pod_wallet example_password ''/f.txt''
        [1, 2, 3, 4, 5] \<lparr>opt_blockSize = Some (Finite 2), opt_contentType = None\<rparr> = Some (Inr fm, net')
      \<and> blockSize fm = Finite 2 \<and> (0 :: int) \<le> 2
      \<and> bee_downloadData net' (blocksReference fm) = Inr (encryptBytes example_password (ManifestJson blocks))
      \<and> sum_list (map block_size blocks) = fileSize fm)"
proof -
  obtain fm1 net1 where
    up1: "uploadData example_constants pod_network example_pod_wallet example_password ''/f.txt''
      [1, 2, 3, 4, 5] \<lparr>opt_blockSize = Some (Finite 2), opt_contentType = None\<rparr> = Some (Inr fm1, net1)"
    using upload_example by blast
  obtain fm2 net2 where
    up2: "File_uploadData example_constants pod_network ''pod'' example_pod_wallet example_password ''/f.txt''
      [1, 2, 3, 4, 5] \<lparr>opt_blockSize = Some (Finite 2), opt_contentType = None\<rparr> = Some (Inr fm2, net2)"
    using File_upload_example by blast
  have b1: "blockSize fm1 = Finite 2" using uploadData_success [OF up1] by auto
  have b2: "blockSize fm2 = Finite 2" using File_uploadData_success [OF up2] by auto
  note th = manifest_sizes_and_order [where c = example_constants and net = pod_network
      and w = example_pod_wallet and pw = example_password and fullPath = "''/f.txt''"
      and data = "[1, 2, 3, 4, 5]" and opts = "\<lparr>opt_blockSize = Some (Finite 2), opt_contentType = None\<rparr>"
      and pname = "''pod''"]
  from th up1 b1 have "\<exists>blocks. downloadBlocksManifest net1 (blocksReference fm1) = Inr blocks
      \<and> sum_list (map block_size blocks) = fileSize fm1" by fastforce
  moreover from th up2 b2 have "\<exists>blocks. bee_downloadData net2 (blocksReference fm2) =
        Inr (encryptBytes example_password (ManifestJson blocks))
      \<and> sum_list (map block_size blocks) = fileSize fm2" by fastforce
  ultimately show ?thesis using up1 up2 b1 b2 by fastforce
qed

theorem negative_block_size_counterexample:
  "uploadData example_constants pod_network example_pod_wallet example_password ''/f.txt''
        [1, 2, 3, 4, 5] \<lparr>opt_blockSize = Some (Finite (- 1)), opt_contentType = None\<rparr> \<noteq> None
   \<and> \<not> isl (fst (the (uploadData example_constants pod_network example_pod_wallet example_password ''/f.txt''
        [1, 2, 3, 4, 5] \<lparr>opt_blockSize = Some (Finite (- 1)), opt_contentType = None\<rparr>)))
   \<and> fileSize (projr (fst (the (uploadData example_constants pod_network example_pod_wallet example_password
        ''/f.txt'' [1, 2, 3, 4, 5] \<lparr>opt_blockSize = Some (Finite (- 1)), opt_contentType = None\<rparr>)))) = 5
   \<and> downloadBlocksManifest
        (snd (the (uploadData example_constants pod_network example_pod_wallet example_password
           ''/f.txt'' [1, 2, 3, 4, 5] \<lparr>opt_blockSize = Some (Finite (- 1)), opt_contentType = None\<rparr>)))
        (blocksReference (projr (fst (the (uploadData example_constants pod_network example_pod_wallet
           example_password ''/f.txt'' [1, 2, 3, 4, 5]
           \<lparr>opt_blockSize = Some (Finite (- 1)), opt_contentType = None\<rparr>))))) = Inr []
   \<and> sum_list (map block_size []) = 0"
proof -
  obtain fm net' where
    up: "uploadData example_constants pod_network example_pod_wallet example_password ''/f.txt''
      [1, 2, 3, 4, 5] \<lparr>opt_blockSize = Some (Finite (- 1)), opt_contentType = None\<rparr> = Some (Inr fm, net')"
    using negative_block_size_example by blast
  from uploadData_success [OF up] obtain indices where
    ix: "loop_indices (totalBlocks (length [1, 2, 3, 4, 5 :: 8 word]) (Finite (- 1))) = Some indices"
    and ch: "chunks net' = chunks pod_network @ map (\<lambda>i. Raw (block_bytes [1, 2, 3, 4, 5] (Finite (- 1)) i)) indices
                              @ [ManifestJson (snd (uploadBlocks [1, 2, 3, 4, 5] (Finite (- 1)) indices (pod_network, [])))]"
    and br: "blocksReference fm = length (chunks pod_network) + length indices"
    and fs: "fileSize fm = length [1, 2, 3, 4, 5 :: 8 word]"
    by auto
  from ix have "indices = []" by (simp add: totalBlocks_def loop_indices_def)
  with ch br fs have "fileSize fm = 5" and "downloadBlocksManifest net' (blocksReference fm) = Inr []"
    by (simp_all add: pod_network_rest downloadBlocksManifest_def bee_downloadData_def)
  then show ?thesis unfolding up by simp
qed

section \<open>Download\<close>

lemma stored_file_metadata:
  "getFileMetadata (stored_file_network compr) ''/a.bin'' example_pod_wallet example_password =
     Inr (example_file_metadata compr)"
  by (simp add: getFileMetadata_def getRawMetadata_def getFeedData_def decryptBytes_def
        stored_file_network_def)

lemma stored_file_manifest:
  "downloadBlocksManifest (stored_file_network compr) (blocksReference (example_file_metadata compr)) =
     Inr example_blocks"
  by (simp add: downloadBlocksManifest_def bee_downloadData_def stored_file_network_def
        example_file_metadata_def)

lemma stored_file_blocks:
  "map (\<lambda>b. bee_downloadData (stored_file_network compr) (block_reference b)) example_blocks =
     map (\<lambda>d. Inr (Raw d)) [[1, 2], [3]]
   \<and> map block_size example_blocks = map length [[1, 2], [3 :: 8 word]]"
  by (simp add: bee_downloadData_def stored_file_network_def example_blocks_def)

text \<open>
  Claim C7. When the stored metadata of a file has a non-empty \<^verbatim>\<open>compression\<close>,
  \<^verbatim>\<open>downloadData\<close> fails with \<open>Unsupported\<close> and has asked the chunk store for nothing.
  When it is empty and the download succeeds, the manifest and then every block have
  been requested, in the order of the manifest, the buffer returned has the length of
  the sum of the recorded sizes, and it holds the blocks' bytes one after the other
  (followed by zeros if the blocks are shorter than recorded). When every block has its
  recorded size the download succeeds and returns exactly the concatenation.
\<close>

theorem download_compression_and_concatenation:
  "(\<forall>fm. getFileMetadata net fullPath addr pw = Inr fm \<and> compression fm \<noteq> [] \<longrightarrow>
       downloadData net fullPath addr pw = (Inl Unsupported, []))
   \<and> (\<forall>fm blocks res requested.
         getFileMetadata net fullPath addr pw = Inr fm \<and> compression fm = []
         \<and> downloadBlocksManifest net (blocksReference fm) = Inr blocks
         \<and> downloadData net fullPath addr pw = (Inr res, requested) \<longrightarrow>
           requested = blocksReference fm # map block_reference blocks
           \<and> length res = sum_list (map block_size blocks)
           \<and> (\<exists>ds. map (\<lambda>b. bee_downloadData net (block_reference b)) blocks = map (\<lambda>d. Inr (Raw d)) ds
                  \<and> length (concat ds) \<le> length res
                  \<and> res = concat ds @ replicate (length res - length (concat ds)) 0))
   \<and> (\<forall>fm blocks ds.
         getFileMetadata net fullPath addr pw = Inr fm \<and> compression fm = []
         \<and> downloadBlocksManifest net (blocksReference fm) = Inr blocks
         \<and> map (\<lambda>b. bee_downloadData net (block_reference b)) blocks = map (\<lambda>d. Inr (Raw d)) ds
         \<and> map block_size blocks = map length ds \<longrightarrow>
           downloadData net fullPath addr pw =
             (Inr (concat ds), blocksReference fm # map block_reference blocks))"
proof -
  have a: "(\<forall>fm. getFileMetadata net fullPath addr pw = Inr fm \<and> compression fm \<noteq> [] \<longrightarrow>
       downloadData net fullPath addr pw = (Inl Unsupported, []))"
  proof (intro allI impI)
    fix fm
    assume "getFileMetadata net fullPath addr pw = Inr fm \<and> compression fm \<noteq> []"
    then show "downloadData net fullPath addr pw = (Inl Unsupported, [])"
      by (clarsimp simp: downloadData_def)
  qed
  have b: "(\<forall>fm blocks res requested.
         getFileMetadata net fullPath addr pw = Inr fm \<and> compression fm = []
         \<and> downloadBlocksManifest net (blocksReference fm) = Inr blocks
         \<and> downloadData net fullPath addr pw = (Inr res, requested) \<longrightarrow>
           requested = blocksReference fm # map block_reference blocks
           \<and> length res = sum_list (map block_size blocks)
           \<and> (\<exists>ds. map (\<lambda>b. bee_downloadData net (block_reference b)) blocks = map (\<lambda>d. Inr (Raw d)) ds
                  \<and> length (concat ds) \<le> length res
                  \<and> res = concat ds @ replicate (length res - length (concat ds)) 0))"
  proof (intro allI impI)
    fix fm blocks res requested
    assume h: "getFileMetadata net fullPath addr pw = Inr fm \<and> compression fm = []
           \<and> downloadBlocksManifest net (blocksReference fm) = Inr blocks
           \<and> downloadData net fullPath addr pw = (Inr res, requested)"
    define total where "total = sum_list (map block_size blocks)"
    from h have dl: "downloadBlocks net blocks (replicate total 0) 0 [blocksReference fm] = (Inr res, requested)"
      by (clarsimp simp: downloadData_def Let_def total_def)
    have "0 \<le> length (replicate total (0 :: 8 word))" by simp
    from downloadBlocks_Inr [OF dl this] obtain ds where
      rq: "requested = [blocksReference fm] @ map block_reference blocks"
      and len: "length res = length (replicate total (0 :: 8 word))"
      and ds: "map (\<lambda>b. bee_downloadData net (block_reference b)) blocks = map (\<lambda>d. Inr (Raw d)) ds"
      and fit: "0 + length (concat ds) \<le> length (replicate total (0 :: 8 word))"
      and res: "res = take 0 (replicate total 0) @ concat ds @ drop (0 + length (concat ds)) (replicate total 0)"
      by blast
    have "res = concat ds @ replicate (length res - length (concat ds)) 0"
      using res len by simp
    then show "requested = blocksReference fm # map block_reference blocks
             \<and> length res = sum_list (map block_size blocks)
             \<and> (\<exists>ds. map (\<lambda>b. bee_downloadData net (block_reference b)) blocks = map (\<lambda>d. Inr (Raw d)) ds
                    \<and> length (concat ds) \<le> length res
                    \<and> res = concat ds @ replicate (length res - length (concat ds)) 0)"
      using rq len ds fit unfolding total_def by auto
  qed
  have c: "(\<forall>fm blocks ds.
         getFileMetadata net fullPath addr pw = Inr fm \<and> compression fm = []
         \<and> downloadBlocksManifest net (blocksReference fm) = Inr blocks
         \<and> map (\<lambda>b. bee_downloadData net (block_reference b)) blocks = map (\<lambda>d. Inr (Raw d)) ds
         \<and> map block_size blocks = map length ds \<longrightarrow>
           downloadData net fullPath addr pw =
             (Inr (concat ds), blocksReference fm # map block_reference blocks))"
  proof (intro allI impI)
    fix fm blocks ds
    assume h: "getFileMetadata net fullPath addr pw = Inr fm \<and> compression fm = []
           \<and> downloadBlocksManifest net (blocksReference fm) = Inr blocks
           \<and> map (\<lambda>b. bee_downloadData net (block_reference b)) blocks = map (\<lambda>d. Inr (Raw d)) ds
           \<and> map block_size blocks = map length ds"
    then have eq: "map (\<lambda>b. bee_downloadData net (block_reference b)) blocks = map (\<lambda>d. Inr (Raw d)) ds"
      and sz: "map block_size blocks = map length ds" by auto
    have l: "length ds = length blocks" using sz by (metis length_map)
    have total: "sum_list (map block_size blocks) = length (concat ds)"
      unfolding sz by (simp add: length_concat)
    have each: "\<forall>k<length blocks. bee_downloadData net (block_reference (blocks ! k)) = Inr (Raw (ds ! k))"
    proof (intro allI impI)
      fix k assume k: "k < length blocks"
      have "map (\<lambda>b. bee_downloadData net (block_reference b)) blocks ! k = map (\<lambda>d. Inr (Raw d)) ds ! k"
        by (simp only: eq)
      then show "bee_downloadData net (block_reference (blocks ! k)) = Inr (Raw (ds ! k))"
        using k l by simp
    qed
    have "downloadBlocks net blocks (replicate (length (concat ds)) 0) 0 [blocksReference fm] =
       (Inr (take 0 (replicate (length (concat ds)) 0) @ concat ds
               @ drop (0 + length (concat ds)) (replicate (length (concat ds)) 0)),
        [blocksReference fm] @ map block_reference blocks)"
      by (rule downloadBlocks_ok [OF l each]) simp
    then show "downloadData net fullPath addr pw =
               (Inr (concat ds), blocksReference fm # map block_reference blocks)"
      using h total by (clarsimp simp: downloadData_def Let_def)
  qed
  show ?thesis by (rule conjI [OF a conjI [OF b c]])
qed

theorem download_compression_and_concatenation_witness:
  "downloadData (stored_file_network ''gzip'') ''/a.bin'' example_pod_wallet example_password =
     (Inl Unsupported, [])
   \<and> downloadData (stored_file_network []) ''/a.bin'' example_pod_wallet example_password =
        (Inr [1, 2, 3], [2, 0, 1])
   \<and> length [1, 2, 3 :: 8 word] = sum_list (map block_size example_blocks)"
proof -
  note t1 = download_compression_and_concatenation [of "stored_file_network ''gzip''" "''/a.bin''"
      example_pod_wallet example_password]
  note t2 = download_compression_and_concatenation [of "stored_file_network []" "''/a.bin''"
      example_pod_wallet example_password]
  have c1: "compression (example_file_metadata ''gzip'') \<noteq> []"
    by (simp add: example_file_metadata_def)
  have c2: "compression (example_file_metadata []) = []"
    by (simp add: example_file_metadata_def)
  have a: "downloadData (stored_file_network ''gzip'') ''/a.bin'' example_pod_wallet example_password =
     (Inl Unsupported, [])"
    using t1 stored_file_metadata [of "''gzip''"] c1 by blast
  have "downloadData (stored_file_network []) ''/a.bin'' example_pod_wallet example_password =
     (Inr (concat [[1, 2], [3]]),
      blocksReference (example_file_metadata []) # map block_reference example_blocks)"
    using t2 stored_file_metadata [of "[]"] c2 stored_file_manifest [of "[]"] stored_file_blocks [of "[]"]
    by blast
  then have b: "downloadData (stored_file_network []) ''/a.bin'' example_pod_wallet example_password =
        (Inr [1, 2, 3], [2, 0, 1])"
    by (simp add: example_file_metadata_def example_blocks_def)
  have "length [1, 2, 3 :: 8 word] = sum_list (map block_size example_blocks)"
    using t2 stored_file_metadata [of "[]"] c2 stored_file_manifest [of "[]"] b by blast
  with a b show ?thesis by blast
qed


section \<open>Encryption before upload\<close>

text \<open>
  Claim C2, as the code has it. Whatever a feed write adds to a feed is the encryption of
  the metadata payload: under the pod password in \<^verbatim>\<open>writeFeedData\<close> of either source, and
  under the owner's key material in the five-argument form that writes the pod list and
  a new pod's root directory. The block loop of \<^verbatim>\<open>File.uploadData\<close> hands every slice to
  the chunk store encrypted under the pod password, however many rounds it runs, and in
  every run of \<^verbatim>\<open>File.uploadData\<close> that returns, with a result or with an error, what
  the chunk store received is the encrypted blocks and the encrypted manifest, or
  nothing. The block loop of \<^verbatim>\<open>uploadData\<close> of file/handler hands every slice to
  \<^verbatim>\<open>uploadBytes\<close> as it is, and so does \<^verbatim>\<open>uploadData\<close> with the manifest.
\<close>

theorem encryption_before_upload:
  "(\<forall>key. feeds (snd (writeFeedData c net topic data k pw eo)) key = feeds net key
          \<or> (\<exists>e. feeds (snd (writeFeedData c net topic data k pw eo)) key
                    = (e, encryptBytes pw data) # feeds net key))
   \<and> (\<forall>key. feeds (snd (writeFeedData_wallet c net topic data k pw eo)) key = feeds net key
          \<or> (\<exists>e. feeds (snd (writeFeedData_wallet c net topic data k pw eo)) key
                    = (e, encryptBytes pw data) # feeds net key))
   \<and> (\<forall>key. feeds (snd (writeFeedData_privateKey c net topic data k eo)) key = feeds net key
          \<or> (\<exists>e. feeds (snd (writeFeedData_privateKey c net topic data k eo)) key
                    = (e, encryptBytes (PrivateKeyBytes k) data) # feeds net key))
   \<and> chunks (fst (File_uploadBlocks pw bytes bs ixs (net, blocks0))) =
         chunks net @ map (\<lambda>i. encryptBytes pw (Raw (block_bytes bytes bs i))) ixs
   \<and> (\<forall>r net'. File_uploadData c net pname w pw fullPath bytes opts = Some (r, net') \<longrightarrow>
         chunks net' = chunks net
         \<or> (\<exists>indices blocks. chunks net' = chunks net
             @ map (\<lambda>i. encryptBytes pw (Raw (block_bytes bytes
                            (case opt_blockSize opts of None \<Rightarrow> default_blockSize | Some x \<Rightarrow> x) i)))
                 indices
             @ [encryptBytes pw (ManifestJson blocks)]))
   \<and> chunks (fst (uploadBlocks bytes bs ixs (net, blocks0))) =
         chunks net @ map (\<lambda>i. Raw (block_bytes bytes bs i)) ixs
   \<and> (\<forall>r net'. uploadData c net w pw fullPath bytes opts = Some (r, net') \<longrightarrow>
         chunks net' = chunks net
         \<or> (\<exists>indices blocks. chunks net' = chunks net
             @ map (\<lambda>i. Raw (block_bytes bytes
                            (case opt_blockSize opts of None \<Rightarrow> default_blockSize | Some x \<Rightarrow> x) i))
                 indices
             @ [ManifestJson blocks]))"
proof -
  have a: "\<forall>key. feeds (snd (writeFeedData c net topic data k pw eo)) key = feeds net key
          \<or> (\<exists>e. feeds (snd (writeFeedData c net topic data k pw eo)) key
                    = (e, encryptBytes pw data) # feeds net key)"
    unfolding writeFeedData_def by (intro allI writeFeedDataRaw_feeds)
  have b: "\<forall>key. feeds (snd (writeFeedData_wallet c net topic data k pw eo)) key = feeds net key
          \<or> (\<exists>e. feeds (snd (writeFeedData_wallet c net topic data k pw eo)) key
                    = (e, encryptBytes pw data) # feeds net key)"
  proof
    fix key
    define e where "e = (case eo of None \<Rightarrow> \<lparr>level = HIGHEST_LEVEL c, time = clock net\<rparr> | Some e' \<Rightarrow> e')"
    have "writeFeedData_wallet c net topic data k pw eo = socWriter_upload c net k topic e (encryptBytes pw data)"
      by (simp add: writeFeedData_wallet_def Let_def e_def)
    then show "feeds (snd (writeFeedData_wallet c net topic data k pw eo)) key = feeds net key
          \<or> (\<exists>e. feeds (snd (writeFeedData_wallet c net topic data k pw eo)) key
                    = (e, encryptBytes pw data) # feeds net key)"
      using socWriter_upload_feeds [of c net k topic e "encryptBytes pw data" key] by auto
  qed
  have p: "\<forall>key. feeds (snd (writeFeedData_privateKey c net topic data k eo)) key = feeds net key
          \<or> (\<exists>e. feeds (snd (writeFeedData_privateKey c net topic data k eo)) key
                    = (e, encryptBytes (PrivateKeyBytes k) data) # feeds net key)"
  proof
    fix key
    define e where "e = (case eo of None \<Rightarrow> \<lparr>level = HIGHEST_LEVEL c, time = clock net\<rparr> | Some e' \<Rightarrow> e')"
    have "writeFeedData_privateKey c net topic data k eo
            = socWriter_upload c net k topic e (encryptBytes (PrivateKeyBytes k) data)"
      by (simp add: writeFeedData_privateKey_def Let_def e_def)
    then show "feeds (snd (writeFeedData_privateKey c net topic data k eo)) key = feeds net key
          \<or> (\<exists>e. feeds (snd (writeFeedData_privateKey c net topic data k eo)) key
                    = (e, encryptBytes (PrivateKeyBytes k) data) # feeds net key)"
      using socWriter_upload_feeds [of c net k topic e "encryptBytes (PrivateKeyBytes k) data" key] by auto
  qed
  have fl: "chunks (fst (File_uploadBlocks pw bytes bs ixs (net, blocks0))) =
         chunks net @ map (\<lambda>i. encryptBytes pw (Raw (block_bytes bytes bs i))) ixs"
    by (simp only: File_uploadBlocks_chunks encryptBytes_def)
  have f: "\<forall>r net'. File_uploadData c net pname w pw fullPath bytes opts = Some (r, net') \<longrightarrow>
         chunks net' = chunks net
         \<or> (\<exists>indices blocks. chunks net' = chunks net
             @ map (\<lambda>i. encryptBytes pw (Raw (block_bytes bytes
                            (case opt_blockSize opts of None \<Rightarrow> default_blockSize | Some x \<Rightarrow> x) i)))
                 indices
             @ [encryptBytes pw (ManifestJson blocks)])"
  proof (intro allI impI)
    fix r net'
    assume up: "File_uploadData c net pname w pw fullPath bytes opts = Some (r, net')"
    from File_uploadData_chunks [OF up]
    show "chunks net' = chunks net
         \<or> (\<exists>indices blocks. chunks net' = chunks net
             @ map (\<lambda>i. encryptBytes pw (Raw (block_bytes bytes
                            (case opt_blockSize opts of None \<Rightarrow> default_blockSize | Some x \<Rightarrow> x) i)))
                 indices
             @ [encryptBytes pw (ManifestJson blocks)])"
      unfolding encryptBytes_def by blast
  qed
  have ul: "chunks (fst (uploadBlocks bytes bs ixs (net, blocks0))) =
         chunks net @ map (\<lambda>i. Raw (block_bytes bytes bs i)) ixs"
    by (rule uploadBlocks_chunks)
  have u: "\<forall>r net'. uploadData c net w pw fullPath bytes opts = Some (r, net') \<longrightarrow>
         chunks net' = chunks net
         \<or> (\<exists>indices blocks. chunks net' = chunks net
             @ map (\<lambda>i. Raw (block_bytes bytes
                            (case opt_blockSize opts of None \<Rightarrow> default_blockSize | Some x \<Rightarrow> x) i))
                 indices
             @ [ManifestJson blocks])"
  proof (intro allI impI)
    fix r net'
    assume up: "uploadData c net w pw fullPath bytes opts = Some (r, net')"
    from uploadData_chunks [OF up]
    show "chunks net' = chunks net
         \<or> (\<exists>indices blocks. chunks net' = chunks net
             @ map (\<lambda>i. Raw (block_bytes bytes
                            (case opt_blockSize opts of None \<Rightarrow> default_blockSize | Some x \<Rightarrow> x) i))
                 indices
             @ [ManifestJson blocks])"
      by blast
  qed
  show ?thesis by (rule conjI [OF a conjI [OF b conjI [OF p conjI [OF fl conjI [OF f conjI [OF ul u]]]]]])
qed

theorem encryption_before_upload_witness:
  "(\<exists>r net'.
      File_uploadData example_constants pod_network ''pod'' example_pod_wallet example_password ''/f.txt''
        [1, 2, 3, 4, 5] \<lparr>opt_blockSize = Some (Finite 2), opt_contentType = None\<rparr> = Some (r, net')
      \<and> (chunks net' = chunks pod_network
          \<or> (\<exists>indices blocks. chunks net' = chunks pod_network
             @ map (\<lambda>i. encryptBytes example_password (Raw (block_bytes [1, 2, 3, 4, 5] (Finite 2) i))) indices
             @ [encryptBytes example_password (ManifestJson blocks)])))
   \<and> (\<exists>r net'.
      uploadData example_constants pod_network example_pod_wallet example_password ''/f.txt''
        [1, 2, 3, 4, 5] \<lparr>opt_blockSize = Some (Finite 2), opt_contentType = None\<rparr> = Some (r, net')
      \<and> (chunks net' = chunks pod_network
          \<or> (\<exists>indices blocks. chunks net' = chunks pod_network
             @ map (\<lambda>i. Raw (block_bytes [1, 2, 3, 4, 5] (Finite 2) i)) indices
             @ [ManifestJson blocks])))"
proof -
  obtain fm1 net1 where
    up1: "uploadData example_constants pod_network example_pod_wallet example_password ''/f.txt''
      [1, 2, 3, 4, 5] \<lparr>opt_blockSize = Some (Finite 2), opt_contentType = None\<rparr> = Some (Inr fm1, net1)"
    using upload_example by blast
  obtain fm2 net2 where
    up2: "File_uploadData example_constants pod_network ''pod'' example_pod_wallet example_password ''/f.txt''
      [1, 2, 3, 4, 5] \<lparr>opt_blockSize = Some (Finite 2), opt_contentType = None\<rparr> = Some (Inr fm2, net2)"
    using File_upload_example by blast
  note th = encryption_before_upload [where c = example_constants and net = pod_network
      and w = example_pod_wallet and pw = example_password and fullPath = "''/f.txt''"
      and bytes = "[1, 2, 3, 4, 5]" and opts = "\<lparr>opt_blockSize = Some (Finite 2), opt_contentType = None\<rparr>"
      and pname = "''pod''"]
  from th up2 have "chunks net2 = chunks pod_network
          \<or> (\<exists>indices blocks. chunks net2 = chunks pod_network
             @ map (\<lambda>i. encryptBytes example_password (Raw (block_bytes [1, 2, 3, 4, 5] (Finite 2) i))) indices
             @ [encryptBytes example_password (ManifestJson blocks)])" by fastforce
  moreover from th up1 have "chunks net1 = chunks pod_network
          \<or> (\<exists>indices blocks. chunks net1 = chunks pod_network
             @ map (\<lambda>i. Raw (block_bytes [1, 2, 3, 4, 5] (Finite 2) i)) indices
             @ [ManifestJson blocks])" by fastforce
  ultimately show ?thesis using up1 up2 by blast
qed

theorem plaintext_blocks_counterexample:
  "take 3 (chunks (snd (the (uploadData example_constants pod_network example_pod_wallet example_password
      ''/f.txt'' [1, 2, 3, 4, 5] \<lparr>opt_blockSize = Some (Finite 2), opt_contentType = None\<rparr>)))) =
     [Raw [1, 2], Raw [3, 4], Raw [5]]
   \<and> Raw [1, 2] \<noteq> encryptBytes example_password (Raw [1, 2])"
proof -
  obtain fm net' where
    up: "uploadData example_constants pod_network example_pod_wallet example_password ''/f.txt''
      [1, 2, 3, 4, 5] \<lparr>opt_blockSize = Some (Finite 2), opt_contentType = None\<rparr> = Some (Inr fm, net')"
    using upload_example by blast
  from uploadData_success [OF up] obtain indices where
    ix: "loop_indices (totalBlocks (length [1, 2, 3, 4, 5 :: 8 word]) (Finite 2)) = Some indices"
    and ch: "chunks net' = chunks pod_network
        @ map (\<lambda>i. Raw (block_bytes [1, 2, 3, 4, 5] (Finite 2) i)) indices
        @ [ManifestJson (snd (uploadBlocks [1, 2, 3, 4, 5] (Finite 2) indices (pod_network, [])))]"
    by auto
  from ix [symmetric] have "indices = [0, 1, 2]"
    by (simp add: totalBlocks_def loop_indices_def upt_3)
  then have "take 3 (chunks net') = [Raw [1, 2], Raw [3, 4], Raw [5]]"
    using ch by (simp add: pod_network_rest block_bytes_def typed_array_slice_def js_times_def to_index_def)
  then show ?thesis using up by (simp add: encryptBytes_def)
qed

section \<open>Store errors of a feed write\<close>

text \<open>
  Claim C9, as the code has it. In \<^verbatim>\<open>writeFeedDataRaw\<close>, and in the \<^verbatim>\<open>writeFeedData\<close> that
  calls it, a store error whose message starts with the chunk-exists text makes the
  write return the BMT address of the data and leaves the network as it was; any other
  store error is thrown again as a new error that carries the same message, or
  \<^verbatim>\<open>Unknown error\<close> when the store's error has no message or an empty one. The
  \<^verbatim>\<open>writeFeedData\<close> of src/feed/api.ts catches nothing: every store error, the chunk-exists
  error included, reaches its caller.
\<close>

theorem chunk_exists_is_success:
  "(soc_fault net = None \<and> \<lparr>level = l, time = t\<rparr> \<in> set (map fst (feeds net (k, topic))) \<longrightarrow>
      writeFeedDataRaw c net topic data k (Some \<lparr>level = l, time = t\<rparr>) = (Inr (getBmtDataAddress data), net)
      \<and> writeFeedData c net topic data k pw (Some \<lparr>level = l, time = t\<rparr>)
            = (Inr (getBmtDataAddress (encryptBytes pw data)), net))
   \<and> (\<forall>m. soc_fault net = Some m \<and> errorStartWith (StoreError m) (CHUNK_ALREADY_EXISTS_ERROR c) \<longrightarrow>
      writeFeedDataRaw c net topic data k eo = (Inr (getBmtDataAddress data), net))
   \<and> (\<forall>m. soc_fault net = Some m \<and> \<not> errorStartWith (StoreError m) (CHUNK_ALREADY_EXISTS_ERROR c) \<longrightarrow>
      writeFeedDataRaw c net topic data k eo =
        (Inl (StoreError (Some (case m of None \<Rightarrow> ''Unknown error''
                                 | Some txt \<Rightarrow> if txt = [] then ''Unknown error'' else txt))), net))
   \<and> (\<forall>m. soc_fault net = Some m \<longrightarrow>
      writeFeedData_wallet c net topic data k pw eo = (Inl (StoreError m), net))
   \<and> (soc_fault net = None \<and> \<lparr>level = l, time = t\<rparr> \<in> set (map fst (feeds net (k, topic))) \<longrightarrow>
      writeFeedData_wallet c net topic data k pw (Some \<lparr>level = l, time = t\<rparr>)
        = (Inl (StoreError (Some (CHUNK_ALREADY_EXISTS_ERROR c))), net))"
proof -
  have a: "soc_fault net = None \<and> \<lparr>level = l, time = t\<rparr> \<in> set (map fst (feeds net (k, topic))) \<longrightarrow>
      writeFeedDataRaw c net topic data k (Some \<lparr>level = l, time = t\<rparr>) = (Inr (getBmtDataAddress data), net)
      \<and> writeFeedData c net topic data k pw (Some \<lparr>level = l, time = t\<rparr>)
            = (Inr (getBmtDataAddress (encryptBytes pw data)), net)"
    by (clarsimp simp: writeFeedData_def writeFeedDataRaw_def socWriter_upload_def errorStartWith_def)
  have b: "\<forall>m. soc_fault net = Some m \<and> errorStartWith (StoreError m) (CHUNK_ALREADY_EXISTS_ERROR c) \<longrightarrow>
      writeFeedDataRaw c net topic data k eo = (Inr (getBmtDataAddress data), net)"
    by (clarsimp simp: writeFeedDataRaw_def socWriter_upload_def Let_def)
  have d: "\<forall>m. soc_fault net = Some m \<and> \<not> errorStartWith (StoreError m) (CHUNK_ALREADY_EXISTS_ERROR c) \<longrightarrow>
      writeFeedDataRaw c net topic data k eo =
        (Inl (StoreError (Some (case m of None \<Rightarrow> ''Unknown error''
                                 | Some txt \<Rightarrow> if txt = [] then ''Unknown error'' else txt))), net)"
    by (clarsimp simp: writeFeedDataRaw_def socWriter_upload_def Let_def getError_message_def)
  have e: "\<forall>m. soc_fault net = Some m \<longrightarrow>
      writeFeedData_wallet c net topic data k pw eo = (Inl (StoreError m), net)"
    by (clarsimp simp: writeFeedData_wallet_def socWriter_upload_def Let_def)
  have f: "soc_fault net = None \<and> \<lparr>level = l, time = t\<rparr> \<in> set (map fst (feeds net (k, topic))) \<longrightarrow>
      writeFeedData_wallet c net topic data k pw (Some \<lparr>level = l, time = t\<rparr>)
        = (Inl (StoreError (Some (CHUNK_ALREADY_EXISTS_ERROR c))), net)"
    by (clarsimp simp: writeFeedData_wallet_def socWriter_upload_def Let_def)
  show ?thesis by (rule conjI [OF a conjI [OF b conjI [OF d conjI [OF e f]]]])
qed


theorem chunk_exists_is_success_witness:
  "writeFeedDataRaw example_constants pod_network ''/'' (Raw []) example_pod_wallet
       (Some \<lparr>level = 31, time = 1000\<rparr>) = (Inr (getBmtDataAddress (Raw [])), pod_network)
   \<and> writeFeedDataRaw example_constants
        (pod_network\<lparr>soc_fault := Some (Some ''Conflict: chunk already exists: 1f'')\<rparr>)
        ''/'' (Raw []) example_pod_wallet None
      = (Inr (getBmtDataAddress (Raw [])),
         pod_network\<lparr>soc_fault := Some (Some ''Conflict: chunk already exists: 1f'')\<rparr>)
   \<and> writeFeedDataRaw example_constants (pod_network\<lparr>soc_fault := Some (Some ''Service unavailable'')\<rparr>)
        ''/'' (Raw []) example_pod_wallet None
      = (Inl (StoreError (Some ''Service unavailable'')),
         pod_network\<lparr>soc_fault := Some (Some ''Service unavailable'')\<rparr>)
   \<and> writeFeedData_wallet example_constants (pod_network\<lparr>soc_fault := Some (Some ''Service unavailable'')\<rparr>)
        ''/'' (Raw []) example_pod_wallet example_password None
      = (Inl (StoreError (Some ''Service unavailable'')),
         pod_network\<lparr>soc_fault := Some (Some ''Service unavailable'')\<rparr>)
   \<and> writeFeedData_wallet example_constants pod_network ''/'' (Raw []) example_pod_wallet example_password
        (Some \<lparr>level = 31, time = 1000\<rparr>)
      = (Inl (StoreError (Some ''Conflict: chunk already exists'')), pod_network)"
proof -
  define net1 where "net1 = pod_network\<lparr>soc_fault := Some (Some ''Conflict: chunk already exists: 1f'')\<rparr>"
  define net2 where "net2 = pod_network\<lparr>soc_fault := Some (Some ''Service unavailable'')\<rparr>"
  note t0 = chunk_exists_is_success [where c = example_constants and net = pod_network and k = example_pod_wallet
      and topic = "''/''" and l = 31 and t = 1000 and data = "Raw []" and pw = example_password]
  note t1 = chunk_exists_is_success [where c = example_constants and net = net1 and k = example_pod_wallet
      and topic = "''/''" and data = "Raw []" and pw = example_password and eo = None]
  note t2 = chunk_exists_is_success [where c = example_constants and net = net2 and k = example_pod_wallet
      and topic = "''/''" and data = "Raw []" and pw = example_password and eo = None]
  have f0: "soc_fault pod_network = None" by (simp add: pod_network_rest)
  have f1: "soc_fault net1 = Some (Some ''Conflict: chunk already exists: 1f'')"
    by (simp add: net1_def)
  have s1: "errorStartWith (StoreError (Some ''Conflict: chunk already exists: 1f''))
              (CHUNK_ALREADY_EXISTS_ERROR example_constants)"
    by (simp add: errorStartWith_def example_constants_def)
  have f2: "soc_fault net2 = Some (Some ''Service unavailable'')"
    by (simp add: net2_def)
  have s2: "\<not> errorStartWith (StoreError (Some ''Service unavailable''))
              (CHUNK_ALREADY_EXISTS_ERROR example_constants)"
    by (simp add: errorStartWith_def example_constants_def)
  from t0 f0 pod_network_root_epoch
  have a: "writeFeedDataRaw example_constants pod_network ''/'' (Raw []) example_pod_wallet
       (Some \<lparr>level = 31, time = 1000\<rparr>) = (Inr (getBmtDataAddress (Raw [])), pod_network)"
    by blast
  from t1 f1 s1
  have b: "writeFeedDataRaw example_constants net1 ''/'' (Raw []) example_pod_wallet None
      = (Inr (getBmtDataAddress (Raw [])), net1)"
    by blast
  from t2 f2 s2
  have "writeFeedDataRaw example_constants net2 ''/'' (Raw []) example_pod_wallet None
      = (Inl (StoreError (Some (case Some ''Service unavailable'' of None \<Rightarrow> ''Unknown error''
                                 | Some txt \<Rightarrow> if txt = [] then ''Unknown error'' else txt))), net2)"
    by blast
  then have d: "writeFeedDataRaw example_constants net2 ''/'' (Raw []) example_pod_wallet None
      = (Inl (StoreError (Some ''Service unavailable'')), net2)"
    by simp
  from t2 f2
  have e: "writeFeedData_wallet example_constants net2 ''/'' (Raw []) example_pod_wallet example_password None
      = (Inl (StoreError (Some ''Service unavailable'')), net2)"
    by blast
  from t0 f0 pod_network_root_epoch
  have "writeFeedData_wallet example_constants pod_network ''/'' (Raw []) example_pod_wallet example_password
        (Some \<lparr>level = 31, time = 1000\<rparr>)
      = (Inl (StoreError (Some (CHUNK_ALREADY_EXISTS_ERROR example_constants))), pod_network)"
    by blast
  then have f: "writeFeedData_wallet example_constants pod_network ''/'' (Raw []) example_pod_wallet
        example_password (Some \<lparr>level = 31, time = 1000\<rparr>)
      = (Inl (StoreError (Some ''Conflict: chunk already exists'')), pod_network)"
    by (simp add: example_constants_def)
  from a b d e f show ?thesis unfolding net1_def net2_def by blast
qed

theorem store_error_counterexample:
  "socWriter_upload example_constants (pod_network\<lparr>soc_fault := Some None\<rparr>) example_pod_wallet ''/''
       \<lparr>level = 31, time = 1000\<rparr> (Raw [])
     = (Inl (StoreError None), pod_network\<lparr>soc_fault := Some None\<rparr>)
   \<and> writeFeedDataRaw example_constants (pod_network\<lparr>soc_fault := Some None\<rparr>) ''/'' (Raw [])
        example_pod_wallet (Some \<lparr>level = 31, time = 1000\<rparr>)
     = (Inl (StoreError (Some ''Unknown error'')), pod_network\<lparr>soc_fault := Some None\<rparr>)
   \<and> StoreError (Some ''Unknown error'') \<noteq> StoreError None
   \<and> socWriter_upload example_constants pod_network example_pod_wallet ''/''
        \<lparr>level = 31, time = 1000\<rparr> (encryptBytes example_password (Raw []))
     = (Inl (StoreError (Some (CHUNK_ALREADY_EXISTS_ERROR example_constants))), pod_network)
   \<and> writeFeedData_wallet example_constants pod_network ''/'' (Raw []) example_pod_wallet example_password
        (Some \<lparr>level = 31, time = 1000\<rparr>)
     = (Inl (StoreError (Some (CHUNK_ALREADY_EXISTS_ERROR example_constants))), pod_network)"
  by (simp add: writeFeedDataRaw_def writeFeedData_wallet_def socWriter_upload_def errorStartWith_def
        getError_message_def pod_network_feeds pod_network_rest Let_def)

section \<open>Adding an entry that already exists\<close>

lemma dir_network_feeds:
  "feeds dir_network (example_pod_wallet, ''/a'') =
     [(\<lparr>level = 31, time = 1000\<rparr>,
       Encrypted example_password (DirJson \<lparr>meta = \<lparr>dm_version = 1, dm_path = ''/'', dm_name = ''a'',
           dm_creationTime = 1000, dm_modificationTime = 1000, dm_accessTime = 1000\<rparr>,
           fileOrDirNames = None\<rparr>))]
   \<and> feeds dir_network (example_pod_wallet, ''/'') =
     [(\<lparr>level = 30, time = 1000\<rparr>,
       Encrypted example_password (DirJson \<lparr>meta = \<lparr>dm_version = 1, dm_path = [], dm_name = ''/'',
           dm_creationTime = 1000, dm_modificationTime = 1000, dm_accessTime = 1000\<rparr>,
           fileOrDirNames = Some [''_D_a'']\<rparr>)),
      (\<lparr>level = 31, time = 1000\<rparr>,
        Encrypted example_password (DirJson \<lparr>meta = \<lparr>dm_version = 1, dm_path = [], dm_name = ''/'',
           dm_creationTime = 1000, dm_modificationTime = 1000, dm_accessTime = 1000\<rparr>, fileOrDirNames = None\<rparr>))]"
  by (simp add: dir_network_def createDirectory_def extractPathInfo_def assertDirectoryName_def
        MAX_DIRECTORY_NAME_LENGTH_def addEntryToDirectory_def assertItemIsNotExists_def combine_def
        getFeedData_def getRawMetadata_def decryptBytes_def pod_network_feeds pod_network_rest
        DIRECTORY_TOKEN_def FILE_TOKEN_def writeFeedData_def writeFeedDataRaw_def socWriter_upload_def
        encryptBytes_def getNextEpoch_def getFirstEpoch_def createDirectoryInfo_def
        createRawDirectoryMetadata_def example_constants_def Let_def)

lemma extractPathInfo_nonempty:
  "extractPathInfo fullPath = Inr (parentPath, name) \<Longrightarrow> parentPath \<noteq> [] \<and> name \<noteq> []"
  by (auto simp: extractPathInfo_def Let_def split: if_splits)

lemma addEntryToDirectory_exists:
  "parentPath \<noteq> [] \<Longrightarrow> entryPath \<noteq> [] \<Longrightarrow> feeds net (w, combine parentPath entryPath) \<noteq> [] \<Longrightarrow>
     addEntryToDirectory c net w pw parentPath entryPath isFile =
        (Inl (AlreadyUploaded (if isFile then ''File'' else ''Directory'') (combine parentPath entryPath)), net)"
  by (cases "feeds net (w, combine parentPath entryPath)")
     (auto simp: addEntryToDirectory_def assertItemIsNotExists_def getFeedData_def Let_def)

lemma getFeedData_Inr_feeds:
  "getFeedData net topic w = Inr la \<Longrightarrow> feeds net (w, topic) \<noteq> []"
  by (auto simp: getFeedData_def split: list.splits)

lemma uploadData_returns:
  "(case opt_blockSize opts of None \<Rightarrow> default_blockSize | Some x \<Rightarrow> x) = Finite b \<Longrightarrow> 0 < b \<Longrightarrow>
     \<exists>r net'. uploadData c net w pw fullPath bytes opts = Some (r, net')"
  by (simp add: uploadData_def Let_def totalBlocks_def loop_indices_def split_beta
           split: sum.splits option.splits prod.splits)

lemma dir_network_lookup:
  "getFeedData dir_network ''/a'' example_pod_wallet =
     Inr \<lparr>la_data = Encrypted example_password (DirJson \<lparr>meta = \<lparr>dm_version = 1, dm_path = ''/'',
             dm_name = ''a'', dm_creationTime = 1000, dm_modificationTime = 1000, dm_accessTime = 1000\<rparr>,
             fileOrDirNames = None\<rparr>),
          la_epoch = \<lparr>level = 31, time = 1000\<rparr>\<rparr>"
  by (simp add: getFeedData_def dir_network_feeds)

lemma listed_network_root:
  "getRawMetadata listed_network ''/'' example_pod_wallet example_password =
     Inr \<lparr>rm_epoch = \<lparr>level = 31, time = 1000\<rparr>,
          rm_metadata = RawDirectory \<lparr>meta = \<lparr>dm_version = 1, dm_path = [], dm_name = ''/'',
             dm_creationTime = 1000, dm_modificationTime = 1000, dm_accessTime = 1000\<rparr>,
             fileOrDirNames = Some [''_F_x.txt'']\<rparr>\<rparr>
   \<and> getFeedData listed_network ''/x.txt'' example_pod_wallet = Inl DataNotFound"
  by (simp add: getRawMetadata_def getFeedData_def decryptBytes_def listed_network_def pod_network_feeds
        example_pod_wallet_def)

lemma example_paths:
  "combine ''/'' ''a'' = ''/a'' \<and> combine ''/'' ''x.txt'' = ''/x.txt'' \<and> combine ''/a'' ''b'' = ''/a/b''
   \<and> extractPathInfo ''/a'' = Inr (''/'', ''a'') \<and> extractPathInfo ''/a/b'' = Inr (''/a'', ''b'')
   \<and> assertDirectoryName ''a'' = Inr () \<and> assertDirectoryName ''b'' = Inr ()"
  by (simp add: combine_def extractPathInfo_def assertDirectoryName_def MAX_DIRECTORY_NAME_LENGTH_def)

text \<open>
  Claim C5. When an item is already stored at the full path, adding the entry fails with
  the \<^verbatim>\<open>already uploaded to the network\<close> error, whatever the parent's metadata is: the
  probe of the full path comes before the parent is read. This holds for
  \<^verbatim>\<open>addEntryToDirectory\<close> with a parent path and an entry name that are not empty, for
  \<^verbatim>\<open>createDirectory\<close> and for \<^verbatim>\<open>uploadData\<close>, neither of which writes to a feed then. When the
  name with its token is already in the parent's list, \<^verbatim>\<open>addEntryToDirectory\<close> fails and
  the network is as it was; if nothing is stored at the full path the error is
  \<^verbatim>\<open>already listed in the parent directory list\<close>.
\<close>

theorem add_entry_already_exists:
  "(parentPath \<noteq> [] \<and> entryPath \<noteq> [] \<and> getFeedData net (combine parentPath entryPath) w = Inr la \<longrightarrow>
      addEntryToDirectory c net w pw parentPath entryPath isFile =
        (Inl (AlreadyUploaded (if isFile then ''File'' else ''Directory'') (combine parentPath entryPath)), net))
   \<and> (extractPathInfo fullPath = Inr (parentPath, entryPath) \<and> assertDirectoryName entryPath = Inr ()
        \<and> getFeedData net (combine parentPath entryPath) w = Inr la \<longrightarrow>
      createDirectory c net fullPath w pw =
        (Inl (AlreadyUploaded ''Directory'' (combine parentPath entryPath)), net))
   \<and> (\<forall>r net'. extractPathInfo fullPath = Inr (parentPath, entryPath)
        \<and> getFeedData net (combine parentPath entryPath) w = Inr la
        \<and> uploadData c net w pw fullPath bytes opts = Some (r, net') \<longrightarrow>
      r = Inl (AlreadyUploaded ''File'' (combine parentPath entryPath)) \<and> feeds net' = feeds net)
   \<and> (getRawMetadata net parentPath w pw = Inr m \<and> rm_metadata m = RawDirectory d
        \<and> fileOrDirNames d = Some ns
        \<and> (if isFile then FILE_TOKEN else DIRECTORY_TOKEN) @ entryPath \<in> set ns \<longrightarrow>
      (\<exists>e. addEntryToDirectory c net w pw parentPath entryPath isFile = (Inl e, net))
      \<and> (parentPath \<noteq> [] \<and> entryPath \<noteq> []
           \<and> getFeedData net (combine parentPath entryPath) w = Inl DataNotFound \<longrightarrow>
          addEntryToDirectory c net w pw parentPath entryPath isFile =
            (Inl (AlreadyListed (if isFile then ''File'' else ''Directory'')), net)))"
proof -
  have a: "parentPath \<noteq> [] \<and> entryPath \<noteq> [] \<and> getFeedData net (combine parentPath entryPath) w = Inr la \<longrightarrow>
      addEntryToDirectory c net w pw parentPath entryPath isFile =
        (Inl (AlreadyUploaded (if isFile then ''File'' else ''Directory'') (combine parentPath entryPath)), net)"
    by (clarsimp simp: addEntryToDirectory_def assertItemIsNotExists_def Let_def)
  have cd: "extractPathInfo fullPath = Inr (parentPath, entryPath) \<and> assertDirectoryName entryPath = Inr ()
        \<and> getFeedData net (combine parentPath entryPath) w = Inr la \<longrightarrow>
      createDirectory c net fullPath w pw =
        (Inl (AlreadyUploaded ''Directory'' (combine parentPath entryPath)), net)"
  proof (intro impI)
    assume h: "extractPathInfo fullPath = Inr (parentPath, entryPath) \<and> assertDirectoryName entryPath = Inr ()
        \<and> getFeedData net (combine parentPath entryPath) w = Inr la"
    then have ne: "parentPath \<noteq> []" "entryPath \<noteq> []" using extractPathInfo_nonempty by blast+
    from h have "feeds net (w, combine parentPath entryPath) \<noteq> []" using getFeedData_Inr_feeds by blast
    from addEntryToDirectory_exists [OF ne this, of c pw False] h
    show "createDirectory c net fullPath w pw =
        (Inl (AlreadyUploaded ''Directory'' (combine parentPath entryPath)), net)"
      by (simp add: createDirectory_def)
  qed
  have up: "\<forall>r net'. extractPathInfo fullPath = Inr (parentPath, entryPath)
        \<and> getFeedData net (combine parentPath entryPath) w = Inr la
        \<and> uploadData c net w pw fullPath bytes opts = Some (r, net') \<longrightarrow>
      r = Inl (AlreadyUploaded ''File'' (combine parentPath entryPath)) \<and> feeds net' = feeds net"
  proof (intro allI impI)
    fix r net'
    assume h: "extractPathInfo fullPath = Inr (parentPath, entryPath)
        \<and> getFeedData net (combine parentPath entryPath) w = Inr la
        \<and> uploadData c net w pw fullPath bytes opts = Some (r, net')"
    then have ne: "parentPath \<noteq> []" "entryPath \<noteq> []" using extractPathInfo_nonempty by blast+
    define bs where "bs = (case opt_blockSize opts of None \<Rightarrow> default_blockSize | Some b \<Rightarrow> b)"
    from h obtain indices where n: "loop_indices (totalBlocks (length bytes) bs) = Some indices"
      by (cases "loop_indices (totalBlocks (length bytes) bs)") (auto simp: uploadData_def Let_def bs_def)
    define ub where "ub = uploadBlocks bytes bs indices (net, [])"
    define net2 where "net2 = (fst ub)\<lparr>chunks := chunks (fst ub) @ [ManifestJson (snd ub)]\<rparr>"
    have f2: "feeds net2 = feeds net"
      using uploadBlocks_rest [of bytes bs indices net "[]"] by (simp add: net2_def ub_def)
    from h have "feeds net (w, combine parentPath entryPath) \<noteq> []" using getFeedData_Inr_feeds by blast
    then have "feeds net2 (w, combine parentPath entryPath) \<noteq> []" by (simp add: f2)
    from addEntryToDirectory_exists [OF ne this, of c pw True]
    have ae: "addEntryToDirectory c net2 w pw parentPath entryPath True =
        (Inl (AlreadyUploaded ''File'' (combine parentPath entryPath)), net2)" by simp
    have "uploadData c net w pw fullPath bytes opts =
        Some (Inl (AlreadyUploaded ''File'' (combine parentPath entryPath)), net2)"
      using h n ae
      by (simp add: uploadData_def Let_def bs_def [symmetric] ub_def [symmetric] uploadBytes_def
            split_beta net2_def [symmetric])
    with h f2 show "r = Inl (AlreadyUploaded ''File'' (combine parentPath entryPath)) \<and> feeds net' = feeds net"
      by auto
  qed
  have b: "getRawMetadata net parentPath w pw = Inr m \<and> rm_metadata m = RawDirectory d
        \<and> fileOrDirNames d = Some ns
        \<and> (if isFile then FILE_TOKEN else DIRECTORY_TOKEN) @ entryPath \<in> set ns \<longrightarrow>
      (\<exists>e. addEntryToDirectory c net w pw parentPath entryPath isFile = (Inl e, net))
      \<and> (parentPath \<noteq> [] \<and> entryPath \<noteq> []
           \<and> getFeedData net (combine parentPath entryPath) w = Inl DataNotFound \<longrightarrow>
          addEntryToDirectory c net w pw parentPath entryPath isFile =
            (Inl (AlreadyListed (if isFile then ''File'' else ''Directory'')), net))"
    by (clarsimp simp: addEntryToDirectory_def assertItemIsNotExists_def Let_def split: sum.splits)
  show ?thesis by (rule conjI [OF a conjI [OF cd conjI [OF up b]]])
qed

theorem add_entry_already_exists_witness:
  "addEntryToDirectory example_constants dir_network example_pod_wallet example_password ''/'' ''a'' False
     = (Inl (AlreadyUploaded ''Directory'' ''/a''), dir_network)
   \<and> createDirectory example_constants dir_network ''/a'' example_pod_wallet example_password
     = (Inl (AlreadyUploaded ''Directory'' ''/a''), dir_network)
   \<and> (\<exists>net'. uploadData example_constants dir_network example_pod_wallet example_password ''/a'' [1, 2, 3]
                \<lparr>opt_blockSize = Some (Finite 2), opt_contentType = None\<rparr>
              = Some (Inl (AlreadyUploaded ''File'' ''/a''), net')
            \<and> feeds net' = feeds dir_network)
   \<and> addEntryToDirectory example_constants listed_network example_pod_wallet example_password ''/''
        ''x.txt'' True
     = (Inl (AlreadyListed ''File''), listed_network)"
proof -
  note t1 = add_entry_already_exists [where c = example_constants and net = dir_network
      and w = example_pod_wallet and pw = example_password and parentPath = "''/''" and entryPath = "''a''"
      and fullPath = "''/a''" and bytes = "[1, 2, 3]"
      and opts = "\<lparr>opt_blockSize = Some (Finite 2), opt_contentType = None\<rparr>", unfolded example_paths [THEN conjunct1]]
  note t2 = add_entry_already_exists [where c = example_constants and net = listed_network
      and w = example_pod_wallet and pw = example_password and parentPath = "''/''" and entryPath = "''x.txt''"
      and isFile = True, unfolded example_paths [THEN conjunct2, THEN conjunct1]]
  have ne: "''/'' \<noteq> [] \<and> ''a'' \<noteq> [] \<and> ''x.txt'' \<noteq> []" by simp
  have ex: "extractPathInfo ''/a'' = Inr (''/'', ''a'')" "assertDirectoryName ''a'' = Inr ()"
    using example_paths by blast+
  obtain r net' where up: "uploadData example_constants dir_network example_pod_wallet example_password ''/a''
        [1, 2, 3] \<lparr>opt_blockSize = Some (Finite 2), opt_contentType = None\<rparr> = Some (r, net')"
    using uploadData_returns [where opts = "\<lparr>opt_blockSize = Some (Finite 2), opt_contentType = None\<rparr>" and b = 2]
    by fastforce
  from t1 [of _ False] ne dir_network_lookup
  have a: "addEntryToDirectory example_constants dir_network example_pod_wallet example_password ''/'' ''a'' False
     = (Inl (AlreadyUploaded (if False then ''File'' else ''Directory'') ''/a''), dir_network)"
    by blast
  from t1 ex dir_network_lookup
  have b: "createDirectory example_constants dir_network ''/a'' example_pod_wallet example_password
     = (Inl (AlreadyUploaded ''Directory'' ''/a''), dir_network)"
    by blast
  from t1 ex dir_network_lookup up
  have u: "r = Inl (AlreadyUploaded ''File'' ''/a'') \<and> feeds net' = feeds dir_network"
    by blast
  have tok: "(if True then FILE_TOKEN else DIRECTORY_TOKEN) @ ''x.txt'' \<in> set [''_F_x.txt'']"
    by (simp add: FILE_TOKEN_def)
  from t2 ne listed_network_root tok
  have l: "addEntryToDirectory example_constants listed_network example_pod_wallet example_password ''/''
        ''x.txt'' True
     = (Inl (AlreadyListed (if True then ''File'' else ''Directory'')), listed_network)"
    by (metis raw_metadata_with_epoch.select_convs(2) raw_directory_metadata.select_convs(2))
  from a b u up l show ?thesis by simp
qed

section \<open>Adding an entry under a parent that has no metadata\<close>

lemma addEntryToDirectory_no_parent:
  assumes "getRawMetadata net parentPath w pw = Inl perr"
  shows "\<exists>e. addEntryToDirectory c net w pw parentPath entryPath isFile = (Inl e, net)"
    and "parentPath \<noteq> [] \<Longrightarrow> entryPath \<noteq> [] \<Longrightarrow>
         getFeedData net (combine parentPath entryPath) w = Inl DataNotFound \<Longrightarrow>
         addEntryToDirectory c net w pw parentPath entryPath isFile = (Inl ParentNotFound, net)"
  using assms
  by (auto simp: addEntryToDirectory_def assertItemIsNotExists_def Let_def split: sum.splits)

lemma getRawMetadata_feeds_cong:
  "feeds net2 = feeds net \<Longrightarrow>
     getRawMetadata net2 path w pw = getRawMetadata net path w pw
     \<and> getFeedData net2 path w = getFeedData net path w"
  by (simp add: getRawMetadata_def getFeedData_def)

lemma pod_network_no_a:
  "getRawMetadata pod_network ''/a'' example_pod_wallet example_password = Inl DataNotFound
   \<and> getFeedData pod_network ''/a/b'' example_pod_wallet = Inl DataNotFound"
  by (simp add: getRawMetadata_def getFeedData_def pod_network_feeds)

text \<open>
  Claim C4, as the code has it. When the parent directory has no metadata that can be
  read, \<^verbatim>\<open>addEntryToDirectory\<close> and \<^verbatim>\<open>createDirectory\<close> fail and the network is as it was,
  and \<^verbatim>\<open>uploadData\<close> fails without a write to any feed: neither the parent's list nor the
  child's metadata is written. The error is \<^verbatim>\<open>Parent directory does not exist\<close> when
  the checks that come first pass: the parent path and the entry name are not empty,
  the directory name is accepted, and nothing is stored at the full path.
\<close>

theorem parent_not_found:
  "(getRawMetadata net parentPath w pw = Inl perr \<longrightarrow>
      (\<exists>e. addEntryToDirectory c net w pw parentPath entryPath isFile = (Inl e, net))
      \<and> (parentPath \<noteq> [] \<and> entryPath \<noteq> []
           \<and> getFeedData net (combine parentPath entryPath) w = Inl DataNotFound \<longrightarrow>
          addEntryToDirectory c net w pw parentPath entryPath isFile = (Inl ParentNotFound, net)))
   \<and> (extractPathInfo fullPath = Inr (parentPath, entryPath)
        \<and> getRawMetadata net parentPath w pw = Inl perr \<longrightarrow>
      (\<exists>e. createDirectory c net fullPath w pw = (Inl e, net))
      \<and> (assertDirectoryName entryPath = Inr ()
           \<and> getFeedData net (combine parentPath entryPath) w = Inl DataNotFound \<longrightarrow>
          createDirectory c net fullPath w pw = (Inl ParentNotFound, net)))
   \<and> (\<forall>r net'. extractPathInfo fullPath = Inr (parentPath, entryPath)
        \<and> getRawMetadata net parentPath w pw = Inl perr
        \<and> uploadData c net w pw fullPath bytes opts = Some (r, net') \<longrightarrow>
      (\<exists>e. r = Inl e) \<and> feeds net' = feeds net
      \<and> (getFeedData net (combine parentPath entryPath) w = Inl DataNotFound \<longrightarrow> r = Inl ParentNotFound))"
proof -
  have a: "getRawMetadata net parentPath w pw = Inl perr \<longrightarrow>
      (\<exists>e. addEntryToDirectory c net w pw parentPath entryPath isFile = (Inl e, net))
      \<and> (parentPath \<noteq> [] \<and> entryPath \<noteq> []
           \<and> getFeedData net (combine parentPath entryPath) w = Inl DataNotFound \<longrightarrow>
          addEntryToDirectory c net w pw parentPath entryPath isFile = (Inl ParentNotFound, net))"
    using addEntryToDirectory_no_parent [where c = c and entryPath = entryPath and isFile = isFile] by blast
  have b: "extractPathInfo fullPath = Inr (parentPath, entryPath)
        \<and> getRawMetadata net parentPath w pw = Inl perr \<longrightarrow>
      (\<exists>e. createDirectory c net fullPath w pw = (Inl e, net))
      \<and> (assertDirectoryName entryPath = Inr ()
           \<and> getFeedData net (combine parentPath entryPath) w = Inl DataNotFound \<longrightarrow>
          createDirectory c net fullPath w pw = (Inl ParentNotFound, net))"
  proof (intro impI)
    assume h: "extractPathInfo fullPath = Inr (parentPath, entryPath)
        \<and> getRawMetadata net parentPath w pw = Inl perr"
    then have ne: "parentPath \<noteq> []" "entryPath \<noteq> []" using extractPathInfo_nonempty by blast+
    from h have np: "getRawMetadata net parentPath w pw = Inl perr" by simp
    from addEntryToDirectory_no_parent(1) [OF np, where c = c and entryPath = entryPath and isFile = False]
    obtain e where e: "addEntryToDirectory c net w pw parentPath entryPath False = (Inl e, net)" by blast
    have 1: "\<exists>e. createDirectory c net fullPath w pw = (Inl e, net)"
      using h e by (cases "assertDirectoryName entryPath") (auto simp: createDirectory_def)
    have 2: "assertDirectoryName entryPath = Inr ()
           \<and> getFeedData net (combine parentPath entryPath) w = Inl DataNotFound \<longrightarrow>
          createDirectory c net fullPath w pw = (Inl ParentNotFound, net)"
      using h addEntryToDirectory_no_parent(2) [OF np ne, where c = c and isFile = False]
      by (auto simp: createDirectory_def)
    from 1 2 show "(\<exists>e. createDirectory c net fullPath w pw = (Inl e, net))
      \<and> (assertDirectoryName entryPath = Inr ()
           \<and> getFeedData net (combine parentPath entryPath) w = Inl DataNotFound \<longrightarrow>
          createDirectory c net fullPath w pw = (Inl ParentNotFound, net))" by (rule conjI)
  qed
  have u: "\<forall>r net'. extractPathInfo fullPath = Inr (parentPath, entryPath)
        \<and> getRawMetadata net parentPath w pw = Inl perr
        \<and> uploadData c net w pw fullPath bytes opts = Some (r, net') \<longrightarrow>
      (\<exists>e. r = Inl e) \<and> feeds net' = feeds net
      \<and> (getFeedData net (combine parentPath entryPath) w = Inl DataNotFound \<longrightarrow> r = Inl ParentNotFound)"
  proof (intro allI impI)
    fix r net'
    assume h: "extractPathInfo fullPath = Inr (parentPath, entryPath)
        \<and> getRawMetadata net parentPath w pw = Inl perr
        \<and> uploadData c net w pw fullPath bytes opts = Some (r, net')"
    then have ne: "parentPath \<noteq> []" "entryPath \<noteq> []" using extractPathInfo_nonempty by blast+
    define bs where "bs = (case opt_blockSize opts of None \<Rightarrow> default_blockSize | Some b \<Rightarrow> b)"
    from h obtain indices where n: "loop_indices (totalBlocks (length bytes) bs) = Some indices"
      by (cases "loop_indices (totalBlocks (length bytes) bs)") (auto simp: uploadData_def Let_def bs_def)
    define ub where "ub = uploadBlocks bytes bs indices (net, [])"
    define net2 where "net2 = (fst ub)\<lparr>chunks := chunks (fst ub) @ [ManifestJson (snd ub)]\<rparr>"
    have f2: "feeds net2 = feeds net"
      using uploadBlocks_rest [of bytes bs indices net "[]"] by (simp add: net2_def ub_def)
    note cong = getRawMetadata_feeds_cong [OF f2]
    from h cong have np: "getRawMetadata net2 parentPath w pw = Inl perr" by simp
    from addEntryToDirectory_no_parent(1) [OF np, where c = c and entryPath = entryPath and isFile = True]
    obtain e where e: "addEntryToDirectory c net2 w pw parentPath entryPath True = (Inl e, net2)" by blast
    have res: "uploadData c net w pw fullPath bytes opts = Some (Inl e, net2)"
      using h n e
      by (simp add: uploadData_def Let_def bs_def [symmetric] ub_def [symmetric] uploadBytes_def
            split_beta net2_def [symmetric])
    have "getFeedData net (combine parentPath entryPath) w = Inl DataNotFound \<longrightarrow> e = ParentNotFound"
      using addEntryToDirectory_no_parent(2) [OF np ne, where c = c and isFile = True] e cong by simp
    with h res f2 show "(\<exists>e. r = Inl e) \<and> feeds net' = feeds net
      \<and> (getFeedData net (combine parentPath entryPath) w = Inl DataNotFound \<longrightarrow> r = Inl ParentNotFound)"
      by auto
  qed
  show ?thesis by (rule conjI [OF a conjI [OF b u]])
qed

theorem parent_not_found_witness:
  "addEntryToDirectory example_constants pod_network example_pod_wallet example_password ''/a'' ''b'' False
     = (Inl ParentNotFound, pod_network)
   \<and> createDirectory example_constants pod_network ''/a/b'' example_pod_wallet example_password
     = (Inl ParentNotFound, pod_network)
   \<and> (\<exists>net'. uploadData example_constants pod_network example_pod_wallet example_password ''/a/b'' [1, 2, 3]
                \<lparr>opt_blockSize = Some (Finite 2), opt_contentType = None\<rparr> = Some (Inl ParentNotFound, net')
            \<and> feeds net' = feeds pod_network)"
proof -
  note t = parent_not_found [where c = example_constants and net = pod_network
      and w = example_pod_wallet and pw = example_password and parentPath = "''/a''" and entryPath = "''b''"
      and fullPath = "''/a/b''" and bytes = "[1, 2, 3]" and perr = DataNotFound
      and opts = "\<lparr>opt_blockSize = Some (Finite 2), opt_contentType = None\<rparr>",
      unfolded example_paths [THEN conjunct2, THEN conjunct2, THEN conjunct1]]
  have ne: "''/a'' \<noteq> [] \<and> ''b'' \<noteq> []" by simp
  have ex: "extractPathInfo ''/a/b'' = Inr (''/a'', ''b'')" "assertDirectoryName ''b'' = Inr ()"
    using example_paths by blast+
  obtain r net' where up: "uploadData example_constants pod_network example_pod_wallet example_password
        ''/a/b'' [1, 2, 3] \<lparr>opt_blockSize = Some (Finite 2), opt_contentType = None\<rparr> = Some (r, net')"
    using uploadData_returns [where opts = "\<lparr>opt_blockSize = Some (Finite 2), opt_contentType = None\<rparr>" and b = 2]
    by fastforce
  from t [where isFile = False] ne pod_network_no_a
  have a: "addEntryToDirectory example_constants pod_network example_pod_wallet example_password ''/a'' ''b''
      False = (Inl ParentNotFound, pod_network)"
    by blast
  from t ex pod_network_no_a
  have b: "createDirectory example_constants pod_network ''/a/b'' example_pod_wallet example_password
     = (Inl ParentNotFound, pod_network)"
    by blast
  from t ex pod_network_no_a up
  have u: "r = Inl ParentNotFound \<and> feeds net' = feeds pod_network"
    by blast
  from a b u up show ?thesis by simp
qed

theorem orphan_entry_counterexample:
  "getRawMetadata orphan_network ''/a'' example_pod_wallet example_password = Inl DataNotFound
   \<and> addEntryToDirectory example_constants orphan_network example_pod_wallet example_password ''/a'' ''b''
        False = (Inl (AlreadyUploaded ''Directory'' ''/a/b''), orphan_network)
   \<and> createDirectory example_constants orphan_network ''/a/b'' example_pod_wallet example_password
        = (Inl (AlreadyUploaded ''Directory'' ''/a/b''), orphan_network)
   \<and> AlreadyUploaded ''Directory'' ''/a/b'' \<noteq> ParentNotFound"
  by (simp add: orphan_network_def createDirectory_def extractPathInfo_def assertDirectoryName_def
        MAX_DIRECTORY_NAME_LENGTH_def addEntryToDirectory_def assertItemIsNotExists_def combine_def
        getFeedData_def getRawMetadata_def decryptBytes_def pod_network_feeds Let_def)


section \<open>Creating a pod\<close>

lemma dropWhile_rev_fixed:
  assumes "dropWhile P xs = xs"
  shows "dropWhile P (rev (dropWhile P (rev xs))) = rev (dropWhile P (rev xs))"
proof (cases xs)
  case Nil
  then show ?thesis by simp
next
  case (Cons x xs')
  have "dropWhile P xs \<noteq> []" unfolding assms using Cons by simp
  then have "\<not> P (hd (dropWhile P xs))" by (rule hd_dropWhile)
  then have nx: "\<not> P x" unfolding assms using Cons by simp
  have "\<exists>ys. dropWhile P (rev xs) = ys @ [x]"
  proof (cases "\<forall>y\<in>set (rev xs'). P y")
    case True
    then have "dropWhile P (rev xs) = [] @ [x]" using Cons nx by (simp add: dropWhile_append)
    then show ?thesis by blast
  next
    case False
    then have "dropWhile P (rev xs) = dropWhile P (rev xs') @ [x]" using Cons by (auto simp: dropWhile_append)
    then show ?thesis by blast
  qed
  then obtain ys where "dropWhile P (rev xs) = ys @ [x]" by blast
  then show ?thesis using nx by simp
qed

lemma trim_idem: "trim (trim str) = trim str"
proof -
  define t where "t = dropWhile is_white_space str"
  have fix1: "dropWhile is_white_space t = t" by (simp add: t_def)
  have "dropWhile is_white_space (rev (dropWhile is_white_space (rev t))) = rev (dropWhile is_white_space (rev t))"
    by (rule dropWhile_rev_fixed [OF fix1])
  then show ?thesis by (simp add: trim_def t_def)
qed

lemma Derived_neq: "Derived w n \<noteq> w"
  by (induction w) auto


lemma socWriter_upload_Inr_fault:
  "socWriter_upload c net k topic e d = (Inr r, net') \<Longrightarrow> soc_fault net' = soc_fault net"
  by (auto simp: socWriter_upload_def split: option.splits if_splits)

lemma create_success:
  assumes "PersonalStorage_create c net w name = (Inr p, net')"
  shows "\<exists>podsInfo e rest.
           getPodsList net w = Inr podsInfo
           \<and> assertPodName c (trim name) = Inr ()
           \<and> length (pi_pods podsInfo) + 1 \<le> MAX_PODS_COUNT c
           \<and> trim name \<notin> set (map pod_name (pi_pods podsInfo))
           \<and> p = \<lparr>pod_name = trim name, pod_index = length (pi_pods podsInfo) + 1\<rparr>
           \<and> feeds net' (w, POD_TOPIC)
               = (e, Encrypted (PrivateKeyBytes w) (PodsJson (pi_pods podsInfo @ [p]))) # rest"
proof -
  from assms obtain u where an: "assertPodName c (trim name) = Inr u"
    by (cases "assertPodName c (trim name)") (auto simp: PersonalStorage_create_def Let_def)
  from assms an obtain podsInfo where gl: "getPodsList net w = Inr podsInfo"
    by (cases "getPodsList net w") (auto simp: PersonalStorage_create_def Let_def)
  define pods where "pods = pi_pods podsInfo"
  from assms an gl have cap: "length pods + 1 \<le> MAX_PODS_COUNT c"
    by (auto simp: PersonalStorage_create_def Let_def assertPodsLength_def pods_def split: if_splits)
  then have al: "assertPodsLength c (Suc (length pods)) = Inr ()"
    by (simp add: assertPodsLength_def)
  from assms an gl al have fresh: "trim name \<notin> set (map pod_name pods)"
    by (auto simp: PersonalStorage_create_def Let_def assertPodNameAvailable_def pods_def split: if_splits)
  then have av: "assertPodNameAvailable pods (trim name) = Inr ()"
    by (simp add: assertPodNameAvailable_def)
  define e where "e = (case pi_lookupAnswer podsInfo of
                         Some la \<Rightarrow> getNextEpoch c (la_epoch la) (clock net)
                       | None \<Rightarrow> getFirstEpoch c (clock net))"
  define p0 where "p0 = \<lparr>pod_name = trim name, pod_index = Suc (length pods)\<rparr>"
  obtain r1 net1 where w1: "socWriter_upload c net w POD_TOPIC e (Encrypted (PrivateKeyBytes w) (PodsJson (pods @ [p0]))) = (r1, net1)"
    by (cases "socWriter_upload c net w POD_TOPIC e (Encrypted (PrivateKeyBytes w) (PodsJson (pods @ [p0])))")
  define root where "root = createRootDirectory_privateKey c net1 (getWalletByIndex w (Suc (length pods)))"
  have unf: "PersonalStorage_create c net w name =
      (case r1 of Inl err \<Rightarrow> (Inl err, net1)
       | Inr _ \<Rightarrow> (case root of (Inl err, net2) \<Rightarrow> (Inl err, net2) | (Inr _, net2) \<Rightarrow> (Inr p0, net2)))"
    using an gl al av w1
    by (simp add: PersonalStorage_create_def Let_def pods_def [symmetric] e_def [symmetric]
          p0_def [symmetric] root_def writeFeedData_privateKey_def encryptBytes_def split: sum.splits)
  with assms obtain x1 where r1: "r1 = Inr x1" by (cases r1) auto
  from unf assms r1 obtain x2 where rt: "root = (Inr x2, net')" and pp: "p = p0"
    by (cases root) (auto split: sum.splits)
  from w1 r1 have n1: "net1 = net\<lparr>feeds := (feeds net)((w, POD_TOPIC) :=
        (e, Encrypted (PrivateKeyBytes w) (PodsJson (pods @ [p0]))) # feeds net (w, POD_TOPIC))\<rparr>"
    by (simp add: socWriter_upload_Inr)
  from rt obtain e2 d2 where "socWriter_upload c net1 (Derived w (Suc (length pods))) (combine [] ''/'') e2 d2 = (Inr x2, net')"
    by (auto simp: root_def createRootDirectory_privateKey_def writeFeedData_privateKey_def getWalletByIndex_def Let_def)
  then have "net' = net1\<lparr>feeds := (feeds net1)((Derived w (Suc (length pods)), combine [] ''/'') :=
        (e2, d2) # feeds net1 (Derived w (Suc (length pods)), combine [] ''/''))\<rparr>"
    by (rule socWriter_upload_Inr)
  then have "feeds net' (w, POD_TOPIC) = feeds net1 (w, POD_TOPIC)"
    using Derived_neq [of w "Suc (length pods)"] by simp
  then have "feeds net' (w, POD_TOPIC)
      = (e, Encrypted (PrivateKeyBytes w) (PodsJson (pods @ [p0]))) # feeds net (w, POD_TOPIC)"
    using n1 by simp
  then show ?thesis
    using gl an cap fresh pp unfolding pods_def p0_def by (cases u) auto
qed

lemma getPodsList_head:
  "feeds net (w, POD_TOPIC) = (e, Encrypted (PrivateKeyBytes w) (PodsJson ps)) # rest \<Longrightarrow>
     getPodsList net w = Inr \<lparr>pi_pods = ps,
        pi_lookupAnswer = Some \<lparr>la_data = Encrypted (PrivateKeyBytes w) (PodsJson ps), la_epoch = e\<rparr>\<rparr>"
  by (simp add: getPodsList_def getFeedData_def decryptBytes_def)

lemma create_twice:
  "\<forall>p net'. PersonalStorage_create c net w name = (Inr p, net') \<longrightarrow>
     (\<exists>pods. PersonalStorage_list net w = Inr pods
        \<and> p = \<lparr>pod_name = trim name, pod_index = length pods + 1\<rparr>
        \<and> PersonalStorage_list net' w = Inr (pods @ [p])
        \<and> length (filter (\<lambda>q. pod_name q = trim name) (pods @ [p])) = 1
        \<and> (\<exists>e. PersonalStorage_create c net' w name = (Inl e, net'))
        \<and> (length pods + 2 \<le> MAX_PODS_COUNT c \<longrightarrow>
             PersonalStorage_create c net' w name = (Inl (PodAlreadyExists (trim name)), net')))"
proof (intro allI impI)
  fix p net'
  assume cr: "PersonalStorage_create c net w name = (Inr p, net')"
  from create_success [OF cr] obtain podsInfo e rest where
    gl: "getPodsList net w = Inr podsInfo"
    and an: "assertPodName c (trim name) = Inr ()"
    and fresh: "trim name \<notin> set (map pod_name (pi_pods podsInfo))"
    and p: "p = \<lparr>pod_name = trim name, pod_index = length (pi_pods podsInfo) + 1\<rparr>"
    and fd: "feeds net' (w, POD_TOPIC)
               = (e, Encrypted (PrivateKeyBytes w) (PodsJson (pi_pods podsInfo @ [p]))) # rest"
    by blast
  define pods where "pods = pi_pods podsInfo"
  have l0: "PersonalStorage_list net w = Inr pods"
    using gl by (simp add: PersonalStorage_list_def pods_def)
  have gl': "getPodsList net' w = Inr \<lparr>pi_pods = pods @ [p],
      pi_lookupAnswer = Some \<lparr>la_data = Encrypted (PrivateKeyBytes w) (PodsJson (pods @ [p])), la_epoch = e\<rparr>\<rparr>"
    using getPodsList_head [OF fd] by (simp add: pods_def)
  then have l1: "PersonalStorage_list net' w = Inr (pods @ [p])"
    by (simp add: PersonalStorage_list_def)
  have "filter (\<lambda>q. pod_name q = trim name) pods = []"
    using fresh by (force simp: filter_empty_conv pods_def)
  then have one: "length (filter (\<lambda>q. pod_name q = trim name) (pods @ [p])) = 1"
    using p by simp
  have listed: "trim name \<in> set (map pod_name (pods @ [p]))" using p by simp
  have big: "MAX_PODS_COUNT c < length pods + 2 \<longrightarrow>
             PersonalStorage_create c net' w name = (Inl TooManyPods, net')"
    using an gl' by (simp add: PersonalStorage_create_def Let_def assertPodsLength_def)
  have small: "length pods + 2 \<le> MAX_PODS_COUNT c \<longrightarrow>
             PersonalStorage_create c net' w name = (Inl (PodAlreadyExists (trim name)), net')"
    using an gl' listed
    by (simp add: PersonalStorage_create_def Let_def assertPodsLength_def assertPodNameAvailable_def)
  have fails: "\<exists>e. PersonalStorage_create c net' w name = (Inl e, net')"
    using big small by (cases "MAX_PODS_COUNT c < length pods + 2") auto
  show "\<exists>pods. PersonalStorage_list net w = Inr pods
        \<and> p = \<lparr>pod_name = trim name, pod_index = length pods + 1\<rparr>
        \<and> PersonalStorage_list net' w = Inr (pods @ [p])
        \<and> length (filter (\<lambda>q. pod_name q = trim name) (pods @ [p])) = 1
        \<and> (\<exists>e. PersonalStorage_create c net' w name = (Inl e, net'))
        \<and> (length pods + 2 \<le> MAX_PODS_COUNT c \<longrightarrow>
             PersonalStorage_create c net' w name = (Inl (PodAlreadyExists (trim name)), net'))"
    using l0 p l1 one fails small unfolding pods_def by blast
qed

lemma trim_examples:
  "trim ''photos'' = ''photos'' \<and> trim ''a'' = ''a'' \<and> trim '' photos  '' = ''photos''"
  by (simp add: trim_def is_white_space_def)

lemma create_example:
  "\<exists>net'. PersonalStorage_create example_constants empty_network (Account 0) ''photos''
            = (Inr \<lparr>pod_name = ''photos'', pod_index = 1\<rparr>, net')"
  by (simp add: PersonalStorage_create_def trim_examples assertPodName_def getPodsList_def getFeedData_def
        assertPodsLength_def assertPodNameAvailable_def getFirstEpoch_def writeFeedData_privateKey_def
        encryptBytes_def socWriter_upload_def createRootDirectory_privateKey_def getWalletByIndex_def combine_def POD_TOPIC_def
        example_constants_def empty_network_def Let_def)

text \<open>
  Claim C6. When \<^verbatim>\<open>create\<close> succeeds, the pod it returns has the trimmed name and the
  index that is one more than the number of pods the account had (1 on an account
  without pods); \<^verbatim>\<open>list\<close> afterwards returns the old pods followed by the new one, so
  exactly one pod has that name. A second \<^verbatim>\<open>create\<close> of the same name fails and changes
  nothing, and the error is the already-exists one as long as one more pod would still
  be within the cap on the number of pods, a constant that is not part of the sources at
  hand.
\<close>

theorem create_appends_pod:
  "\<forall>p net'. PersonalStorage_create c net w name = (Inr p, net') \<longrightarrow>
     (\<exists>pods. PersonalStorage_list net w = Inr pods
        \<and> p = \<lparr>pod_name = trim name, pod_index = length pods + 1\<rparr>
        \<and> PersonalStorage_list net' w = Inr (pods @ [p])
        \<and> length (filter (\<lambda>q. pod_name q = trim name) (pods @ [p])) = 1
        \<and> (\<exists>e. PersonalStorage_create c net' w name = (Inl e, net'))
        \<and> (length pods + 2 \<le> MAX_PODS_COUNT c \<longrightarrow>
             PersonalStorage_create c net' w name = (Inl (PodAlreadyExists (trim name)), net')))"
  by (rule create_twice)

theorem create_appends_pod_witness:
  "\<exists>net'. PersonalStorage_create example_constants empty_network (Account 0) ''photos''
            = (Inr \<lparr>pod_name = ''photos'', pod_index = 1\<rparr>, net')
          \<and> PersonalStorage_list empty_network (Account 0) = Inr []
          \<and> PersonalStorage_list net' (Account 0) = Inr [\<lparr>pod_name = ''photos'', pod_index = 1\<rparr>]
          \<and> PersonalStorage_create example_constants net' (Account 0) ''photos''
              = (Inl (PodAlreadyExists ''photos''), net')"
proof -
  obtain net' where cr: "PersonalStorage_create example_constants empty_network (Account 0) ''photos''
            = (Inr \<lparr>pod_name = ''photos'', pod_index = 1\<rparr>, net')"
    using create_example by blast
  have l0: "PersonalStorage_list empty_network (Account 0) = Inr []"
    by (simp add: PersonalStorage_list_def getPodsList_def getFeedData_def empty_network_def)
  from create_appends_pod [where c = example_constants and net = empty_network and w = "Account 0"
      and name = "''photos''"] cr
  obtain pods where
    "PersonalStorage_list empty_network (Account 0) = Inr pods"
    "PersonalStorage_list net' (Account 0) = Inr (pods @ [\<lparr>pod_name = ''photos'', pod_index = 1\<rparr>])"
    "length pods + 2 \<le> MAX_PODS_COUNT example_constants \<longrightarrow>
       PersonalStorage_create example_constants net' (Account 0) ''photos''
         = (Inl (PodAlreadyExists (trim ''photos'')), net')"
    by blast
  with l0 cr show ?thesis by (auto simp: trim_examples example_constants_def)
qed

section \<open>Pod names are trimmed\<close>

lemma create_trim: "PersonalStorage_create c net w name = PersonalStorage_create c net w (trim name)"
  by (simp add: PersonalStorage_create_def trim_idem)

lemma delete_trim: "PersonalStorage_delete c net w name = PersonalStorage_delete c net w (trim name)"
  by (simp add: PersonalStorage_delete_def trim_idem)

lemma find_Some_member:
  "find P xs = Some x \<Longrightarrow> x \<in> set xs \<and> P x"
  by (induction xs) (auto split: if_splits)

lemma delete_success:
  assumes "PersonalStorage_delete c net w name = (Inr u, net')"
  shows "\<exists>pods. PersonalStorage_list net w = Inr pods
           \<and> trim name \<in> set (map pod_name pods)
           \<and> PersonalStorage_list net' w = Inr (filter (\<lambda>item. pod_name item \<noteq> trim name) pods)"
proof -
  from assms obtain podsInfo where gl: "getPodsList net w = Inr podsInfo"
    by (cases "getPodsList net w") (auto simp: PersonalStorage_delete_def Let_def)
  define pods where "pods = pi_pods podsInfo"
  from assms gl have al: "assertPodsLength c (length pods) = Inr ()"
    by (cases "assertPodsLength c (length pods)") (auto simp: PersonalStorage_delete_def Let_def pods_def)
  from assms gl al obtain p where f: "find (\<lambda>item. pod_name item = trim name) pods = Some p"
    by (cases "find (\<lambda>item. pod_name item = trim name) pods")
       (auto simp: PersonalStorage_delete_def Let_def pods_def)
  from find_Some_member [OF this] have "p \<in> set pods" "pod_name p = trim name" by simp_all
  then have mem: "trim name \<in> set (map pod_name pods)"
    by (metis image_eqI set_map)
  from assms gl al f obtain la where la: "pi_lookupAnswer podsInfo = Some la"
    by (cases "pi_lookupAnswer podsInfo") (auto simp: PersonalStorage_delete_def Let_def pods_def)
  define e where "e = getNextEpoch c (la_epoch la) (clock net)"
  define filtered where "filtered = filter (\<lambda>item. pod_name item \<noteq> trim name) pods"
  obtain r1 net1 where w1: "socWriter_upload c net w POD_TOPIC e (Encrypted (PrivateKeyBytes w) (PodsJson filtered)) = (r1, net1)"
    by (cases "socWriter_upload c net w POD_TOPIC e (Encrypted (PrivateKeyBytes w) (PodsJson filtered))")
  have "PersonalStorage_delete c net w name =
          (case r1 of Inl err \<Rightarrow> (Inl err, net1) | Inr _ \<Rightarrow> (Inr (), net1))"
    using gl al f la w1
    by (simp add: PersonalStorage_delete_def Let_def pods_def [symmetric] e_def [symmetric]
          filtered_def [symmetric] writeFeedData_privateKey_def encryptBytes_def split: sum.splits)
  with assms obtain x where "r1 = Inr x" and n: "net' = net1" by (cases r1) auto
  with w1 have "net' = net\<lparr>feeds := (feeds net)((w, POD_TOPIC) := (e, Encrypted (PrivateKeyBytes w) (PodsJson filtered)) # feeds net (w, POD_TOPIC))\<rparr>"
    by (simp add: socWriter_upload_Inr)
  then have "feeds net' (w, POD_TOPIC) = (e, Encrypted (PrivateKeyBytes w) (PodsJson filtered)) # feeds net (w, POD_TOPIC)" by simp
  then have "PersonalStorage_list net' w = Inr filtered"
    by (simp add: PersonalStorage_list_def getPodsList_head)
  moreover have "PersonalStorage_list net w = Inr pods"
    using gl by (simp add: PersonalStorage_list_def pods_def)
  ultimately show ?thesis using mem unfolding filtered_def by blast
qed

lemma delete_example:
  "\<exists>net'. PersonalStorage_delete example_constants one_pod_network (Account 0) ''photos'' = (Inr (), net')"
  by (simp add: PersonalStorage_delete_def trim_examples getPodsList_def getFeedData_def decryptBytes_def
        assertPodsLength_def getNextEpoch_def getFirstEpoch_def writeFeedData_privateKey_def encryptBytes_def
        socWriter_upload_def POD_TOPIC_def example_constants_def empty_network_def one_pod_network_def
        Let_def)

lemma one_pod_list:
  "PersonalStorage_list one_pod_network (Account 0) = Inr [\<lparr>pod_name = ''photos'', pod_index = 1\<rparr>]"
  by (simp add: PersonalStorage_list_def getPodsList_def getFeedData_def decryptBytes_def one_pod_network_def)

text \<open>
  Claim C10. \<^verbatim>\<open>create\<close> and \<^verbatim>\<open>delete\<close> see a name only through \<^verbatim>\<open>trim\<close>: each of them does
  on a name exactly what it does on the trimmed name, so two names with the same
  trimmed form are the same pod to them. The pod that \<^verbatim>\<open>create\<close> returns and registers is
  named by the trimmed name, and a \<^verbatim>\<open>delete\<close> that succeeds has found the trimmed name in
  the list and leaves the list without the pods of that name.
\<close>

theorem pod_names_are_trimmed:
  "PersonalStorage_create c net w name = PersonalStorage_create c net w (trim name)
   \<and> PersonalStorage_delete c net w name = PersonalStorage_delete c net w (trim name)
   \<and> (trim name = trim name' \<longrightarrow>
        PersonalStorage_create c net w name = PersonalStorage_create c net w name'
        \<and> PersonalStorage_delete c net w name = PersonalStorage_delete c net w name')
   \<and> (\<forall>p net'. PersonalStorage_create c net w name = (Inr p, net') \<longrightarrow>
        pod_name p = trim name
        \<and> (\<exists>pods. PersonalStorage_list net' w = Inr pods \<and> p \<in> set pods))
   \<and> (\<forall>u net'. PersonalStorage_delete c net w name = (Inr u, net') \<longrightarrow>
        (\<exists>pods. PersonalStorage_list net w = Inr pods
           \<and> trim name \<in> set (map pod_name pods)
           \<and> PersonalStorage_list net' w = Inr (filter (\<lambda>item. pod_name item \<noteq> trim name) pods)))"
proof -
  have a: "PersonalStorage_create c net w name = PersonalStorage_create c net w (trim name)"
    by (rule create_trim)
  have b: "PersonalStorage_delete c net w name = PersonalStorage_delete c net w (trim name)"
    by (rule delete_trim)
  have s: "trim name = trim name' \<longrightarrow>
        PersonalStorage_create c net w name = PersonalStorage_create c net w name'
        \<and> PersonalStorage_delete c net w name = PersonalStorage_delete c net w name'"
    using create_trim [of c net w name] create_trim [of c net w name']
      delete_trim [of c net w name] delete_trim [of c net w name'] by simp
  have cr: "\<forall>p net'. PersonalStorage_create c net w name = (Inr p, net') \<longrightarrow>
        pod_name p = trim name
        \<and> (\<exists>pods. PersonalStorage_list net' w = Inr pods \<and> p \<in> set pods)"
  proof (intro allI impI)
    fix p net'
    assume h: "PersonalStorage_create c net w name = (Inr p, net')"
    from create_twice [of c net w name] h obtain pods where
      "p = \<lparr>pod_name = trim name, pod_index = length pods + 1\<rparr>"
      "PersonalStorage_list net' w = Inr (pods @ [p])" by blast
    then show "pod_name p = trim name
        \<and> (\<exists>pods. PersonalStorage_list net' w = Inr pods \<and> p \<in> set pods)"
      by auto
  qed
  have de: "\<forall>u net'. PersonalStorage_delete c net w name = (Inr u, net') \<longrightarrow>
        (\<exists>pods. PersonalStorage_list net w = Inr pods
           \<and> trim name \<in> set (map pod_name pods)
           \<and> PersonalStorage_list net' w = Inr (filter (\<lambda>item. pod_name item \<noteq> trim name) pods))"
    using delete_success by blast
  show ?thesis by (rule conjI [OF a conjI [OF b conjI [OF s conjI [OF cr de]]]])
qed

theorem pod_names_are_trimmed_witness:
  "(\<exists>net'. PersonalStorage_create example_constants empty_network (Account 0) '' photos  ''
             = (Inr \<lparr>pod_name = ''photos'', pod_index = 1\<rparr>, net')
           \<and> (\<exists>pods. PersonalStorage_list net' (Account 0) = Inr pods
                 \<and> \<lparr>pod_name = ''photos'', pod_index = 1\<rparr> \<in> set pods))
   \<and> (\<exists>net'. PersonalStorage_delete example_constants one_pod_network (Account 0) '' photos  ''
             = (Inr (), net')
           \<and> PersonalStorage_list net' (Account 0) = Inr [])"
proof -
  note t0 = pod_names_are_trimmed [where c = example_constants and net = empty_network and w = "Account 0"
      and name = "'' photos  ''" and name' = "''photos''"]
  note t1 = pod_names_are_trimmed [where c = example_constants and net = one_pod_network and w = "Account 0"
      and name = "'' photos  ''" and name' = "''photos''"]
  have tr: "trim '' photos  '' = trim ''photos''" by (simp add: trim_examples)
  obtain net1 where "PersonalStorage_create example_constants empty_network (Account 0) ''photos''
            = (Inr \<lparr>pod_name = ''photos'', pod_index = 1\<rparr>, net1)"
    using create_example by blast
  with t0 tr have c1: "PersonalStorage_create example_constants empty_network (Account 0) '' photos  ''
            = (Inr \<lparr>pod_name = ''photos'', pod_index = 1\<rparr>, net1)"
    by metis
  with t0 have c2: "\<exists>pods. PersonalStorage_list net1 (Account 0) = Inr pods
                 \<and> \<lparr>pod_name = ''photos'', pod_index = 1\<rparr> \<in> set pods"
    by blast
  obtain net2 where "PersonalStorage_delete example_constants one_pod_network (Account 0) ''photos''
            = (Inr (), net2)"
    using delete_example by blast
  with t1 tr have d1: "PersonalStorage_delete example_constants one_pod_network (Account 0) '' photos  ''
            = (Inr (), net2)"
    by metis
  with t1 obtain pods where
    "PersonalStorage_list one_pod_network (Account 0) = Inr pods"
    "PersonalStorage_list net2 (Account 0)
       = Inr (filter (\<lambda>item. pod_name item \<noteq> trim '' photos  '') pods)"
    by blast
  then have d2: "PersonalStorage_list net2 (Account 0) = Inr []"
    by (auto simp: one_pod_list trim_examples)
  from c1 c2 d1 d2 show ?thesis by blast
qed

section \<open>Deleting a name that is not there\<close>

lemma find_None_absent:
  "x \<notin> set (map f xs) \<Longrightarrow> find (\<lambda>item. f item = x) xs = None"
  by (induction xs) auto

lemma writeFeedData_read_back:
  assumes "writeFeedData c net topic (DirJson d) w pw eo = (Inr r, net')"
    and "getRawMetadata net topic w pw = Inr m" and "rm_metadata m = RawDirectory d"
  shows "\<exists>m'. getRawMetadata net' topic w pw = Inr m' \<and> rm_metadata m' = RawDirectory d"
proof -
  have "feeds net' (w, topic) = feeds net (w, topic)
        \<or> (\<exists>e. feeds net' (w, topic) = (e, encryptBytes pw (DirJson d)) # feeds net (w, topic))"
    using writeFeedDataRaw_feeds [of c net topic "encryptBytes pw (DirJson d)" w eo "(w, topic)"] assms(1)
    by (simp add: writeFeedData_def)
  then show ?thesis
  proof
    assume "feeds net' (w, topic) = feeds net (w, topic)"
    then have "getRawMetadata net' topic w pw = getRawMetadata net topic w pw"
      by (simp add: getRawMetadata_def getFeedData_def)
    with assms(2,3) show ?thesis by simp
  next
    assume "\<exists>e. feeds net' (w, topic) = (e, encryptBytes pw (DirJson d)) # feeds net (w, topic)"
    then show ?thesis
      by (auto simp: getRawMetadata_def getFeedData_def decryptBytes_def encryptBytes_def)
  qed
qed

lemma one_pod_info:
  "getPodsList one_pod_network (Account 0) =
     Inr \<lparr>pi_pods = [\<lparr>pod_name = ''photos'', pod_index = 1\<rparr>],
          pi_lookupAnswer = Some \<lparr>la_data = Encrypted (PrivateKeyBytes (Account 0))
                                       (PodsJson [\<lparr>pod_name = ''photos'', pod_index = 1\<rparr>]),
                                   la_epoch = \<lparr>level = 31, time = 1000\<rparr>\<rparr>\<rparr>"
  by (simp add: getPodsList_def getFeedData_def decryptBytes_def one_pod_network_def)

lemma pod_network_root:
  "getRawMetadata pod_network ''/'' example_pod_wallet example_password =
     Inr \<lparr>rm_epoch = \<lparr>level = 31, time = 1000\<rparr>,
          rm_metadata = RawDirectory \<lparr>meta = \<lparr>dm_version = 1, dm_path = [], dm_name = ''/'',
             dm_creationTime = 1000, dm_modificationTime = 1000, dm_accessTime = 1000\<rparr>,
             fileOrDirNames = None\<rparr>\<rparr>"
  by (simp add: getRawMetadata_def getFeedData_def decryptBytes_def pod_network_feeds)

lemma remove_absent_example:
  "removeEntryFromDirectory example_constants pod_network example_pod_wallet example_password ''/''
       ''nothing.txt'' True
     = (Inr (SocAddress example_pod_wallet ''/'' \<lparr>level = 30, time = 1000\<rparr>),
        pod_network\<lparr>feeds := (feeds pod_network)((example_pod_wallet, ''/'') :=
           (\<lparr>level = 30, time = 1000\<rparr>,
            Encrypted example_password (DirJson \<lparr>meta = \<lparr>dm_version = 1, dm_path = [], dm_name = ''/'',
               dm_creationTime = 1000, dm_modificationTime = 1000, dm_accessTime = 1000\<rparr>,
               fileOrDirNames = None\<rparr>))
           # feeds pod_network (example_pod_wallet, ''/''))\<rparr>)"
  by (simp add: removeEntryFromDirectory_def pod_network_root writeFeedData_def writeFeedDataRaw_def
        socWriter_upload_def encryptBytes_def getNextEpoch_def pod_network_feeds pod_network_rest Let_def)

text \<open>
  Claim C3, as the code has it. \<^verbatim>\<open>PersonalStorage.delete\<close> of a name that no pod of the list
  has fails and leaves the network as it was; the error is \<^verbatim>\<open>Pod ... does not exist\<close>
  when the list is within the cap, which is checked first. \<^verbatim>\<open>removeEntryFromDirectory\<close>,
  which deletes a directory or a file, has no such check: when the entry is not in the
  parent's list it writes the parent's metadata, unchanged, as the next version of the
  parent's feed, and when that write succeeds a read of the parent returns the same
  metadata as before.
\<close>

theorem delete_of_absent_name:
  "(\<forall>podsInfo. getPodsList net w = Inr podsInfo
        \<and> trim name \<notin> set (map pod_name (pi_pods podsInfo)) \<longrightarrow>
      (\<exists>e. PersonalStorage_delete c net w name = (Inl e, net))
      \<and> (length (pi_pods podsInfo) \<le> MAX_PODS_COUNT c \<longrightarrow>
           PersonalStorage_delete c net w name = (Inl (PodNotFound (trim name)), net)))
   \<and> (\<forall>m d. getRawMetadata net parentPath wp pw = Inr m \<and> rm_metadata m = RawDirectory d
        \<and> (if isFile then FILE_TOKEN else DIRECTORY_TOKEN) @ entryPath
              \<notin> set (case fileOrDirNames d of None \<Rightarrow> [] | Some ns \<Rightarrow> ns) \<longrightarrow>
      removeEntryFromDirectory c net wp pw parentPath entryPath isFile =
        writeFeedData c net parentPath (DirJson d) wp pw (Some (getNextEpoch c (rm_epoch m) (clock net)))
      \<and> (\<forall>r net'. removeEntryFromDirectory c net wp pw parentPath entryPath isFile = (Inr r, net') \<longrightarrow>
            (\<exists>m'. getRawMetadata net' parentPath wp pw = Inr m' \<and> rm_metadata m' = RawDirectory d)))"
proof -
  have a: "\<forall>podsInfo. getPodsList net w = Inr podsInfo
        \<and> trim name \<notin> set (map pod_name (pi_pods podsInfo)) \<longrightarrow>
      (\<exists>e. PersonalStorage_delete c net w name = (Inl e, net))
      \<and> (length (pi_pods podsInfo) \<le> MAX_PODS_COUNT c \<longrightarrow>
           PersonalStorage_delete c net w name = (Inl (PodNotFound (trim name)), net))"
  proof (intro allI impI)
    fix podsInfo
    assume h: "getPodsList net w = Inr podsInfo
        \<and> trim name \<notin> set (map pod_name (pi_pods podsInfo))"
    then have "trim name \<notin> set (map pod_name (pi_pods podsInfo))" by simp
    then have f: "find (\<lambda>item. pod_name item = trim name) (pi_pods podsInfo) = None"
      by (rule find_None_absent)
    have 1: "\<exists>e. PersonalStorage_delete c net w name = (Inl e, net)"
      using h f by (cases "assertPodsLength c (length (pi_pods podsInfo))")
                   (auto simp: PersonalStorage_delete_def Let_def)
    have 2: "length (pi_pods podsInfo) \<le> MAX_PODS_COUNT c \<longrightarrow>
           PersonalStorage_delete c net w name = (Inl (PodNotFound (trim name)), net)"
      using h f by (auto simp: PersonalStorage_delete_def Let_def assertPodsLength_def)
    from 1 2 show "(\<exists>e. PersonalStorage_delete c net w name = (Inl e, net))
      \<and> (length (pi_pods podsInfo) \<le> MAX_PODS_COUNT c \<longrightarrow>
           PersonalStorage_delete c net w name = (Inl (PodNotFound (trim name)), net))"
      by (rule conjI)
  qed
  have b: "\<forall>m d. getRawMetadata net parentPath wp pw = Inr m \<and> rm_metadata m = RawDirectory d
        \<and> (if isFile then FILE_TOKEN else DIRECTORY_TOKEN) @ entryPath
              \<notin> set (case fileOrDirNames d of None \<Rightarrow> [] | Some ns \<Rightarrow> ns) \<longrightarrow>
      removeEntryFromDirectory c net wp pw parentPath entryPath isFile =
        writeFeedData c net parentPath (DirJson d) wp pw (Some (getNextEpoch c (rm_epoch m) (clock net)))
      \<and> (\<forall>r net'. removeEntryFromDirectory c net wp pw parentPath entryPath isFile = (Inr r, net') \<longrightarrow>
            (\<exists>m'. getRawMetadata net' parentPath wp pw = Inr m' \<and> rm_metadata m' = RawDirectory d))"
  proof (intro allI impI)
    fix m d
    assume h: "getRawMetadata net parentPath wp pw = Inr m \<and> rm_metadata m = RawDirectory d
        \<and> (if isFile then FILE_TOKEN else DIRECTORY_TOKEN) @ entryPath
              \<notin> set (case fileOrDirNames d of None \<Rightarrow> [] | Some ns \<Rightarrow> ns)"
    define item where "item = (if isFile then FILE_TOKEN else DIRECTORY_TOKEN) @ entryPath"
    have same: "(case fileOrDirNames d of None \<Rightarrow> d
                 | Some ns \<Rightarrow> d\<lparr>fileOrDirNames := Some (filter (\<lambda>name. name \<noteq> item) ns)\<rparr>) = d"
    proof (cases "fileOrDirNames d")
      case None
      then show ?thesis by simp
    next
      case (Some ns)
      with h have "item \<notin> set ns" by (simp add: item_def)
      then have "filter (\<lambda>name. name \<noteq> item) ns = ns" by (auto simp: filter_id_conv)
      with Some show ?thesis by simp
    qed
    have 1: "removeEntryFromDirectory c net wp pw parentPath entryPath isFile =
        writeFeedData c net parentPath (DirJson d) wp pw (Some (getNextEpoch c (rm_epoch m) (clock net)))"
      using h same by (simp add: removeEntryFromDirectory_def Let_def item_def [symmetric])
    have 2: "\<forall>r net'. removeEntryFromDirectory c net wp pw parentPath entryPath isFile = (Inr r, net') \<longrightarrow>
            (\<exists>m'. getRawMetadata net' parentPath wp pw = Inr m' \<and> rm_metadata m' = RawDirectory d)"
      unfolding 1 using writeFeedData_read_back h by blast
    from 1 2 show "removeEntryFromDirectory c net wp pw parentPath entryPath isFile =
        writeFeedData c net parentPath (DirJson d) wp pw (Some (getNextEpoch c (rm_epoch m) (clock net)))
      \<and> (\<forall>r net'. removeEntryFromDirectory c net wp pw parentPath entryPath isFile = (Inr r, net') \<longrightarrow>
            (\<exists>m'. getRawMetadata net' parentPath wp pw = Inr m' \<and> rm_metadata m' = RawDirectory d))"
      by (rule conjI)
  qed
  show ?thesis by (rule conjI [OF a b])
qed

theorem delete_of_absent_name_witness:
  "PersonalStorage_delete example_constants one_pod_network (Account 0) ''nope''
     = (Inl (PodNotFound ''nope''), one_pod_network)
   \<and> (\<exists>r net'. removeEntryFromDirectory example_constants pod_network example_pod_wallet
                   example_password ''/'' ''nothing.txt'' True = (Inr r, net')
         \<and> (\<exists>m'. getRawMetadata net' ''/'' example_pod_wallet example_password = Inr m'
               \<and> rm_metadata m' = RawDirectory \<lparr>meta = \<lparr>dm_version = 1, dm_path = [], dm_name = ''/'',
                    dm_creationTime = 1000, dm_modificationTime = 1000, dm_accessTime = 1000\<rparr>,
                    fileOrDirNames = None\<rparr>))"
proof -
  define root where "root = \<lparr>meta = \<lparr>dm_version = 1, dm_path = [], dm_name = ''/'',
       dm_creationTime = 1000, dm_modificationTime = 1000, dm_accessTime = 1000\<rparr>,
       fileOrDirNames = (None :: string list option)\<rparr>"
  note t0 = delete_of_absent_name [where c = example_constants and net = one_pod_network
      and w = "Account 0" and name = "''nope''"]
  note t1 = delete_of_absent_name [where c = example_constants and net = pod_network
      and wp = example_pod_wallet and pw = example_password and parentPath = "''/''"
      and entryPath = "''nothing.txt''" and isFile = True]
  have tr: "trim ''nope'' = ''nope''" by (simp add: trim_def is_white_space_def)
  have h0: "trim ''nope'' \<notin> set (map pod_name [\<lparr>pod_name = ''photos'', pod_index = 1\<rparr>])
            \<and> length [\<lparr>pod_name = ''photos'', pod_index = 1 :: nat\<rparr>] \<le> MAX_PODS_COUNT example_constants"
    by (simp add: tr example_constants_def)
  from t0 one_pod_info h0
  have "PersonalStorage_delete example_constants one_pod_network (Account 0) ''nope''
     = (Inl (PodNotFound (trim ''nope'')), one_pod_network)"
    by (metis pods_info.select_convs(1))
  then have a: "PersonalStorage_delete example_constants one_pod_network (Account 0) ''nope''
     = (Inl (PodNotFound ''nope''), one_pod_network)"
    by (simp add: tr)
  have h1: "getRawMetadata pod_network ''/'' example_pod_wallet example_password =
              Inr \<lparr>rm_epoch = \<lparr>level = 31, time = 1000\<rparr>, rm_metadata = RawDirectory root\<rparr>"
    unfolding root_def by (rule pod_network_root)
  have h2: "rm_metadata \<lparr>rm_epoch = \<lparr>level = 31, time = 1000\<rparr>, rm_metadata = RawDirectory root\<rparr>
              = RawDirectory root" by simp
  have h3: "(if True then FILE_TOKEN else DIRECTORY_TOKEN) @ ''nothing.txt''
              \<notin> set (case fileOrDirNames root of None \<Rightarrow> [] | Some ns \<Rightarrow> ns)"
    by (simp add: root_def)
  obtain r net' where rm: "removeEntryFromDirectory example_constants pod_network example_pod_wallet
                   example_password ''/'' ''nothing.txt'' True = (Inr r, net')"
    using remove_absent_example by blast
  from t1 h1 h2 h3 rm
  have "\<exists>m'. getRawMetadata net' ''/'' example_pod_wallet example_password = Inr m'
               \<and> rm_metadata m' = RawDirectory root"
    by blast
  with a rm show ?thesis unfolding root_def by blast
qed

theorem remove_absent_entry_counterexample:
  "fst (removeEntryFromDirectory example_constants pod_network example_pod_wallet example_password ''/''
          ''nothing.txt'' True)
     = Inr (SocAddress example_pod_wallet ''/'' \<lparr>level = 30, time = 1000\<rparr>)
   \<and> length (feeds (snd (removeEntryFromDirectory example_constants pod_network example_pod_wallet
                            example_password ''/'' ''nothing.txt'' True)) (example_pod_wallet, ''/'')) = 2
   \<and> length (feeds pod_network (example_pod_wallet, ''/'')) = 1"
  by (simp add: remove_absent_example pod_network_feeds)

end
